theory Spec2Isabelle
  imports Complex_Main "HOL-Library.AList"
begin

section \<open>Numeric primitives (core/math/vec2.ts)\<close>

text \<open>
  JavaScript numbers are modelled as mathematical reals: rounding, infinities and NaN are
  outside the model. A thrown exception is a value of type \<open>error\<close> on the left of a sum.
  The record fields of \<open>Vec2\<close> are called \<open>vx\<close> and \<open>vy\<close> (the source's \<open>x\<close> and \<open>y\<close>); the
  memoised \<open>_length\<close>, \<open>_lengthSquared\<close> and \<open>_normalized\<close> caches hold values that are
  functions of \<open>x\<close> and \<open>y\<close> and are recomputed here.
\<close>

datatype error = Error string | TypeError string

record Vec2 =
  vx :: real
  vy :: real

definition ZERO :: Vec2 where
  "ZERO = \<lparr>vx = 0, vy = 0\<rparr>"

definition lengthSquared :: "Vec2 \<Rightarrow> real" where
  "lengthSquared v = vx v * vx v + vy v * vy v"

definition vlength :: "Vec2 \<Rightarrow> real" where
  "vlength v = sqrt (lengthSquared v)"

definition normalized :: "Vec2 \<Rightarrow> Vec2" where
  "normalized v =
     (let len = vlength v in
      if len = 0 then ZERO else \<lparr>vx = vx v / len, vy = vy v / len\<rparr>)"

definition perpendicular :: "Vec2 \<Rightarrow> Vec2" where
  "perpendicular v = \<lparr>vx = - vy v, vy = vx v\<rparr>"

definition add :: "Vec2 \<Rightarrow> Vec2 \<Rightarrow> Vec2" where
  "add a b = \<lparr>vx = vx a + vx b, vy = vy a + vy b\<rparr>"

definition subtract :: "Vec2 \<Rightarrow> Vec2 \<Rightarrow> Vec2" where
  "subtract a b = \<lparr>vx = vx a - vx b, vy = vy a - vy b\<rparr>"

definition multiply :: "Vec2 \<Rightarrow> real \<Rightarrow> Vec2" where
  "multiply v scalar = \<lparr>vx = vx v * scalar, vy = vy v * scalar\<rparr>"

definition divide :: "Vec2 \<Rightarrow> real \<Rightarrow> error + Vec2" where
  "divide v scalar =
     (if scalar = 0 then Inl (Error ''Division by zero'')
      else Inr \<lparr>vx = vx v / scalar, vy = vy v / scalar\<rparr>)"

definition dot :: "Vec2 \<Rightarrow> Vec2 \<Rightarrow> real" where
  "dot a b = vx a * vx b + vy a * vy b"

definition cross :: "Vec2 \<Rightarrow> Vec2 \<Rightarrow> real" where
  "cross a b = vx a * vy b - vy a * vx b"

definition distanceTo :: "Vec2 \<Rightarrow> Vec2 \<Rightarrow> real" where
  "distanceTo a b = vlength (subtract a b)"

definition distanceToSquared :: "Vec2 \<Rightarrow> Vec2 \<Rightarrow> real" where
  "distanceToSquared a b = lengthSquared (subtract a b)"

definition lerp :: "Vec2 \<Rightarrow> Vec2 \<Rightarrow> real \<Rightarrow> Vec2" where
  "lerp a b t = \<lparr>vx = vx a + (vx b - vx a) * t, vy = vy a + (vy b - vy a) * t\<rparr>"

text \<open>
  \<open>Math.atan2\<close> (for the zero vector JavaScript returns 0 when both arguments are \<open>+0\<close>), and
  \<open>Vec2.angleTo\<close>.
\<close>

definition atan2 :: "real \<Rightarrow> real \<Rightarrow> real" where
  "atan2 b a =
     (if a > 0 then arctan (b / a)
      else if a < 0 \<and> b \<ge> 0 then arctan (b / a) + pi
      else if a < 0 \<and> b < 0 then arctan (b / a) - pi
      else if b > 0 then pi / 2
      else if b < 0 then - (pi / 2)
      else 0)"

definition angleTo :: "Vec2 \<Rightarrow> Vec2 \<Rightarrow> real" where
  "angleTo a b = atan2 (cross a b) (dot a b)"

text \<open>\<open>Array.prototype.slice(start)\<close>: a negative \<open>start\<close> counts from the end.\<close>

definition slice_from :: "int \<Rightarrow> 'a list \<Rightarrow> 'a list" where
  "slice_from start xs =
     (if start < 0 then drop (nat (int (length xs) + start)) xs else drop (nat start) xs)"

section \<open>Multi-coordinate points and pointer states (core/math/pt.ts, input/pointer-events.ts)\<close>

record Mat3 =
  m00 :: real
  m01 :: real
  m02 :: real
  m10 :: real
  m11 :: real
  m12 :: real
  m20 :: real
  m21 :: real
  m22 :: real

definition IDENTITY :: Mat3 where
  "IDENTITY = \<lparr>m00 = 1, m01 = 0, m02 = 0, m10 = 0, m11 = 1, m12 = 0, m20 = 0, m21 = 0, m22 = 1\<rparr>"

record CoordinateTransforms =
  screenToViewport :: Mat3
  viewportToWorld :: Mat3
  worldToViewport :: Mat3
  viewportToScreen :: Mat3

text \<open>
  A \<open>Pt\<close> stores its world coordinates and the transforms it was created with; the screen
  and viewport coordinates are caches derived from these two.
\<close>

record Pt =
  worldCoordinates :: Vec2
  transforms :: CoordinateTransforms

text \<open>\<open>Pt.lerp\<close> with the default coordinate system \<open>WORLD\<close>.\<close>

definition Pt_lerp :: "Pt \<Rightarrow> Pt \<Rightarrow> real \<Rightarrow> Pt" where
  "Pt_lerp a b t =
     \<lparr>worldCoordinates = lerp (worldCoordinates a) (worldCoordinates b) t,
      transforms = transforms a\<rparr>"

datatype PointerType = TOUCH | MOUSE | PEN | UNKNOWN

record PointerState =
  ptr_id :: int
  ptr_type :: PointerType
  ptr_position :: Vec2
  ptr_worldPosition :: Pt
  ptr_pressure :: real
  ptr_tangentialPressure :: real
  ptr_tiltX :: real
  ptr_tiltY :: real
  ptr_twist :: real
  ptr_width :: real
  ptr_height :: real
  ptr_timestamp :: real
  ptr_button :: int
  ptr_buttons :: int
  ptr_isPrimary :: bool

text \<open>\<open>PointerUtils.calculateCentroid\<close> and \<open>PointerUtils.calculateSpread\<close>.\<close>

definition calculateCentroid :: "PointerState list \<Rightarrow> error + Vec2" where
  "calculateCentroid pointers =
     (if length pointers = 0 then Inr ZERO
      else divide (foldl (\<lambda>sum pointer. add sum (ptr_position pointer)) ZERO pointers)
                  (real (length pointers)))"

definition calculateSpread :: "PointerState list \<Rightarrow> error + real" where
  "calculateSpread pointers =
     (if length pointers < 2 then Inr 0
      else case calculateCentroid pointers of
             Inl e \<Rightarrow> Inl e
           | Inr centroid \<Rightarrow>
               Inr (foldl (\<lambda>totalDistance pointer.
                             totalDistance + distanceTo (ptr_position pointer) centroid) 0 pointers
                    / real (length pointers)))"

section \<open>Corner detector (input/corner-detector.ts)\<close>

datatype RunType = line | curve

record CornerSegment =
  startIndex :: nat
  endIndex :: nat
  run_type :: RunType
  quality :: real

record CornerDetectionResult =
  cd_cornerIndices :: "nat list"
  cd_curvatures :: "real list"
  cd_confidence :: "real list"
  cd_segments :: "CornerSegment list"

text \<open>
  \<open>smoothingWindow\<close> is used as an array size and as an index offset and is modelled as a
  natural number. The options \<open>minSegmentLength\<close> and \<open>confidenceThreshold\<close> carry the prefix
  \<open>cd_\<close> (the conversion options have fields of the same names), and the flag
  \<open>filterNearbyCorners\<close> is \<open>filterNearbyCorners_enabled\<close> (the method has the same name).
\<close>

record CornerDetectionOptions =
  curvatureThreshold :: real
  cd_minSegmentLength :: real
  smoothingWindow :: nat
  cd_confidenceThreshold :: real
  adaptiveThreshold :: bool
  filterNearbyCorners_enabled :: bool

definition DEFAULT_CORNER_OPTIONS :: CornerDetectionOptions where
  "DEFAULT_CORNER_OPTIONS =
     \<lparr>curvatureThreshold = 0.8, cd_minSegmentLength = 15, smoothingWindow = 5,
      cd_confidenceThreshold = 0.6, adaptiveThreshold = True,
      filterNearbyCorners_enabled = True\<rparr>"

definition calculateCircumcircleCurvature :: "Vec2 \<Rightarrow> Vec2 \<Rightarrow> Vec2 \<Rightarrow> real" where
  "calculateCircumcircleCurvature p1 p2 p3 =
     (let a = distanceTo p2 p3;
          b = distanceTo p1 p3;
          c = distanceTo p1 p2;
          crossProduct = cross (subtract p2 p1) (subtract p3 p1);
          area = \<bar>crossProduct\<bar> / 2
      in if area < (1 / 10 ^ 10) \<or> a * b * c < (1 / 10 ^ 10) then 0
         else (4 * area) / (a * b * c))"

definition calculateCurvatures :: "CornerDetectionOptions \<Rightarrow> Vec2 list \<Rightarrow> real list" where
  "calculateCurvatures opts points =
     (let windowSize = smoothingWindow opts
      in map (\<lambda>i. if i < windowSize \<or> i + windowSize \<ge> length points then 0
                  else calculateCircumcircleCurvature (points ! (i - windowSize)) (points ! i)
                         (points ! (i + windowSize)))
           [0 ..< length points])"

definition calculateAngleCurvature :: "Vec2 list \<Rightarrow> nat \<Rightarrow> nat \<Rightarrow> real" where
  "calculateAngleCurvature points index windowSize =
     (if index < windowSize \<or> index + windowSize \<ge> length points then 0
      else
        let p1 = points ! (index - windowSize);
            p2 = points ! index;
            p3 = points ! (index + windowSize);
            v1 = normalized (subtract p2 p1);
            v2 = normalized (subtract p3 p2);
            d = max (- 1) (min 1 (dot v1 v2));
            angle = arccos d
        in pi - angle)"

definition createGaussianKernel :: "nat \<Rightarrow> real list" where
  "createGaussianKernel n =
     (let sigma = real n / 6;
          center = n div 2;
          kernel = map (\<lambda>i. let x = real i - real center
                              in exp (- (x * x) / (2 * sigma * sigma))) [0 ..< n];
          total_weight = sum_list kernel
      in map (\<lambda>k. k / total_weight) kernel)"

text \<open>
  \<open>smoothCurvatures\<close>. The inner loop reads \<open>kernel[0], \<dots>, kernel[2 * halfWindow]\<close>. For an
  even window size the last of these is past the end of the kernel: the read is \<open>undefined\<close>,
  both sums are NaN, the test \<open>weightSum > 0\<close> fails and the value stays \<open>curvatures[i]\<close>.
\<close>

definition smoothCurvatures :: "CornerDetectionOptions \<Rightarrow> real list \<Rightarrow> real list" where
  "smoothCurvatures opts curvatures =
     (if length curvatures < 3 then curvatures
      else
        let kernel = createGaussianKernel (smoothingWindow opts);
            halfWindow = smoothingWindow opts div 2
        in map (\<lambda>i.
                  if i < halfWindow \<or> i + halfWindow \<ge> length curvatures then curvatures ! i
                  else if 2 * halfWindow \<ge> length kernel then curvatures ! i
                  else
                    let weighted = sum_list (map (\<lambda>j. curvatures ! (i + j - halfWindow) * kernel ! j)
                                          [0 ..< 2 * halfWindow + 1]);
                        weightSum = sum_list (map (\<lambda>j. kernel ! j) [0 ..< 2 * halfWindow + 1])
                    in if weightSum > 0 then weighted / weightSum else curvatures ! i)
             [0 ..< length curvatures])"

definition calculateAdaptiveThreshold :: "CornerDetectionOptions \<Rightarrow> real list \<Rightarrow> real" where
  "calculateAdaptiveThreshold opts curvatures =
     (if length curvatures = 0 then curvatureThreshold opts
      else
        let sortedCurvatures = sort curvatures;
            median = sortedCurvatures ! (length sortedCurvatures div 2);
            q75 = sortedCurvatures ! (length sortedCurvatures * 3 div 4);
            mx = sortedCurvatures ! (length sortedCurvatures - 1)
        in max (max (median + (q75 - median) * 2) (mx * 0.3)) (curvatureThreshold opts))"

definition isValidCornerPosition ::
  "CornerDetectionOptions \<Rightarrow> Vec2 list \<Rightarrow> nat list \<Rightarrow> nat \<Rightarrow> bool" where
  "isValidCornerPosition opts points existingCorners candidateIndex =
     list_all (\<lambda>cornerIndex.
                 \<not> distanceTo (points ! candidateIndex) (points ! cornerIndex)
                     < cd_minSegmentLength opts)
       existingCorners"

definition findCornerCandidates ::
  "CornerDetectionOptions \<Rightarrow> Vec2 list \<Rightarrow> real list \<Rightarrow> nat list" where
  "findCornerCandidates opts points curvatures =
     (let threshold = (if adaptiveThreshold opts then calculateAdaptiveThreshold opts curvatures
                       else curvatureThreshold opts)
      in foldl (\<lambda>candidates i.
                  let curvature = curvatures ! i
                  in if curvature > threshold \<and> curvature > curvatures ! (i - 1)
                        \<and> curvature > curvatures ! (i + 1)
                        \<and> isValidCornerPosition opts points candidates i
                     then candidates @ [i] else candidates)
           [] [1 ..< length curvatures - 1])"

definition filterNearbyCorners ::
  "CornerDetectionOptions \<Rightarrow> Vec2 list \<Rightarrow> nat list \<Rightarrow> nat list" where
  "filterNearbyCorners opts points corners =
     (case corners of
        [] \<Rightarrow> corners
      | [c] \<Rightarrow> corners
      | c0 # rest \<Rightarrow>
          foldl (\<lambda>filtered currentCorner.
                   if list_all (\<lambda>acceptedCorner.
                                  \<not> distanceTo (points ! currentCorner) (points ! acceptedCorner)
                                      < cd_minSegmentLength opts) filtered
                   then filtered @ [currentCorner] else filtered)
            [c0] rest)"

definition refineCornerPosition :: "Vec2 list \<Rightarrow> nat \<Rightarrow> nat" where
  "refineCornerPosition points initialIndex =
     (let searchRadius = 3;
          start = initialIndex - searchRadius;
          end_excl = min (length points) (initialIndex + searchRadius + 1)
      in fst (foldl (\<lambda>(bestIndex, bestCurvature) i.
                       let curvature = calculateCircumcircleCurvature
                                         (points ! (i - 2)) (points ! i)
                                         (points ! (min (length points - 1) (i + 2)))
                       in if curvature > bestCurvature then (i, curvature)
                          else (bestIndex, bestCurvature))
                (initialIndex, 0) [start ..< end_excl]))"

definition refineCorners :: "CornerDetectionOptions \<Rightarrow> Vec2 list \<Rightarrow> nat list \<Rightarrow> nat list" where
  "refineCorners opts points candidates =
     (let refined = candidates;
          refined = (if filterNearbyCorners_enabled opts
                     then filterNearbyCorners opts points refined else refined);
          refined = map (refineCornerPosition points) refined
      in sort (remdups refined))"

definition calculateCornerConfidence :: "Vec2 list \<Rightarrow> real list \<Rightarrow> nat \<Rightarrow> real" where
  "calculateCornerConfidence points curvatures cornerIndex =
     (if cornerIndex \<ge> length curvatures then 0
      else
        let confidence = 1.0;
            curvature = curvatures ! cornerIndex;
            maxCurvature = foldl max (hd curvatures) (tl curvatures);
            curvatureScore = (if maxCurvature > 0 then curvature / maxCurvature else 0);
            confidence = confidence * curvatureScore;
            windowSize = 5;
            neighbours = filter (\<lambda>i. i \<noteq> cornerIndex)
                           [cornerIndex - windowSize
                              ..< min (length curvatures) (cornerIndex + windowSize + 1)];
            localAvg = (curvature + sum_list (map (\<lambda>i. curvatures ! i) neighbours))
                       / real (1 + length neighbours);
            prominenceScore = (if localAvg > 0 then curvature / localAvg else 1);
            confidence = confidence * min 1 (prominenceScore / 2);
            angleCurvature = calculateAngleCurvature points cornerIndex 2;
            consistencyScore = min curvature angleCurvature
                               / max (max curvature angleCurvature) (1 / 10 ^ 10);
            confidence = confidence * consistencyScore
        in max 0 (min 1 confidence))"

definition calculateConfidenceScores :: "Vec2 list \<Rightarrow> real list \<Rightarrow> nat list \<Rightarrow> real list" where
  "calculateConfidenceScores points curvatures corners =
     map (calculateCornerConfidence points curvatures) corners"

text \<open>
  \<open>pointToLineDistance\<close>; the corner detector and the converter each have a private copy of
  it, with the same body.
\<close>

definition pointToLineDistance :: "Vec2 \<Rightarrow> Vec2 \<Rightarrow> Vec2 \<Rightarrow> real" where
  "pointToLineDistance point lineStart lineEnd =
     (let lineVector = subtract lineEnd lineStart;
          pointVector = subtract point lineStart
      in if lengthSquared lineVector < (1 / 10 ^ 10) then vlength pointVector
         else \<bar>cross pointVector lineVector\<bar> / vlength lineVector)"

definition calculateLinearityScore :: "Vec2 list \<Rightarrow> nat \<Rightarrow> nat \<Rightarrow> real" where
  "calculateLinearityScore points start_i end_i =
     (if end_i \<le> start_i + 1 then 1.0
      else
        let startPoint = points ! start_i;
            endPoint = points ! end_i;
            totalDistance = distanceTo startPoint endPoint
        in if totalDistance < (1 / 10 ^ 6) then 1.0
           else
             let maxDeviation =
                   foldl (\<lambda>m i. max m (pointToLineDistance (points ! i) startPoint endPoint))
                     0 [start_i + 1 ..< end_i];
                 deviationRatio = maxDeviation / totalDistance
             in max 0 (1 - deviationRatio * 10))"

definition analyzeSegment :: "Vec2 list \<Rightarrow> nat \<Rightarrow> nat \<Rightarrow> CornerSegment" where
  "analyzeSegment points start_i end_i =
     (if end_i \<le> start_i + 1
      then \<lparr>startIndex = start_i, endIndex = end_i, run_type = line, quality = 1.0\<rparr>
      else
        let linearityScore = calculateLinearityScore points start_i end_i;
            isLine = (linearityScore > 0.8)
        in \<lparr>startIndex = start_i, endIndex = end_i,
            run_type = (if isLine then line else curve),
            quality = (if isLine then linearityScore else 1 - linearityScore)\<rparr>)"

definition generateSegments :: "Vec2 list \<Rightarrow> nat list \<Rightarrow> CornerSegment list" where
  "generateSegments points corners =
     (let (segments, lastIndex) =
            foldl (\<lambda>(segments, lastIndex) cornerIndex.
                     ((if cornerIndex > lastIndex
                       then segments @ [analyzeSegment points lastIndex cornerIndex]
                       else segments),
                      cornerIndex))
              ([], 0) corners
      in if lastIndex + 1 < length points
         then segments @ [analyzeSegment points lastIndex (length points - 1)]
         else segments)"

definition detectCorners :: "CornerDetectionOptions \<Rightarrow> Vec2 list \<Rightarrow> CornerDetectionResult" where
  "detectCorners opts points =
     (if length points < 3
      then \<lparr>cd_cornerIndices = [], cd_curvatures = [], cd_confidence = [],
            cd_segments = (if length points \<ge> 2
                           then [\<lparr>startIndex = 0, endIndex = length points - 1,
                                  run_type = line, quality = 1.0\<rparr>]
                           else [])\<rparr>
      else
        let curvatures = calculateCurvatures opts points;
            smoothedCurvatures = smoothCurvatures opts curvatures;
            candidates = findCornerCandidates opts points smoothedCurvatures;
            refinedCorners = refineCorners opts points candidates;
            confidenceScores = calculateConfidenceScores points smoothedCurvatures refinedCorners;
            segments = generateSegments points refinedCorners
        in \<lparr>cd_cornerIndices = refinedCorners, cd_curvatures = smoothedCurvatures,
            cd_confidence = confidenceScores, cd_segments = segments\<rparr>)"

section \<open>Stroke processor (input/stroke-processor.ts)\<close>

record StrokePoint =
  sp_position :: Vec2
  sp_worldPosition :: Pt
  sp_timestamp :: real
  sp_pressure :: real
  sp_tiltX :: real
  sp_tiltY :: real
  sp_velocity :: Vec2

record StrokeBounds =
  bb_min :: Vec2
  bb_max :: Vec2
  bb_size :: Vec2

record RawStroke =
  rs_id :: string
  rs_points :: "StrokePoint list"
  rs_startTime :: real
  rs_endTime :: real
  boundingBox :: StrokeBounds
  totalLength :: real
  averageVelocity :: Vec2
  maxVelocity :: real
  averagePressure :: real

record ProcessedStroke = RawStroke +
  smoothedPoints :: "StrokePoint list"
  resampledPoints :: "StrokePoint list"
  cornerIndices :: "nat list"
  qualityScore :: real

text \<open>
  \<open>velocityWindowSize\<close> is a count of points and is modelled as an integer;
  \<open>maxPointsPerStroke\<close> is only compared with the number of points.
\<close>

record StrokeProcessingOptions =
  targetSpacing :: real
  smoothingFactor :: real
  minCornerAngle :: real
  velocityWindowSize :: int
  pressureSensitivity :: real
  enableRealTimeSmoothing :: bool
  maxPointsPerStroke :: real

definition DEFAULT_PROCESSING_OPTIONS :: StrokeProcessingOptions where
  "DEFAULT_PROCESSING_OPTIONS =
     \<lparr>targetSpacing = 2.0, smoothingFactor = 0.3, minCornerAngle = pi / 6,
      velocityWindowSize = 3, pressureSensitivity = 0.5, enableRealTimeSmoothing = True,
      maxPointsPerStroke = 2000\<rparr>"

record ActiveStroke =
  as_id :: string
  as_points :: "StrokePoint list"
  as_startTime :: real
  lastProcessedIndex :: nat

record StrokeProcessor =
  options :: StrokeProcessingOptions
  activeStroke :: "ActiveStroke option"
  pointPool :: "StrokePoint list"
  strokeIdCounter :: nat

definition new_StrokeProcessor :: "StrokeProcessingOptions \<Rightarrow> StrokeProcessor" where
  "new_StrokeProcessor opts =
     \<lparr>options = opts, activeStroke = None, pointPool = [], strokeIdCounter = 0\<rparr>"

text \<open>The decimal digits of a counter or of a clock reading in a template string.\<close>

fun decimal :: "nat \<Rightarrow> string" where
  "decimal n =
     (if n < 10 then [char_of (48 + n)]
      else decimal (n div 10) @ [char_of (48 + n mod 10)])"

text \<open>\<open>generateStrokeId\<close> reads \<open>Date.now()\<close>, an argument here.\<close>

definition generateStrokeId :: "StrokeProcessor \<Rightarrow> nat \<Rightarrow> string \<times> StrokeProcessor" where
  "generateStrokeId s dateNow =
     (let counter = strokeIdCounter s + 1
      in (''stroke_'' @ decimal counter @ ''_'' @ decimal dateNow, s\<lparr>strokeIdCounter := counter\<rparr>))"

definition startStroke :: "StrokeProcessor \<Rightarrow> StrokePoint \<Rightarrow> nat \<Rightarrow> string \<times> StrokeProcessor" where
  "startStroke s initialPoint dateNow =
     (let (strokeId, s') = generateStrokeId s dateNow
      in (strokeId,
          s'\<lparr>activeStroke := Some \<lparr>as_id = strokeId, as_points = [initialPoint],
                                  as_startTime = sp_timestamp initialPoint,
                                  lastProcessedIndex = 0\<rparr>\<rparr>))"

definition calculateVelocity ::
  "StrokeProcessingOptions \<Rightarrow> StrokePoint \<Rightarrow> StrokePoint list \<Rightarrow> error + Vec2" where
  "calculateVelocity opts newPoint existingPoints =
     (let windowSize = min (velocityWindowSize opts) (int (length existingPoints)) in
      if windowSize = 0 then Inr ZERO
      else case slice_from (- windowSize) existingPoints of
             [] \<Rightarrow> Inl (TypeError ''Cannot read properties of undefined'')
           | oldestPoint # _ \<Rightarrow>
               let timeDelta = sp_timestamp newPoint - sp_timestamp oldestPoint in
               if timeDelta \<le> 0 then Inr ZERO
               else divide (subtract (sp_position newPoint) (sp_position oldestPoint))
                           (timeDelta / 1000))"

text \<open>
  \<open>smoothPointAtIndex\<close>. The loop runs over \<open>i = start, \<dots>, end\<close> with
  \<open>start = max 0 (index - 2)\<close> and \<open>end = min (length - 1) (index + 2)\<close>. Every caller passes
  an index inside the array; for an index past the end \<open>points[index]\<close> is \<open>undefined\<close>,
  and the model reports the \<open>TypeError\<close> of reading its position.
\<close>

definition smoothPointAtIndex ::
  "StrokeProcessingOptions \<Rightarrow> StrokePoint list \<Rightarrow> nat \<Rightarrow> error + StrokePoint" where
  "smoothPointAtIndex opts points index =
     (let windowSize = 2;
          start = index - windowSize;
          end_excl = min (length points) (index + windowSize + 1);
          weight = (\<lambda>i. 1.0 - \<bar>real i - real index\<bar> / (real windowSize + 1));
          sumPosition = foldl (\<lambda>acc i. add acc (multiply (sp_position (points ! i)) (weight i)))
                          ZERO [start ..< end_excl];
          sumPressure = foldl (\<lambda>acc i. acc + sp_pressure (points ! i) * weight i)
                          0 [start ..< end_excl];
          count = foldl (\<lambda>acc i. acc + weight i) 0 [start ..< end_excl]
      in if length points \<le> index then Inl (TypeError ''Cannot read properties of undefined'')
         else if count = 0 then Inr (points ! index)
         else
           let originalPoint = points ! index in
           case divide sumPosition count of
             Inl e \<Rightarrow> Inl e
           | Inr smoothedPosition \<Rightarrow>
               let smoothedPressure = sumPressure / count;
                   factor = smoothingFactor opts;
                   blendedPosition = lerp (sp_position originalPoint) smoothedPosition factor;
                   blendedPressure =
                     sp_pressure originalPoint * (1 - factor) + smoothedPressure * factor
               in Inr (originalPoint\<lparr>sp_position := blendedPosition,
                                      sp_pressure := blendedPressure\<rparr>))"

text \<open>The loops \<open>points[i] = smoothPointAtIndex(points, i)\<close> over a range of indices.\<close>

fun smooth_indices ::
  "StrokeProcessingOptions \<Rightarrow> StrokePoint list \<Rightarrow> nat list \<Rightarrow> error + StrokePoint list" where
  "smooth_indices opts points [] = Inr points"
| "smooth_indices opts points (i # rest) =
     (case smoothPointAtIndex opts points i of
        Inl e \<Rightarrow> Inl e
      | Inr smoothedPoint \<Rightarrow> smooth_indices opts (points[i := smoothedPoint]) rest)"

definition applyRealTimeSmoothing ::
  "StrokeProcessingOptions \<Rightarrow> ActiveStroke \<Rightarrow> error + ActiveStroke" where
  "applyRealTimeSmoothing opts a =
     (if length (as_points a) < 3 then Inr a
      else
        let lastIndex = length (as_points a) - 1;
            smoothingRadius = 2;
            startIndex = max (lastProcessedIndex a) smoothingRadius;
            endIndex = max (lastIndex - smoothingRadius) startIndex
        in case smooth_indices opts (as_points a) [startIndex ..< endIndex + 1] of
             Inl e \<Rightarrow> Inl e
           | Inr points' \<Rightarrow> Inr (a\<lparr>as_points := points', lastProcessedIndex := endIndex\<rparr>))"

text \<open>
  \<open>addPoint\<close>. At the point cap the source writes a warning to the console and returns; the
  console is not part of the processor's state.
\<close>

definition addPoint :: "StrokeProcessor \<Rightarrow> StrokePoint \<Rightarrow> error + StrokeProcessor" where
  "addPoint s point =
     (case activeStroke s of
        None \<Rightarrow> Inl (Error ''No active stroke. Call startStroke() first.'')
      | Some a \<Rightarrow>
          if real (length (as_points a)) \<ge> maxPointsPerStroke (options s) then Inr s
          else
            case (if length (as_points a) > 0
                  then calculateVelocity (options s) point (as_points a)
                  else Inr ZERO) of
              Inl e \<Rightarrow> Inl e
            | Inr velocity \<Rightarrow>
                let enhancedPoint = point\<lparr>sp_velocity := velocity\<rparr>;
                    a' = a\<lparr>as_points := as_points a @ [enhancedPoint]\<rparr>
                in if enableRealTimeSmoothing (options s)
                   then (case applyRealTimeSmoothing (options s) a' of
                           Inl e \<Rightarrow> Inl e
                         | Inr a'' \<Rightarrow> Inr (s\<lparr>activeStroke := Some a''\<rparr>))
                   else Inr (s\<lparr>activeStroke := Some a'\<rparr>))"

definition recyclePoints :: "StrokePoint list \<Rightarrow> StrokePoint list \<Rightarrow> StrokePoint list" where
  "recyclePoints pool points =
     (let pool' = pool @ points in if length pool' > 1000 then take 500 pool' else pool')"

definition cancelStroke :: "StrokeProcessor \<Rightarrow> StrokeProcessor" where
  "cancelStroke s =
     (case activeStroke s of
        Some a \<Rightarrow> s\<lparr>pointPool := recyclePoints (pointPool s) (as_points a), activeStroke := None\<rparr>
      | None \<Rightarrow> s)"

definition activeStrokePoints :: "StrokeProcessor \<Rightarrow> StrokePoint list" where
  "activeStrokePoints s = (case activeStroke s of Some a \<Rightarrow> as_points a | None \<Rightarrow> [])"

definition isCapturing :: "StrokeProcessor \<Rightarrow> bool" where
  "isCapturing s = (activeStroke s \<noteq> None)"

subsection \<open>Stroke metrics\<close>

definition calculateBoundingBox :: "StrokePoint list \<Rightarrow> StrokeBounds" where
  "calculateBoundingBox points =
     (case points of
        [] \<Rightarrow> \<lparr>bb_min = ZERO, bb_max = ZERO, bb_size = ZERO\<rparr>
      | p0 # _ \<Rightarrow>
          let minX = foldl (\<lambda>m point. min m (vx (sp_position point))) (vx (sp_position p0)) points;
              minY = foldl (\<lambda>m point. min m (vy (sp_position point))) (vy (sp_position p0)) points;
              maxX = foldl (\<lambda>m point. max m (vx (sp_position point))) (vx (sp_position p0)) points;
              maxY = foldl (\<lambda>m point. max m (vy (sp_position point))) (vy (sp_position p0)) points;
              mn = \<lparr>vx = minX, vy = minY\<rparr>;
              mx = \<lparr>vx = maxX, vy = maxY\<rparr>
          in \<lparr>bb_min = mn, bb_max = mx, bb_size = subtract mx mn\<rparr>)"

fun calculateTotalLength :: "StrokePoint list \<Rightarrow> real" where
  "calculateTotalLength (p # q # rest) =
     distanceTo (sp_position p) (sp_position q) + calculateTotalLength (q # rest)"
| "calculateTotalLength _ = 0"

definition calculateAverageVelocity :: "StrokePoint list \<Rightarrow> error + Vec2" where
  "calculateAverageVelocity points =
     (if length points = 0 then Inr ZERO
      else divide (foldl (\<lambda>sum point. add sum (sp_velocity point)) ZERO points)
                  (real (length points)))"

definition calculateMaxVelocity :: "StrokePoint list \<Rightarrow> real" where
  "calculateMaxVelocity points = foldl (\<lambda>m point. max m (vlength (sp_velocity point))) 0 points"

definition calculateAveragePressure :: "StrokePoint list \<Rightarrow> real" where
  "calculateAveragePressure points =
     (if length points = 0 then 0
      else foldl (\<lambda>sum point. sum + sp_pressure point) 0 points / real (length points))"

definition createRawStroke :: "ActiveStroke option \<Rightarrow> real \<Rightarrow> error + RawStroke" where
  "createRawStroke stroke endTime =
     (case stroke of
        None \<Rightarrow> Inl (Error ''No active stroke data'')
      | Some a \<Rightarrow>
          let points = as_points a in
          case calculateAverageVelocity points of
            Inl e \<Rightarrow> Inl e
          | Inr avgVelocity \<Rightarrow>
              Inr \<lparr>rs_id = as_id a, rs_points = points, rs_startTime = as_startTime a,
                   rs_endTime = endTime, boundingBox = calculateBoundingBox points,
                   totalLength = calculateTotalLength points, averageVelocity = avgVelocity,
                   maxVelocity = calculateMaxVelocity points,
                   averagePressure = calculateAveragePressure points\<rparr>)"

subsection \<open>Processing at stroke end\<close>

text \<open>The loop of \<open>removeDuplicatePoints\<close>; \<open>result\<close> starts as \<open>[points[0]]\<close> and only grows.\<close>

fun removeDuplicatePoints_loop ::
  "real \<Rightarrow> StrokePoint list \<Rightarrow> StrokePoint list \<Rightarrow> StrokePoint list" where
  "removeDuplicatePoints_loop minDistance result [] = result"
| "removeDuplicatePoints_loop minDistance result (currentPoint # rest) =
     (let lastPoint = last result;
          distance = distanceTo (sp_position currentPoint) (sp_position lastPoint)
      in if distance \<ge> minDistance
         then removeDuplicatePoints_loop minDistance (result @ [currentPoint]) rest
         else removeDuplicatePoints_loop minDistance result rest)"

definition removeDuplicatePoints ::
  "StrokeProcessingOptions \<Rightarrow> StrokePoint list \<Rightarrow> StrokePoint list" where
  "removeDuplicatePoints opts points =
     (if length points \<le> 1 then points
      else removeDuplicatePoints_loop (targetSpacing opts * 0.5) [hd points] (tl points))"

text \<open>\<open>applySmoothingFilter\<close>: \<open>Math.ceil(smoothingFactor * 3)\<close> passes over the inner indices.\<close>

fun smoothing_passes ::
  "StrokeProcessingOptions \<Rightarrow> nat \<Rightarrow> StrokePoint list \<Rightarrow> error + StrokePoint list" where
  "smoothing_passes opts 0 result = Inr result"
| "smoothing_passes opts (Suc n) result =
     (case smooth_indices opts result [2 ..< length result - 2] of
        Inl e \<Rightarrow> Inl e
      | Inr result' \<Rightarrow> smoothing_passes opts n result')"

definition applySmoothingFilter ::
  "StrokeProcessingOptions \<Rightarrow> StrokePoint list \<Rightarrow> error + StrokePoint list" where
  "applySmoothingFilter opts points =
     (if length points \<le> 2 then Inr points
      else smoothing_passes opts (nat \<lceil>smoothingFactor opts * 3\<rceil>) points)"

definition interpolateStrokePoints :: "StrokePoint \<Rightarrow> StrokePoint \<Rightarrow> real \<Rightarrow> StrokePoint" where
  "interpolateStrokePoints p1 p2 t =
     \<lparr>sp_position = lerp (sp_position p1) (sp_position p2) t,
      sp_worldPosition = Pt_lerp (sp_worldPosition p1) (sp_worldPosition p2) t,
      sp_timestamp = sp_timestamp p1 + (sp_timestamp p2 - sp_timestamp p1) * t,
      sp_pressure = sp_pressure p1 + (sp_pressure p2 - sp_pressure p1) * t,
      sp_tiltX = sp_tiltX p1 + (sp_tiltX p2 - sp_tiltX p1) * t,
      sp_tiltY = sp_tiltY p1 + (sp_tiltY p2 - sp_tiltY p1) * t,
      sp_velocity = lerp (sp_velocity p1) (sp_velocity p2) t\<rparr>"

text \<open>
  The \<open>while (accumulatedDistance >= targetSpacing)\<close> loop of \<open>resampleStroke\<close>. It does not
  end when the target spacing is not positive; \<open>None\<close> stands for a run that does not return.
\<close>

partial_function (option) resample_while ::
  "real \<Rightarrow> StrokePoint \<Rightarrow> StrokePoint \<Rightarrow> real \<Rightarrow> real \<Rightarrow> StrokePoint list
     \<Rightarrow> (real \<times> StrokePoint list) option" where
  "resample_while spacing previousPoint currentPoint segmentLength accumulatedDistance result =
     (if accumulatedDistance \<ge> spacing then
        let excess = accumulatedDistance - spacing;
            t = 1 - (excess / segmentLength);
            interpolatedPoint = interpolateStrokePoints previousPoint currentPoint t
        in resample_while spacing previousPoint currentPoint segmentLength excess
             (result @ [interpolatedPoint])
      else Some (accumulatedDistance, result))"

text \<open>The \<open>for\<close> loop of \<open>resampleStroke\<close> over the consecutive pairs of points.\<close>

fun resample_for ::
  "real \<Rightarrow> StrokePoint list \<Rightarrow> real \<Rightarrow> StrokePoint list \<Rightarrow> StrokePoint list option" where
  "resample_for spacing (previousPoint # currentPoint # rest) accumulatedDistance result =
     (let segmentLength = distanceTo (sp_position previousPoint) (sp_position currentPoint)
      in case resample_while spacing previousPoint currentPoint segmentLength
                (accumulatedDistance + segmentLength) result of
           None \<Rightarrow> None
         | Some (accumulatedDistance', result') \<Rightarrow>
             resample_for spacing (currentPoint # rest) accumulatedDistance' result')"
| "resample_for spacing _ accumulatedDistance result = Some result"

definition resampleStroke ::
  "StrokeProcessingOptions \<Rightarrow> StrokePoint list \<Rightarrow> StrokePoint list option" where
  "resampleStroke opts points =
     (if length points \<le> 1 then Some points
      else case resample_for (targetSpacing opts) points 0 [hd points] of
             None \<Rightarrow> None
           | Some result \<Rightarrow> Some (result @ [last points]))"

definition calculateAngleAtPoint :: "StrokePoint list \<Rightarrow> nat \<Rightarrow> nat \<Rightarrow> real" where
  "calculateAngleAtPoint points index windowSize =
     (if index < windowSize \<or> index + windowSize \<ge> length points then pi
      else
        let before = sp_position (points ! (index - windowSize));
            current = sp_position (points ! index);
            after = sp_position (points ! (index + windowSize));
            vec1 = normalized (subtract current before);
            vec2 = normalized (subtract after current)
        in arccos (max (- 1) (min 1 (dot vec1 vec2))))"

text \<open>The processor's own \<open>detectCorners\<close>, on the angle at each inner point.\<close>

definition StrokeProcessor_detectCorners ::
  "StrokeProcessingOptions \<Rightarrow> StrokePoint list \<Rightarrow> nat list" where
  "StrokeProcessor_detectCorners opts points =
     (if length points < 3 then []
      else
        let windowSize = 3
        in filter (\<lambda>i. calculateAngleAtPoint points i windowSize < minCornerAngle opts)
             [windowSize ..< length points - windowSize])"

text \<open>
  The loop of \<open>calculateJitterRatio\<close> over the triples of consecutive points, with the
  accumulators \<open>totalDirectionChange\<close> and \<open>totalLength\<close> (here \<open>totalLen\<close>).
\<close>

fun calculateJitterRatio_loop :: "StrokePoint list \<Rightarrow> real \<Rightarrow> real \<Rightarrow> real \<times> real" where
  "calculateJitterRatio_loop (prevPoint # currPoint # nextPoint # rest) totalDirectionChange totalLen =
     (let vec1 = subtract (sp_position currPoint) (sp_position prevPoint);
          vec2 = subtract (sp_position nextPoint) (sp_position currPoint)
      in if lengthSquared vec1 > 0 \<and> lengthSquared vec2 > 0
         then calculateJitterRatio_loop (currPoint # nextPoint # rest)
                (totalDirectionChange + \<bar>angleTo vec1 vec2\<bar>) (totalLen + vlength vec1)
         else calculateJitterRatio_loop (currPoint # nextPoint # rest) totalDirectionChange totalLen)"
| "calculateJitterRatio_loop _ totalDirectionChange totalLen = (totalDirectionChange, totalLen)"

definition calculateJitterRatio :: "StrokePoint list \<Rightarrow> real" where
  "calculateJitterRatio points =
     (if length points < 3 then 0
      else
        let (totalDirectionChange, totalLen) = calculateJitterRatio_loop points 0 0
        in if totalLen > 0 then totalDirectionChange / totalLen else 0)"

definition calculateVelocityConsistency :: "StrokePoint list \<Rightarrow> error + real" where
  "calculateVelocityConsistency points =
     (if length points < 2 then Inr 1.0
      else case calculateAverageVelocity points of
        Inl e \<Rightarrow> Inl e
      | Inr avg \<Rightarrow>
          let avgVelocity = vlength avg;
              velocityVariance =
                foldl (\<lambda>var point.
                         let diff = vlength (sp_velocity point) - avgVelocity
                         in var + diff * diff) 0 points
                / real (length points);
              coefficient = (if avgVelocity > 0 then sqrt velocityVariance / avgVelocity else 0)
          in Inr (max 0 (1 - coefficient)))"

definition calculateQualityScore ::
  "RawStroke \<Rightarrow> StrokePoint list \<Rightarrow> StrokePoint list \<Rightarrow> error + real" where
  "calculateQualityScore raw smoothed resampled =
     (let score = 1.0;
          score = (if totalLength raw < 10 then score * 0.5 else score);
          score = (if length (rs_points raw) < 5 then score * 0.7 else score);
          jitterRatio = calculateJitterRatio (rs_points raw);
          score = score * max 0.1 (1 - jitterRatio)
      in case calculateVelocityConsistency (rs_points raw) of
           Inl e \<Rightarrow> Inl e
         | Inr velocityConsistency \<Rightarrow>
             let score = score * (0.5 + 0.5 * velocityConsistency)
             in Inr (max 0 (min 1 score)))"

definition processStroke ::
  "StrokeProcessingOptions \<Rightarrow> RawStroke \<Rightarrow> (error + ProcessedStroke) option" where
  "processStroke opts rawStroke =
     (let deduplicated = removeDuplicatePoints opts (rs_points rawStroke) in
      case applySmoothingFilter opts deduplicated of
        Inl e \<Rightarrow> Some (Inl e)
      | Inr smoothed \<Rightarrow>
          (case resampleStroke opts smoothed of
             None \<Rightarrow> None
           | Some resampled \<Rightarrow>
               let corners = StrokeProcessor_detectCorners opts resampled in
               (case calculateQualityScore rawStroke smoothed resampled of
                  Inl e \<Rightarrow> Some (Inl e)
                | Inr score \<Rightarrow>
                    Some (Inr (RawStroke.extend rawStroke
                                 (ProcessedStroke.fields smoothed resampled corners score))))))"

text \<open>\<open>endStroke\<close> reads \<open>performance.now()\<close>, an argument here.\<close>

definition endStroke ::
  "StrokeProcessor \<Rightarrow> real \<Rightarrow> (error + ProcessedStroke \<times> StrokeProcessor) option" where
  "endStroke s endTime =
     (case activeStroke s of
        None \<Rightarrow> Some (Inl (Error ''No active stroke to end.''))
      | Some a \<Rightarrow>
          (case createRawStroke (activeStroke s) endTime of
             Inl e \<Rightarrow> Some (Inl e)
           | Inr rawStroke \<Rightarrow>
               (case processStroke (options s) rawStroke of
                  None \<Rightarrow> None
                | Some (Inl e) \<Rightarrow> Some (Inl e)
                | Some (Inr processedStroke) \<Rightarrow>
                    Some (Inr (processedStroke,
                               s\<lparr>pointPool := recyclePoints (pointPool s) (as_points a),
                                 activeStroke := None\<rparr>)))))"

text \<open>
  Sample strokes: a touch at \<open>(px, py)\<close> at time \<open>t\<close>; a processor with the default options
  that has just started a stroke; and one whose point cap is 1, so that the stroke is at the
  cap from its first point.
\<close>

definition example_stroke_point :: "real \<Rightarrow> real \<Rightarrow> real \<Rightarrow> StrokePoint" where
  "example_stroke_point px py t =
     \<lparr>sp_position = \<lparr>vx = px, vy = py\<rparr>,
      sp_worldPosition = \<lparr>worldCoordinates = \<lparr>vx = px, vy = py\<rparr>,
         transforms = \<lparr>screenToViewport = IDENTITY, viewportToWorld = IDENTITY,
                       worldToViewport = IDENTITY, viewportToScreen = IDENTITY\<rparr>\<rparr>,
      sp_timestamp = t, sp_pressure = 0.5, sp_tiltX = 0, sp_tiltY = 0, sp_velocity = ZERO\<rparr>"

definition example_started_processor :: StrokeProcessor where
  "example_started_processor =
     snd (startStroke (new_StrokeProcessor DEFAULT_PROCESSING_OPTIONS)
            (example_stroke_point 0 0 10) 1700000000000)"

definition example_capped_processor :: StrokeProcessor where
  "example_capped_processor =
     snd (startStroke (new_StrokeProcessor (DEFAULT_PROCESSING_OPTIONS\<lparr>maxPointsPerStroke := 1\<rparr>))
            (example_stroke_point 0 0 10) 1700000000000)"

section \<open>Touch state machine (input/touch-state.ts)\<close>

datatype TouchMode = IDLE | DRAWING | PAN_ZOOM | UNDO | MULTI_TOUCH

datatype GestureState = NONE | POSSIBLE | BEGAN | CHANGED | ENDED | CANCELLED | FAILED

text \<open>
  The gesture-specific \<open>data\<close> of a gesture: the payload of a drawing, pan-zoom or undo
  gesture, or the empty object of the other modes.
\<close>

datatype TouchGestureData =
    DrawingGestureData (startPosition: Vec2) (currentPosition: Vec2) (totalDistance: real)
      (velocity: Vec2) (strokePoints: "Vec2 list")
  | PanZoomGestureData (initialCentroid: Vec2) (initialSpread: real) (currentCentroid: Vec2)
      (currentSpread: real) (panDelta: Vec2) (zoomFactor: real) (pz_rotation: real)
  | UndoGestureData (triggerPosition: Vec2) (confirmationTime: real)
  | NoGestureData

record TouchGesture =
  tg_type :: TouchMode
  tg_state :: GestureState
  tg_startTime :: real
  tg_duration :: real
  tg_pointerCount :: nat
  tg_primaryPointer :: "PointerState option"
  tg_centroid :: Vec2
  tg_data :: TouchGestureData

text \<open>
  A handler is a callback of the embedding application. The model records which handlers
  are registered and, for every call of a registered handler, a notification with the
  arguments of the call, in the order of the calls. Handlers are taken not to call back into
  the manager.
\<close>

record TouchStateEventHandlers =
  onTouchModeChanged :: bool
  onGestureStarted :: bool
  onGestureUpdated :: bool
  onGestureEnded :: bool
  onGestureCancelled :: bool

datatype Notification =
    TouchModeChanged TouchMode TouchMode
  | GestureStarted TouchGesture
  | GestureUpdated TouchGesture
  | GestureEnded TouchGesture
  | GestureCancelled TouchGesture

text \<open>
  The \<open>Map\<close> of active pointers is an association list in insertion order: \<open>set\<close> is
  \<open>AList.update\<close> (a present key keeps its place), \<open>delete\<close> is \<open>AList.delete\<close>, and
  \<open>size\<close> is the length of the list, whose keys are distinct.
\<close>

record TouchStateManager =
  currentMode :: TouchMode
  currentGesture :: "TouchGesture option"
  activePointers :: "(int \<times> PointerState) list"
  gestureHistory :: "TouchGesture list"
  handlers :: TouchStateEventHandlers
  lastUpdateTime :: real

definition UNDO_HOLD_TIME :: real where
  "UNDO_HOLD_TIME = 500"

definition MAX_GESTURE_HISTORY :: nat where
  "MAX_GESTURE_HISTORY = 50"

definition no_handlers :: TouchStateEventHandlers where
  "no_handlers =
     \<lparr>onTouchModeChanged = False, onGestureStarted = False, onGestureUpdated = False,
      onGestureEnded = False, onGestureCancelled = False\<rparr>"

definition new_TouchStateManager :: "TouchStateEventHandlers \<Rightarrow> TouchStateManager" where
  "new_TouchStateManager hs =
     \<lparr>currentMode = IDLE, currentGesture = None, activePointers = [], gestureHistory = [],
      handlers = hs, lastUpdateTime = 0\<rparr>"

definition setHandlers :: "TouchStateManager \<Rightarrow> TouchStateEventHandlers \<Rightarrow> TouchStateManager" where
  "setHandlers s hs = s\<lparr>handlers := hs\<rparr>"

definition touchMode :: "TouchStateManager \<Rightarrow> TouchMode" where
  "touchMode s = currentMode s"

definition activeGesture :: "TouchStateManager \<Rightarrow> TouchGesture option" where
  "activeGesture s = currentGesture s"

definition activePointerCount :: "TouchStateManager \<Rightarrow> nat" where
  "activePointerCount s = length (activePointers s)"

definition determineTouchMode :: "TouchStateManager \<Rightarrow> TouchMode" where
  "determineTouchMode s =
     (let count = length (activePointers s)
      in if count = 0 then IDLE
         else if count = 1 then DRAWING
         else if count = 2 then PAN_ZOOM
         else if count = 3 then UNDO
         else MULTI_TOUCH)"

definition getPrimaryPointer :: "TouchStateManager \<Rightarrow> PointerState option" where
  "getPrimaryPointer s =
     (case filter ptr_isPrimary (map snd (activePointers s)) of
        pointer # _ \<Rightarrow> Some pointer
      | [] \<Rightarrow> (case map snd (activePointers s) of pointer # _ \<Rightarrow> Some pointer | [] \<Rightarrow> None))"

definition manager_calculateCentroid :: "TouchStateManager \<Rightarrow> error + Vec2" where
  "manager_calculateCentroid s = calculateCentroid (map snd (activePointers s))"

definition addToHistory :: "TouchStateManager \<Rightarrow> TouchGesture \<Rightarrow> TouchStateManager" where
  "addToHistory s gesture =
     (let history = gestureHistory s @ [gesture]
      in s\<lparr>gestureHistory := (if length history > MAX_GESTURE_HISTORY then tl history
                                else history)\<rparr>)"

definition endCurrentGesture :: "TouchStateManager \<Rightarrow> TouchStateManager \<times> Notification list" where
  "endCurrentGesture s =
     (case currentGesture s of
        None \<Rightarrow> (s, [])
      | Some gesture \<Rightarrow>
          let endedGesture = gesture\<lparr>tg_state := ENDED,
                                      tg_duration := lastUpdateTime s - tg_startTime gesture\<rparr>;
              s' = addToHistory s endedGesture
          in (s'\<lparr>currentGesture := None\<rparr>,
              if onGestureEnded (handlers s) then [GestureEnded endedGesture] else []))"

definition cancelCurrentGesture :: "TouchStateManager \<Rightarrow> TouchStateManager \<times> Notification list" where
  "cancelCurrentGesture s =
     (case currentGesture s of
        None \<Rightarrow> (s, [])
      | Some gesture \<Rightarrow>
          let cancelledGesture = gesture\<lparr>tg_state := CANCELLED,
                                          tg_duration := lastUpdateTime s - tg_startTime gesture\<rparr>
          in (s\<lparr>currentGesture := None\<rparr>,
              if onGestureCancelled (handlers s) then [GestureCancelled cancelledGesture] else []))"

definition createDrawingGesture :: "TouchGesture \<Rightarrow> PointerState \<Rightarrow> TouchGesture" where
  "createDrawingGesture base pointer =
     base\<lparr>tg_type := DRAWING,
          tg_data := DrawingGestureData (ptr_position pointer) (ptr_position pointer) 0 ZERO
                       [ptr_position pointer]\<rparr>"

definition createPanZoomGesture :: "TouchStateManager \<Rightarrow> TouchGesture \<Rightarrow> error + TouchGesture" where
  "createPanZoomGesture s base =
     (let pointers = map snd (activePointers s)
      in case calculateCentroid pointers of
           Inl e \<Rightarrow> Inl e
         | Inr centroid \<Rightarrow>
             (case calculateSpread pointers of
                Inl e \<Rightarrow> Inl e
              | Inr spread \<Rightarrow>
                  Inr (base\<lparr>tg_type := PAN_ZOOM,
                            tg_data := PanZoomGestureData centroid spread centroid spread
                                         ZERO 1.0 0\<rparr>)))"

definition createUndoGesture :: "TouchGesture \<Rightarrow> PointerState \<Rightarrow> TouchGesture" where
  "createUndoGesture base pointer =
     base\<lparr>tg_type := UNDO,
          tg_data := UndoGestureData (ptr_position pointer)
                       (ptr_timestamp pointer + UNDO_HOLD_TIME)\<rparr>"

definition startGesture ::
  "TouchStateManager \<Rightarrow> TouchMode \<Rightarrow> PointerState
     \<Rightarrow> error + (TouchStateManager \<times> Notification list)" where
  "startGesture s mode triggerPointer =
     (case manager_calculateCentroid s of
        Inl e \<Rightarrow> Inl e
      | Inr centroid \<Rightarrow>
          let baseGesture = \<lparr>tg_type = mode, tg_state = BEGAN,
                             tg_startTime = ptr_timestamp triggerPointer, tg_duration = 0,
                             tg_pointerCount = length (activePointers s),
                             tg_primaryPointer = getPrimaryPointer s, tg_centroid = centroid,
                             tg_data = NoGestureData\<rparr>
          in case (case mode of
                     DRAWING \<Rightarrow> Inr (createDrawingGesture baseGesture triggerPointer)
                   | PAN_ZOOM \<Rightarrow> createPanZoomGesture s baseGesture
                   | UNDO \<Rightarrow> Inr (createUndoGesture baseGesture triggerPointer)
                   | _ \<Rightarrow> Inr baseGesture) of
               Inl e \<Rightarrow> Inl e
             | Inr gesture \<Rightarrow>
                 Inr (s\<lparr>currentGesture := Some gesture\<rparr>,
                      if onGestureStarted (handlers s) then [GestureStarted gesture] else []))"

text \<open>
  \<open>updateDrawingGesture\<close> and \<open>updatePanZoomGesture\<close> read the fields of the payload of their
  type; on another payload the first read of a position is a \<open>TypeError\<close>.
\<close>

definition updateDrawingGesture :: "TouchGesture \<Rightarrow> PointerState \<Rightarrow> error + TouchGesture" where
  "updateDrawingGesture gesture pointer =
     (case tg_data gesture of
        DrawingGestureData startPos previousPosition travelled vel points \<Rightarrow>
          let distance = distanceTo previousPosition (ptr_position pointer);
              travelled' = travelled + distance
          in case (if tg_duration gesture > 0
                   then
                     let timeDelta = (ptr_timestamp pointer - tg_startTime gesture) / 1000;
                         displacement = subtract (ptr_position pointer) startPos
                     in divide displacement timeDelta
                   else Inr vel) of
               Inl e \<Rightarrow> Inl e
             | Inr vel' \<Rightarrow>
                 let newStrokePoints = (if distance > 1 then points @ [ptr_position pointer]
                                        else points)
                 in Inr (gesture\<lparr>tg_data := DrawingGestureData startPos (ptr_position pointer)
                                                travelled' vel' newStrokePoints\<rparr>)
      | _ \<Rightarrow> Inl (TypeError ''Cannot read properties of undefined''))"

definition updatePanZoomGesture :: "TouchStateManager \<Rightarrow> TouchGesture \<Rightarrow> error + TouchGesture" where
  "updatePanZoomGesture s gesture =
     (let pointers = map snd (activePointers s)
      in case calculateCentroid pointers of
           Inl e \<Rightarrow> Inl e
         | Inr centroid' \<Rightarrow>
             (case calculateSpread pointers of
                Inl e \<Rightarrow> Inl e
              | Inr spread' \<Rightarrow>
                  (case tg_data gesture of
                     PanZoomGestureData centroid0 spread0 _ _ _ _ _ \<Rightarrow>
                       let delta = subtract centroid' centroid0;
                           factor = (if spread0 > 0 then spread' / spread0 else 1.0)
                       in Inr (gesture\<lparr>tg_data := PanZoomGestureData centroid0 spread0 centroid'
                                                      spread' delta factor 0\<rparr>)
                   | _ \<Rightarrow> Inl (TypeError ''Cannot read properties of undefined''))))"

definition updateUndoGesture :: "TouchGesture \<Rightarrow> real \<Rightarrow> TouchGesture" where
  "updateUndoGesture gesture currentTime = gesture"

definition updateCurrentGesture ::
  "TouchStateManager \<Rightarrow> PointerState \<Rightarrow> error + (TouchStateManager \<times> Notification list)" where
  "updateCurrentGesture s updatedPointer =
     (case currentGesture s of
        None \<Rightarrow> Inr (s, [])
      | Some current \<Rightarrow>
          let now = ptr_timestamp updatedPointer;
              duration = now - tg_startTime current
          in case manager_calculateCentroid s of
               Inl e \<Rightarrow> Inl e
             | Inr centroid \<Rightarrow>
                 let updatedGesture = current\<lparr>tg_state := CHANGED, tg_duration := duration,
                                              tg_pointerCount := length (activePointers s),
                                              tg_primaryPointer := getPrimaryPointer s,
                                              tg_centroid := centroid\<rparr>
                 in case (case tg_type current of
                            DRAWING \<Rightarrow> updateDrawingGesture updatedGesture updatedPointer
                          | PAN_ZOOM \<Rightarrow> updatePanZoomGesture s updatedGesture
                          | UNDO \<Rightarrow> Inr (updateUndoGesture updatedGesture now)
                          | _ \<Rightarrow> Inr updatedGesture) of
                      Inl e \<Rightarrow> Inl e
                    | Inr gesture \<Rightarrow>
                        Inr (s\<lparr>currentGesture := Some gesture\<rparr>,
                             if onGestureUpdated (handlers s) then [GestureUpdated gesture]
                             else []))"

definition transitionToMode ::
  "TouchStateManager \<Rightarrow> TouchMode \<Rightarrow> PointerState
     \<Rightarrow> error + (TouchStateManager \<times> Notification list)" where
  "transitionToMode s newMode triggerPointer =
     (let previousMode = currentMode s;
          (s1, ended) = (if currentGesture s \<noteq> None \<and> newMode \<noteq> previousMode
                         then endCurrentGesture s else (s, []));
          s2 = s1\<lparr>currentMode := newMode\<rparr>
      in case (if newMode \<noteq> IDLE then startGesture s2 newMode triggerPointer
               else Inr (s2, [])) of
           Inl e \<Rightarrow> Inl e
         | Inr (s3, started) \<Rightarrow>
             Inr (s3, ended @ started
                      @ (if onTouchModeChanged (handlers s3)
                         then [TouchModeChanged previousMode newMode] else [])))"

definition handlePointerDown ::
  "TouchStateManager \<Rightarrow> PointerState \<Rightarrow> error + (TouchStateManager \<times> Notification list)" where
  "handlePointerDown s pointer =
     (let s1 = s\<lparr>activePointers := AList.update (ptr_id pointer) pointer (activePointers s),
                 lastUpdateTime := ptr_timestamp pointer\<rparr>;
          newMode = determineTouchMode s1
      in if newMode \<noteq> currentMode s1 then transitionToMode s1 newMode pointer
         else updateCurrentGesture s1 pointer)"

definition handlePointerMove ::
  "TouchStateManager \<Rightarrow> PointerState \<Rightarrow> error + (TouchStateManager \<times> Notification list)" where
  "handlePointerMove s pointer =
     (case map_of (activePointers s) (ptr_id pointer) of
        None \<Rightarrow> Inr (s, [])
      | Some existingPointer \<Rightarrow>
          let s1 = s\<lparr>activePointers := AList.update (ptr_id pointer) pointer (activePointers s),
                     lastUpdateTime := ptr_timestamp pointer\<rparr>
          in updateCurrentGesture s1 pointer)"

definition handlePointerUp ::
  "TouchStateManager \<Rightarrow> PointerState \<Rightarrow> error + (TouchStateManager \<times> Notification list)" where
  "handlePointerUp s pointer =
     (let s1 = s\<lparr>activePointers := AList.delete (ptr_id pointer) (activePointers s),
                 lastUpdateTime := ptr_timestamp pointer\<rparr>;
          newMode = determineTouchMode s1
      in if newMode \<noteq> currentMode s1 then
           (let (s2, ended) = endCurrentGesture s1
            in case transitionToMode s2 newMode pointer of
                 Inl e \<Rightarrow> Inl e
               | Inr (s3, notes) \<Rightarrow> Inr (s3, ended @ notes))
         else updateCurrentGesture s1 pointer)"

definition handlePointerCancel ::
  "TouchStateManager \<Rightarrow> PointerState \<Rightarrow> error + (TouchStateManager \<times> Notification list)" where
  "handlePointerCancel s pointer =
     (let s1 = s\<lparr>activePointers := AList.delete (ptr_id pointer) (activePointers s)\<rparr>;
          (s2, cancelled) = cancelCurrentGesture s1;
          newMode = determineTouchMode s2
      in case transitionToMode s2 newMode pointer of
           Inl e \<Rightarrow> Inl e
         | Inr (s3, notes) \<Rightarrow> Inr (s3, cancelled @ notes))"

definition reset :: "TouchStateManager \<Rightarrow> TouchStateManager \<times> Notification list" where
  "reset s =
     (let (s1, ended) = endCurrentGesture s
      in (s1\<lparr>activePointers := [], currentMode := IDLE, currentGesture := None\<rparr>, ended))"

subsection \<open>Events and reachable states\<close>

datatype TouchEvent =
    PointerDown PointerState
  | PointerMove PointerState
  | PointerUp PointerState
  | PointerCancel PointerState
  | Reset
  | SetHandlers TouchStateEventHandlers

definition dispatch ::
  "TouchStateManager \<Rightarrow> TouchEvent \<Rightarrow> error + (TouchStateManager \<times> Notification list)" where
  "dispatch s event =
     (case event of
        PointerDown pointer \<Rightarrow> handlePointerDown s pointer
      | PointerMove pointer \<Rightarrow> handlePointerMove s pointer
      | PointerUp pointer \<Rightarrow> handlePointerUp s pointer
      | PointerCancel pointer \<Rightarrow> handlePointerCancel s pointer
      | Reset \<Rightarrow> Inr (reset s)
      | SetHandlers hs \<Rightarrow> Inr (setHandlers s hs, []))"

text \<open>
  The states of a manager after its construction and any sequence of calls of its public
  methods that return.
\<close>

inductive reachable :: "TouchStateManager \<Rightarrow> bool" where
  initial: "reachable (new_TouchStateManager hs)"
| step: "reachable s \<Longrightarrow> dispatch s event = Inr (s', notes) \<Longrightarrow> reachable s'"

text \<open>A run of events from a state, with the notifications of all of them.\<close>

fun run_events ::
  "TouchStateManager \<Rightarrow> TouchEvent list \<Rightarrow> error + (TouchStateManager \<times> Notification list)" where
  "run_events s [] = Inr (s, [])"
| "run_events s (event # rest) =
     (case dispatch s event of
        Inl e \<Rightarrow> Inl e
      | Inr (s', notes) \<Rightarrow>
          (case run_events s' rest of
             Inl e \<Rightarrow> Inl e
           | Inr (s'', notes') \<Rightarrow> Inr (s'', notes @ notes')))"

definition all_handlers :: TouchStateEventHandlers where
  "all_handlers =
     \<lparr>onTouchModeChanged = True, onGestureStarted = True, onGestureUpdated = True,
      onGestureEnded = True, onGestureCancelled = True\<rparr>"

definition isTouchModeChanged :: "Notification \<Rightarrow> bool" where
  "isTouchModeChanged n = (case n of TouchModeChanged _ _ \<Rightarrow> True | _ \<Rightarrow> False)"

subsection \<open>Shape of the live gesture\<close>

text \<open>
  The update functions read the payload of the live gesture through a cast
  (\<^verbatim>\<open>gesture as DrawingGesture\<close>); the payload has the shape of the gesture's type in every
  state the manager reaches. \<open>gesture_typed\<close> states that shape, as the invariant under
  which no update function fails.
\<close>

definition gesture_typed :: "TouchGesture \<Rightarrow> bool" where
  "gesture_typed g =
     (case tg_type g of
        DRAWING \<Rightarrow> (case tg_data g of DrawingGestureData _ _ _ _ _ \<Rightarrow> True | _ \<Rightarrow> False)
      | PAN_ZOOM \<Rightarrow> (case tg_data g of PanZoomGestureData _ _ _ _ _ _ _ \<Rightarrow> True | _ \<Rightarrow> False)
      | _ \<Rightarrow> True)"

definition gesture_ok :: "TouchStateManager \<Rightarrow> bool" where
  "gesture_ok s = (case currentGesture s of None \<Rightarrow> True | Some g \<Rightarrow> gesture_typed g)"

subsection \<open>Kinds of notification\<close>

definition isGestureStarted :: "Notification \<Rightarrow> bool" where
  "isGestureStarted n = (case n of GestureStarted _ \<Rightarrow> True | _ \<Rightarrow> False)"

definition isGestureUpdated :: "Notification \<Rightarrow> bool" where
  "isGestureUpdated n = (case n of GestureUpdated _ \<Rightarrow> True | _ \<Rightarrow> False)"

definition isGestureFinished :: "Notification \<Rightarrow> bool" where
  "isGestureFinished n =
     (case n of GestureEnded _ \<Rightarrow> True | GestureCancelled _ \<Rightarrow> True | _ \<Rightarrow> False)"

section \<open>Geometric segments (core/geometry/segment.ts, line-segment.ts, arc-segment.ts)\<close>

text \<open>
  Every segment gets an identifier when it is constructed:
  \<open>segment_<type>_<Date.now()>_<Math.random().toString(36).substr(2, 9)>\<close>. The clock and
  the random source are the environment of the program. Here the environment gives, for the
  \<open>k\<close>-th construction, the clock reading and the random suffix; the functions that
  construct segments take the number of constructions so far and return the new number.
\<close>

record Env =
  env_dateNow :: "nat \<Rightarrow> nat"
  env_randomSuffix :: "nat \<Rightarrow> string"

datatype Segment =
    LineSegment (segment_id: string) (startPoint: Vec2) (endPoint: Vec2)
  | ArcSegment (segment_id: string) (center: Vec2) (radius: real) (startAngle: real)
      (sweepAngle: real)

definition generateId :: "Env \<Rightarrow> nat \<Rightarrow> string \<Rightarrow> string" where
  "generateId env k segmentType =
     ''segment_'' @ segmentType @ ''_'' @ decimal (env_dateNow env k) @ ''_''
       @ env_randomSuffix env k"

definition new_LineSegment :: "Env \<Rightarrow> nat \<Rightarrow> Vec2 \<Rightarrow> Vec2 \<Rightarrow> Segment \<times> nat" where
  "new_LineSegment env k start end_point =
     (LineSegment (generateId env k ''line'') start end_point, k + 1)"

text \<open>
  \<open>LineSegment.distanceToPoint\<close>, through \<open>closestPointTo\<close>, \<open>clampParameter\<close> and
  \<open>pointAt\<close>.
\<close>

definition clampParameter :: "real \<Rightarrow> real" where
  "clampParameter t = max 0 (min 1 t)"

text \<open>
  \<open>LineSegment.distanceToPoint\<close>, in exact arithmetic; \<open>fl_LineSegment_distanceToPoint\<close>
  below is the same method with the rounding of every operation.
\<close>

definition LineSegment_distanceToPoint :: "Vec2 \<Rightarrow> Vec2 \<Rightarrow> Vec2 \<Rightarrow> real" where
  "LineSegment_distanceToPoint start end_point point =
     (let lineVector = subtract end_point start;
          pointVector = subtract point start
      in if lengthSquared lineVector = 0 then distanceTo point start
         else
           let t = dot pointVector lineVector / lengthSquared lineVector;
               clampedT = clampParameter t;
               closestPoint = lerp start end_point clampedT
           in distanceTo point closestPoint)"

text \<open>
  \<open>normalizeAngle\<close>: two loops that bring an angle into \<open>[-\<pi>, \<pi>]\<close> in steps of \<open>2\<pi>\<close>.
\<close>

function normalizeAngle_down :: "real \<Rightarrow> real" where
  "normalizeAngle_down angle =
     (if angle > pi then normalizeAngle_down (angle - pi * 2) else angle)"
  by pat_completeness auto
termination
proof (relation "measure (\<lambda>angle. nat \<lceil>angle / (pi * 2)\<rceil>)")
  show "wf (measure (\<lambda>angle. nat \<lceil>angle / (pi * 2)\<rceil>))" by simp
next
  fix angle :: real
  assume gt: "pi < angle"
  define q where "q = angle / (pi * 2)"
  have "(angle - pi * 2) / (pi * 2) = q - 1"
    by (simp add: q_def field_simps)
  then have c: "\<lceil>(angle - pi * 2) / (pi * 2)\<rceil> = \<lceil>q\<rceil> - 1" by simp
  have "0 < angle" using gt pi_gt_zero by linarith
  then have "0 < q" unfolding q_def using pi_gt_zero by (intro divide_pos_pos) simp_all
  then have "1 \<le> \<lceil>q\<rceil>" by linarith
  with c have "nat \<lceil>(angle - pi * 2) / (pi * 2)\<rceil> < nat \<lceil>q\<rceil>" by linarith
  then show "(angle - pi * 2, angle) \<in> measure (\<lambda>angle. nat \<lceil>angle / (pi * 2)\<rceil>)"
    unfolding in_measure q_def .
qed

function normalizeAngle_up :: "real \<Rightarrow> real" where
  "normalizeAngle_up angle =
     (if angle < - pi then normalizeAngle_up (angle + pi * 2) else angle)"
  by pat_completeness auto
termination
proof (relation "measure (\<lambda>angle. nat \<lceil>(- angle) / (pi * 2)\<rceil>)")
  show "wf (measure (\<lambda>angle. nat \<lceil>(- angle) / (pi * 2)\<rceil>))" by simp
next
  fix angle :: real
  assume lt: "angle < - pi"
  define q where "q = (- angle) / (pi * 2)"
  have "(- (angle + pi * 2)) / (pi * 2) = q - 1"
    by (simp add: q_def field_simps)
  then have c: "\<lceil>(- (angle + pi * 2)) / (pi * 2)\<rceil> = \<lceil>q\<rceil> - 1" by simp
  have "0 < - angle" using lt pi_gt_zero by linarith
  then have "0 < q" unfolding q_def using pi_gt_zero by (intro divide_pos_pos) simp_all
  then have "1 \<le> \<lceil>q\<rceil>" by linarith
  with c have "nat \<lceil>(- (angle + pi * 2)) / (pi * 2)\<rceil> < nat \<lceil>q\<rceil>" by linarith
  then show "(angle + pi * 2, angle) \<in> measure (\<lambda>angle. nat \<lceil>(- angle) / (pi * 2)\<rceil>)"
    unfolding in_measure q_def .
qed

definition normalizeAngle :: "real \<Rightarrow> real" where
  "normalizeAngle angle = normalizeAngle_up (normalizeAngle_down angle)"

text \<open>
  The constructor of \<open>ArcSegment\<close>: the identifier is generated by the base-class
  constructor, before the check of the radius.
\<close>

definition new_ArcSegment ::
  "Env \<Rightarrow> nat \<Rightarrow> Vec2 \<Rightarrow> real \<Rightarrow> real \<Rightarrow> real \<Rightarrow> (error + Segment) \<times> nat" where
  "new_ArcSegment env k c r start sweep =
     (if \<bar>r\<bar> = 0 then (Inl (Error ''Arc radius cannot be zero''), k + 1)
      else (Inr (ArcSegment (generateId env k ''arc'') c \<bar>r\<bar> (normalizeAngle start) sweep),
            k + 1))"

definition fromPolar :: "real \<Rightarrow> real \<Rightarrow> Vec2" where
  "fromPolar len angle = \<lparr>vx = len * cos angle, vy = len * sin angle\<rparr>"

definition findCircleFromThreePoints :: "Vec2 \<Rightarrow> Vec2 \<Rightarrow> Vec2 \<Rightarrow> (Vec2 \<times> real) option" where
  "findCircleFromThreePoints p1 p2 p3 =
     (let mid1 = lerp p1 p2 0.5;
          mid2 = lerp p2 p3 0.5;
          dir1 = perpendicular (subtract p2 p1);
          dir2 = perpendicular (subtract p3 p2);
          det = cross dir1 dir2
      in if \<bar>det\<bar> < 1 / 10 ^ 10 then None
         else
           let diff = subtract mid2 mid1;
               t = cross diff dir2 / det;
               c = add mid1 (multiply dir1 t);
               r = distanceTo c p1
           in Some (c, r))"

definition calculateSweepAngle :: "real \<Rightarrow> real \<Rightarrow> real \<Rightarrow> real" where
  "calculateSweepAngle start end_angle midAngle =
     (let ccwSweep = end_angle - start;
          cwSweep = ccwSweep - 2 * pi * sgn ccwSweep
      in if \<bar>ccwSweep\<bar> \<le> pi then ccwSweep else cwSweep)"

definition fromThreePoints ::
  "Env \<Rightarrow> nat \<Rightarrow> Vec2 \<Rightarrow> Vec2 \<Rightarrow> Vec2 \<Rightarrow> (error + Segment option) \<times> nat" where
  "fromThreePoints env k p1 p2 p3 =
     (case findCircleFromThreePoints p1 p2 p3 of
        None \<Rightarrow> (Inr None, k)
      | Some (c, r) \<Rightarrow>
          let angle1 = atan2 (vy p1 - vy c) (vx p1 - vx c);
              angle2 = atan2 (vy p2 - vy c) (vx p2 - vx c);
              angle3 = atan2 (vy p3 - vy c) (vx p3 - vx c);
              sweep = calculateSweepAngle angle1 angle3 angle2
          in case new_ArcSegment env k c r angle1 sweep of
               (Inl e, k') \<Rightarrow> (Inl e, k')
             | (Inr arc, k') \<Rightarrow> (Inr (Some arc), k'))"

definition containsAngle :: "real \<Rightarrow> real \<Rightarrow> real \<Rightarrow> bool" where
  "containsAngle start sweep angle =
     (let normalizedAngle = normalizeAngle angle;
          end_angle = normalizeAngle (start + sweep)
      in if sweep > 0
         then (if start \<le> end_angle
               then normalizedAngle \<ge> start \<and> normalizedAngle \<le> end_angle
               else normalizedAngle \<ge> start \<or> normalizedAngle \<le> end_angle)
         else (if start \<ge> end_angle
               then normalizedAngle \<le> start \<and> normalizedAngle \<ge> end_angle
               else normalizedAngle \<le> start \<or> normalizedAngle \<ge> end_angle))"

definition ArcSegment_distanceToPoint :: "Vec2 \<Rightarrow> real \<Rightarrow> real \<Rightarrow> real \<Rightarrow> Vec2 \<Rightarrow> real" where
  "ArcSegment_distanceToPoint c r start sweep point =
     (let centerToPoint = subtract point c;
          distanceToCenter = vlength centerToPoint
      in if distanceToCenter = 0 then r
         else
           let pointAngle = atan2 (vy centerToPoint) (vx centerToPoint)
           in if containsAngle start sweep pointAngle then \<bar>distanceToCenter - r\<bar>
              else
                let arcStart = add c (fromPolar r start);
                    arcEnd = add c (fromPolar r (normalizeAngle (start + sweep)));
                    distToStart = distanceTo point arcStart;
                    distToEnd = distanceTo point arcEnd
                in min distToStart distToEnd)"

text \<open>The method \<open>distanceToPoint\<close> of the segment at hand.\<close>

definition distanceToPoint :: "Segment \<Rightarrow> Vec2 \<Rightarrow> real" where
  "distanceToPoint seg point =
     (case seg of
        LineSegment _ start end_point \<Rightarrow> LineSegment_distanceToPoint start end_point point
      | ArcSegment _ c r start sweep \<Rightarrow> ArcSegment_distanceToPoint c r start sweep point)"

section \<open>Double arithmetic\<close>

text \<open>
  The numbers of the source are binary64 floating-point numbers, and every arithmetic
  operation returns the exactly computed result rounded to the nearest such number, ties to
  the even significand. The definitions of this theory compute with exact reals, except where
  a statement depends on the rounding: the error of a fitted line does, and the methods it is
  computed with are given here once more, every operation followed by \<open>double\<close>, the
  rounding of a real to 53 significant bits. \<open>Math.sqrt\<close> is taken as the correctly rounded
  square root. The exponent is not bounded: overflow to an infinity and the subnormal numbers
  are outside this model.
\<close>

definition round_half_even :: "real \<Rightarrow> int" where
  "round_half_even x =
     (let n = \<lfloor>x\<rfloor>;
          r = x - of_int n
      in if r < 1 / 2 then n else if 1 / 2 < r then n + 1 else if even n then n else n + 1)"

definition double :: "real \<Rightarrow> real" where
  "double x =
     (if x = 0 then 0
      else
        let ulp = 2 powr (of_int \<lfloor>log 2 \<bar>x\<bar>\<rfloor> - 52)
        in of_int (round_half_even (x / ulp)) * ulp)"

text \<open>\<open>Vec2\<close> (core/math/vec2.ts) in double arithmetic.\<close>

definition fl_subtract :: "Vec2 \<Rightarrow> Vec2 \<Rightarrow> Vec2" where
  "fl_subtract a b = \<lparr>vx = double (vx a - vx b), vy = double (vy a - vy b)\<rparr>"

definition fl_lengthSquared :: "Vec2 \<Rightarrow> real" where
  "fl_lengthSquared v = double (double (vx v * vx v) + double (vy v * vy v))"

definition fl_length :: "Vec2 \<Rightarrow> real" where
  "fl_length v = double (sqrt (fl_lengthSquared v))"

definition fl_dot :: "Vec2 \<Rightarrow> Vec2 \<Rightarrow> real" where
  "fl_dot a b = double (double (vx a * vx b) + double (vy a * vy b))"

definition fl_distanceTo :: "Vec2 \<Rightarrow> Vec2 \<Rightarrow> real" where
  "fl_distanceTo a b = fl_length (fl_subtract a b)"

definition fl_lerp :: "Vec2 \<Rightarrow> Vec2 \<Rightarrow> real \<Rightarrow> Vec2" where
  "fl_lerp a b t =
     \<lparr>vx = double (vx a + double (double (vx b - vx a) * t)),
      vy = double (vy a + double (double (vy b - vy a) * t))\<rparr>"

text \<open>
  \<open>LineSegment.distanceToPoint\<close>, which returns the distance of \<open>closestPointTo\<close> (the
  segment is given by its two end points).
\<close>

definition fl_LineSegment_distanceToPoint :: "Vec2 \<Rightarrow> Vec2 \<Rightarrow> Vec2 \<Rightarrow> real" where
  "fl_LineSegment_distanceToPoint start end_point point =
     (let lineVector = fl_subtract end_point start;
          pointVector = fl_subtract point start
      in if fl_lengthSquared lineVector = 0 then fl_distanceTo point start
         else
           let t = double (fl_dot pointVector lineVector / fl_lengthSquared lineVector);
               clampedT = clampParameter t;
               closestPoint = fl_lerp start end_point clampedT
           in fl_distanceTo point closestPoint)"

section \<open>Stroke-to-geometry conversion (input/stroke-to-geometry.ts)\<close>

datatype GeometryType = LINE | ARC | CIRCLE | SPLINE | UNKNOWN

record FitMetadata =
  fit_method :: string
  parameters :: "(string \<times> real) list"

record GeometryFitResult =
  segment :: Segment
  gtype :: GeometryType
  confidence :: real
  fit_error :: real
  fit_points :: "Vec2 list"
  metadata :: FitMetadata

record ConversionOptions =
  lineThreshold :: real
  arcThreshold :: real
  circleThreshold :: real
  minSegmentLength :: real
  enableCircleDetection :: bool
  enableSplineGeneration :: bool
  maxFittingIterations :: nat
  confidenceThreshold :: real

definition DEFAULT_CONVERSION_OPTIONS :: ConversionOptions where
  "DEFAULT_CONVERSION_OPTIONS =
     \<lparr>lineThreshold = 3.0, arcThreshold = 5.0, circleThreshold = 8.0, minSegmentLength = 20.0,
      enableCircleDetection = True, enableSplineGeneration = False, maxFittingIterations = 50,
      confidenceThreshold = 0.6\<rparr>"

text \<open>
  The converter holds its options and a corner detector, which its constructor creates with
  the detector's default options and which no method of the converter reconfigures.
\<close>

record StrokeToGeometryConverter =
  conv_options :: ConversionOptions
  cornerDetector :: CornerDetectionOptions

definition new_StrokeToGeometryConverter :: "ConversionOptions \<Rightarrow> StrokeToGeometryConverter" where
  "new_StrokeToGeometryConverter opts =
     \<lparr>conv_options = opts, cornerDetector = DEFAULT_CORNER_OPTIONS\<rparr>"

subsection \<open>Errors and consistency measures\<close>

text \<open>
  \<open>calculateLineError\<close>, in double arithmetic: the root of the mean of the squared distances
  of the points from the line, which is given by its two end points. For a line through two
  points whether this error is zero depends on the rounding of \<open>start + (end - start) * 1\<close>,
  so every operation is followed by its rounding here.
\<close>

definition calculateLineError :: "Vec2 list \<Rightarrow> Vec2 \<Rightarrow> Vec2 \<Rightarrow> real" where
  "calculateLineError points start end_point =
     double (sqrt (double
       (foldl (\<lambda>sumSquaredError point.
                 let distance = fl_LineSegment_distanceToPoint start end_point point
                 in double (sumSquaredError + double (distance * distance))) 0 points
        / real (length points))))"

text \<open>\<open>calculateArcError\<close> has the same body, on the arc, and is computed exactly.\<close>

definition calculateArcError :: "Vec2 list \<Rightarrow> Segment \<Rightarrow> real" where
  "calculateArcError points arc =
     sqrt (foldl (\<lambda>sumSquaredError point.
                    let distance = distanceToPoint arc point
                    in sumSquaredError + distance * distance) 0 points
           / real (length points))"

definition calculateCircleError :: "Vec2 list \<Rightarrow> Vec2 \<Rightarrow> real \<Rightarrow> real" where
  "calculateCircleError points c r =
     sqrt (foldl (\<lambda>sumSquaredError point.
                    let distance = \<bar>distanceTo point c - r\<bar>
                    in sumSquaredError + distance * distance) 0 points
           / real (length points))"

definition calculateLinearity :: "Vec2 list \<Rightarrow> real" where
  "calculateLinearity points =
     (if length points < 3 then 1.0
      else
        let startPoint = points ! 0;
            endPoint = points ! (length points - 1);
            totalDistance = distanceTo startPoint endPoint
        in if totalDistance < 1 / 10 ^ 6 then 1.0
           else
             let maxDeviation =
                   foldl (\<lambda>m i. max m (pointToLineDistance (points ! i) startPoint endPoint))
                     0 [1 ..< length points - 1];
                 deviationRatio = maxDeviation / totalDistance
             in max 0 (1 - deviationRatio * 5))"

definition calculateCurvature :: "Vec2 \<Rightarrow> Vec2 \<Rightarrow> Vec2 \<Rightarrow> real" where
  "calculateCurvature p1 p2 p3 =
     (let a = distanceTo p1 p2;
          b = distanceTo p2 p3;
          c = distanceTo p3 p1;
          area = \<bar>cross (subtract p2 p1) (subtract p3 p1)\<bar> / 2
      in if area < 1 / 10 ^ 10 \<or> a * b * c < 1 / 10 ^ 10 then 0
         else (4 * area) / (a * b * c))"

definition calculateCurvatureConsistency :: "Vec2 list \<Rightarrow> real" where
  "calculateCurvatureConsistency points =
     (if length points < 5 then 1.0
      else
        let curvatures = map (\<lambda>i. calculateCurvature (points ! (i - 2)) (points ! i)
                                     (points ! (i + 2)))
                           [2 ..< length points - 2]
        in if length curvatures = 0 then 1.0
           else
             let mean = foldl (\<lambda>a b. a + b) 0 curvatures / real (length curvatures);
                 variance = foldl (\<lambda>acc c. acc + (c - mean) * (c - mean)) 0 curvatures
                            / real (length curvatures);
                 stdDev = sqrt variance;
                 coefficientOfVariation = (if mean > 0 then stdDev / mean else 0)
             in max 0 (1 - coefficientOfVariation))"

definition calculateRadiusConsistency :: "Vec2 list \<Rightarrow> Vec2 \<Rightarrow> real \<Rightarrow> real" where
  "calculateRadiusConsistency points c targetRadius =
     (let radii = map (\<lambda>p. distanceTo p c) points;
          sumSquaredError = foldl (\<lambda>acc r. let err = \<bar>r - targetRadius\<bar> in acc + err * err)
                              0 radii;
          rmsError = sqrt (sumSquaredError / real (length radii));
          relativeError = (if targetRadius > 0 then rmsError / targetRadius else 1)
      in max 0 (1 - relativeError * 2))"

definition calculateAverageSpacing :: "Vec2 list \<Rightarrow> real" where
  "calculateAverageSpacing points =
     (if length points < 2 then 0
      else foldl (\<lambda>totalDistance i. totalDistance + distanceTo (points ! (i - 1)) (points ! i))
             0 [1 ..< length points]
           / (real (length points) - 1))"

definition fitCircleLeastSquares :: "Vec2 list \<Rightarrow> (Vec2 \<times> real) option" where
  "fitCircleLeastSquares points =
     (if length points < 3 then None
      else
        let n = real (length points);
            sumX = foldl (\<lambda>s p. s + vx p) 0 points;
            sumY = foldl (\<lambda>s p. s + vy p) 0 points;
            sumXX = foldl (\<lambda>s p. s + vx p * vx p) 0 points;
            sumYY = foldl (\<lambda>s p. s + vy p * vy p) 0 points;
            sumXY = foldl (\<lambda>s p. s + vx p * vy p) 0 points;
            sumXXX = foldl (\<lambda>s p. s + vx p * vx p * vx p) 0 points;
            sumYYY = foldl (\<lambda>s p. s + vy p * vy p * vy p) 0 points;
            sumXXY = foldl (\<lambda>s p. s + vx p * vx p * vy p) 0 points;
            sumXYY = foldl (\<lambda>s p. s + vx p * (vy p * vy p)) 0 points;
            A = n * sumXX - sumX * sumX;
            B = n * sumXY - sumX * sumY;
            C = n * sumYY - sumY * sumY;
            D = 0.5 * (n * sumXXY - sumX * sumXY + n * sumYYY - sumY * sumYY);
            E = 0.5 * (n * sumXXX - sumX * sumXX + n * sumXYY - sumY * sumXY);
            denominator = A * C - B * B
        in if \<bar>denominator\<bar> < 1 / 10 ^ 10 then None
           else
             let centerX = (D * C - B * E) / denominator;
                 centerY = (A * E - B * D) / denominator;
                 c = \<lparr>vx = centerX, vy = centerY\<rparr>;
                 sumRadiusSquared = foldl (\<lambda>s p. s + distanceToSquared p c) 0 points;
                 r = sqrt (sumRadiusSquared / n)
             in Some (c, r))"

text \<open>
  The distance that \<open>isSegmentTooShort\<close> compares with the minimum length is the one double
  arithmetic computes.
\<close>

definition isSegmentTooShort :: "ConversionOptions \<Rightarrow> Vec2 list \<Rightarrow> bool" where
  "isSegmentTooShort opts points =
     (if length points < 2 then True
      else
        let startPoint = points ! 0;
            endPoint = points ! (length points - 1);
            distance = fl_distanceTo startPoint endPoint
        in distance < minSegmentLength opts)"

definition mergeCornerDetection :: "nat list \<Rightarrow> nat list \<Rightarrow> nat list" where
  "mergeCornerDetection strokeCorners detectedCorners =
     sort (remdups (strokeCorners @ detectedCorners))"

subsection \<open>The three fits\<close>

text \<open>
  Where the error exceeds a threshold of \<open>0\<close>, the quotient in the confidence is \<open>+\<infinity>\<close> in
  JavaScript and \<open>Math.max(0, 1 - \<infinity>)\<close> is \<open>0\<close>; the model says so.
\<close>

definition fitLine ::
  "ConversionOptions \<Rightarrow> Env \<Rightarrow> nat \<Rightarrow> Vec2 list \<Rightarrow> GeometryFitResult option \<times> nat" where
  "fitLine opts env k points =
     (if length points < 2 then (None, k)
      else
        let startPoint = points ! 0;
            endPoint = points ! (length points - 1);
            (seg, k') = new_LineSegment env k startPoint endPoint;
            err = calculateLineError points startPoint endPoint;
            conf = (if err > lineThreshold opts
                    then (if lineThreshold opts = 0 then 0
                          else max 0 (1 - (err - lineThreshold opts) / lineThreshold opts))
                    else 1.0);
            linearity = calculateLinearity points;
            conf = conf * linearity
        in (Some \<lparr>segment = seg, gtype = LINE, confidence = conf, fit_error = err,
                   fit_points = points,
                   metadata = \<lparr>fit_method = ''least_squares_endpoints'',
                                parameters = [(''linearity'', linearity)]\<rparr>\<rparr>,
            k'))"

text \<open>
  \<open>fitArc\<close> catches every exception of its body and returns \<open>null\<close>: the error of the arc
  constructor, and the \<open>TypeError\<close> of \<open>calculateArcError\<close> on the \<open>null\<close> that
  \<open>fromThreePoints\<close> returns for collinear points.
\<close>

definition fitArc ::
  "ConversionOptions \<Rightarrow> Env \<Rightarrow> nat \<Rightarrow> Vec2 list \<Rightarrow> GeometryFitResult option \<times> nat" where
  "fitArc opts env k points =
     (if length points < 3 then (None, k)
      else
        let startPoint = points ! 0;
            middleIndex = length points div 2;
            middlePoint = points ! middleIndex;
            endPoint = points ! (length points - 1)
        in case fromThreePoints env k startPoint middlePoint endPoint of
             (Inl e, k') \<Rightarrow> (None, k')
           | (Inr None, k') \<Rightarrow> (None, k')
           | (Inr (Some seg), k') \<Rightarrow>
               let err = calculateArcError points seg;
                   conf = (if err > arcThreshold opts
                           then (if arcThreshold opts = 0 then 0
                                 else max 0 (1 - (err - arcThreshold opts) / arcThreshold opts))
                           else 1.0);
                   curvatureConsistency = calculateCurvatureConsistency points;
                   conf = conf * curvatureConsistency
               in (Some \<lparr>segment = seg, gtype = ARC, confidence = conf, fit_error = err,
                          fit_points = points,
                          metadata = \<lparr>fit_method = ''three_point_fit'',
                                       parameters = [(''radius'', radius seg),
                                                     (''curvatureConsistency'',
                                                      curvatureConsistency)]\<rparr>\<rparr>,
                   k'))"

definition fitCircle ::
  "ConversionOptions \<Rightarrow> Env \<Rightarrow> nat \<Rightarrow> Vec2 list
     \<Rightarrow> (error + GeometryFitResult option) \<times> nat" where
  "fitCircle opts env k points =
     (if length points < 5 then (Inr None, k)
      else
        let startPoint = points ! 0;
            endPoint = points ! (length points - 1);
            closureDistance = distanceTo startPoint endPoint;
            averageSpacing = calculateAverageSpacing points
        in if closureDistance > averageSpacing * 3 then (Inr None, k)
           else case fitCircleLeastSquares points of
             None \<Rightarrow> (Inr None, k)
           | Some (c, r) \<Rightarrow>
               (case new_ArcSegment env k c r 0 (pi * 2) of
                  (Inl e, k') \<Rightarrow> (Inl e, k')
                | (Inr seg, k') \<Rightarrow>
                    let err = calculateCircleError points c r;
                        conf = (if err > circleThreshold opts
                                then (if circleThreshold opts = 0 then 0
                                      else max 0 (1 - (err - circleThreshold opts)
                                                        / circleThreshold opts))
                                else 1.0);
                        closureQuality = 1 - min 1 (closureDistance / (averageSpacing * 3));
                        radiusConsistency = calculateRadiusConsistency points c r;
                        conf = conf * (closureQuality * radiusConsistency)
                    in (Inr (Some \<lparr>segment = seg, gtype = CIRCLE, confidence = conf,
                                    fit_error = err, fit_points = points,
                                    metadata = \<lparr>fit_method = ''least_squares_circle'',
                                                 parameters = [(''radius'', r),
                                                               (''closureQuality'', closureQuality),
                                                               (''radiusConsistency'',
                                                                radiusConsistency)]\<rparr>\<rparr>),
                        k')))"

subsection \<open>Selection of the best fit\<close>

definition complexityBonus :: "GeometryType \<Rightarrow> real" where
  "complexityBonus t =
     (case t of LINE \<Rightarrow> 0.1 | ARC \<Rightarrow> 0.05 | CIRCLE \<Rightarrow> 0.0 | SPLINE \<Rightarrow> - 0.05 | UNKNOWN \<Rightarrow> - 0.1)"

definition calculateFitScore :: "GeometryFitResult \<Rightarrow> real" where
  "calculateFitScore result =
     (let score = confidence result;
          score = score + complexityBonus (gtype result);
          errorPenalty = min 0.2 (fit_error result / 10);
          score = score - errorPenalty
      in max 0 (min 1 score))"

text \<open>The \<open>for\<close> loop of \<open>selectBestFit\<close> over \<open>results[1..]\<close>, carrying \<open>bestResult\<close> and \<open>bestScore\<close>.\<close>

fun selectBestFit_loop ::
  "GeometryFitResult \<Rightarrow> real \<Rightarrow> GeometryFitResult list \<Rightarrow> GeometryFitResult" where
  "selectBestFit_loop bestResult bestScore [] = bestResult"
| "selectBestFit_loop bestResult bestScore (result # rest) =
     (let score = calculateFitScore result in
      if score > bestScore then selectBestFit_loop result score rest
      else selectBestFit_loop bestResult bestScore rest)"

text \<open>
  On an empty array \<open>results[0]\<close> is \<open>undefined\<close> and \<open>calculateFitScore\<close> throws a
  \<open>TypeError\<close> when it reads \<open>result.confidence\<close>.
\<close>

definition selectBestFit :: "GeometryFitResult list \<Rightarrow> error + GeometryFitResult" where
  "selectBestFit results =
     (case results of
        [] \<Rightarrow> Inl (TypeError ''Cannot read properties of undefined'')
      | [r] \<Rightarrow> Inr r
      | r # rest \<Rightarrow> Inr (selectBestFit_loop r (calculateFitScore r) rest))"

subsection \<open>Fitting a run and converting a stroke\<close>

definition fitSegment ::
  "ConversionOptions \<Rightarrow> Env \<Rightarrow> nat \<Rightarrow> Vec2 list
     \<Rightarrow> (error + GeometryFitResult option) \<times> nat" where
  "fitSegment opts env k points =
     (if length points < 2 then (Inr None, k)
      else if isSegmentTooShort opts points then (Inr None, k)
      else
        let (lineFit, k1) = fitLine opts env k points;
            fittingResults = (case lineFit of Some r \<Rightarrow> [r] | None \<Rightarrow> [])
        in case (if enableCircleDetection opts \<and> length points \<ge> 5
                 then fitCircle opts env k1 points else (Inr None, k1)) of
             (Inl e, k2) \<Rightarrow> (Inl e, k2)
           | (Inr circleFit, k2) \<Rightarrow>
               let fittingResults =
                     fittingResults @ (case circleFit of Some r \<Rightarrow> [r] | None \<Rightarrow> []);
                   (arcFit, k3) = (if length points \<ge> 3 then fitArc opts env k2 points
                                   else (None, k2));
                   fittingResults =
                     fittingResults @ (case arcFit of Some r \<Rightarrow> [r] | None \<Rightarrow> [])
               in if length fittingResults = 0 then (Inr None, k3)
                  else case selectBestFit fittingResults of
                         Inl e \<Rightarrow> (Inl e, k3)
                       | Inr best \<Rightarrow> (Inr (Some best), k3))"

text \<open>\<open>Array.prototype.slice(start, end)\<close> for indices that are not negative.\<close>

definition slice :: "'a list \<Rightarrow> nat \<Rightarrow> nat \<Rightarrow> 'a list" where
  "slice xs start end_excl = take (end_excl - start) (drop start xs)"

text \<open>
  The loop of \<open>convertStroke\<close> over the merged corner indices, carrying \<open>results\<close>,
  \<open>segmentStart\<close> and the number of segments constructed so far.
\<close>

fun convertStroke_loop ::
  "ConversionOptions \<Rightarrow> Env \<Rightarrow> Vec2 list \<Rightarrow> nat list \<Rightarrow> GeometryFitResult list \<Rightarrow> nat \<Rightarrow> nat
     \<Rightarrow> (error + (GeometryFitResult list \<times> nat)) \<times> nat" where
  "convertStroke_loop opts env points [] results segmentStart k =
     (Inr (results, segmentStart), k)"
| "convertStroke_loop opts env points (cornerIndex # rest) results segmentStart k =
     (if cornerIndex > segmentStart then
        (case fitSegment opts env k (slice points segmentStart (cornerIndex + 1)) of
           (Inl e, k') \<Rightarrow> (Inl e, k')
         | (Inr segmentResult, k') \<Rightarrow>
             convertStroke_loop opts env points rest
               (case segmentResult of
                  Some r \<Rightarrow> if confidence r \<ge> confidenceThreshold opts then results @ [r]
                            else results
                | None \<Rightarrow> results)
               cornerIndex k')
      else convertStroke_loop opts env points rest results cornerIndex k)"

definition postProcessResults :: "GeometryFitResult list \<Rightarrow> GeometryFitResult list" where
  "postProcessResults results = results"

definition convertStroke ::
  "StrokeToGeometryConverter \<Rightarrow> Env \<Rightarrow> nat \<Rightarrow> ProcessedStroke
     \<Rightarrow> (error + GeometryFitResult list) \<times> nat" where
  "convertStroke this env k stroke =
     (let opts = conv_options this;
          points = map sp_position (resampledPoints stroke)
      in if length points < 2 then (Inr [], k)
         else
           let cornerResult = detectCorners (cornerDetector this) points;
               corners = mergeCornerDetection (cornerIndices stroke)
                           (cd_cornerIndices cornerResult)
           in case convertStroke_loop opts env points corners [] 0 k of
                (Inl e, k') \<Rightarrow> (Inl e, k')
              | (Inr (results, segmentStart), k') \<Rightarrow>
                  if segmentStart + 1 < length points then
                    (case fitSegment opts env k' (drop segmentStart points) of
                       (Inl e, k'') \<Rightarrow> (Inl e, k'')
                     | (Inr segmentResult, k'') \<Rightarrow>
                         (Inr (postProcessResults
                                 (case segmentResult of
                                    Some r \<Rightarrow> if confidence r \<ge> confidenceThreshold opts
                                              then results @ [r] else results
                                  | None \<Rightarrow> results)),
                          k''))
                  else (Inr (postProcessResults results), k'))"

subsection \<open>Results up to segment identifiers\<close>

text \<open>
  \<open>without_id\<close> forgets the identifier of the segment of a fit and keeps everything else: the
  type, the geometry of the segment, the confidence, the error, the points and the metadata.
\<close>

definition erase_id :: "Segment \<Rightarrow> Segment" where
  "erase_id seg =
     (case seg of
        LineSegment _ a b \<Rightarrow> LineSegment [] a b
      | ArcSegment _ c r s w \<Rightarrow> ArcSegment [] c r s w)"

definition without_id :: "GeometryFitResult \<Rightarrow> GeometryFitResult" where
  "without_id r = r\<lparr>segment := erase_id (segment r)\<rparr>"

text \<open>
  The choice that \<open>fitSegment\<close> makes once the three fits have been attempted, as a function
  of their outcomes (used to reason about \<open>fitSegment\<close>).
\<close>

definition option_list :: "'a option \<Rightarrow> 'a list" where
  "option_list x = (case x of Some r \<Rightarrow> [r] | None \<Rightarrow> [])"

definition chooseFit ::
  "GeometryFitResult option \<Rightarrow> error + GeometryFitResult option \<Rightarrow> GeometryFitResult option
     \<Rightarrow> error + GeometryFitResult option" where
  "chooseFit lineFit circleFit arcFit =
     (case circleFit of
        Inl e \<Rightarrow> Inl e
      | Inr c \<Rightarrow>
          let fittingResults = option_list lineFit @ option_list c @ option_list arcFit
          in if fittingResults = [] then Inr None
             else map_sum id Some (selectBestFit fittingResults))"

text \<open>Two candidates for one run: a poor line and a good arc.\<close>

definition example_line_fit :: GeometryFitResult where
  "example_line_fit =
     \<lparr>segment = LineSegment ''segment_line_1700000000000_k3x9a'' \<lparr>vx = 0, vy = 0\<rparr> \<lparr>vx = 30, vy = 0\<rparr>,
      gtype = LINE, confidence = 0.5, fit_error = 0, fit_points = [],
      metadata = \<lparr>fit_method = ''least_squares_endpoints'', parameters = [(''linearity'', 0.5)]\<rparr>\<rparr>"

definition example_arc_fit :: GeometryFitResult where
  "example_arc_fit =
     \<lparr>segment = ArcSegment ''segment_arc_1700000000000_p0q7z'' \<lparr>vx = 15, vy = 0\<rparr> 15 0 pi,
      gtype = ARC, confidence = 0.9, fit_error = 1, fit_points = [],
      metadata = \<lparr>fit_method = ''three_point_fit'', parameters = [(''radius'', 15)]\<rparr>\<rparr>"

text \<open>An environment: the clock advances by one millisecond per construction.\<close>

definition example_env :: Env where
  "example_env =
     \<lparr>env_dateNow = (\<lambda>k. 1700000000000 + k), env_randomSuffix = (\<lambda>k. ''r'' @ decimal k)\<rparr>"

section \<open>Gesture recognizer: the undo hold (input/gesture-recognizer.ts)\<close>

datatype GestureType = PAN | ZOOM | ROTATE | UNDO | TAP | LONG_PRESS | SWIPE

datatype GesturePhase = POSSIBLE | BEGAN | CHANGED | ENDED | CANCELLED | FAILED

record PanData =
  pan_translation :: Vec2
  pan_velocity :: Vec2
  pan_totalDistance :: real

record ZoomData =
  zoom_scale :: real
  zoom_velocity :: real
  zoom_center :: Vec2

record RotationData =
  rotation_angle :: real
  rotation_velocity :: real
  rotation_center :: Vec2

record TapData =
  tap_position :: Vec2
  tap_tapCount :: nat

record SwipeData =
  swipe_direction :: Vec2
  swipe_velocity :: real
  swipe_distance :: real







record GestureRecognitionOptions =
  panThreshold :: real
  zoomThreshold :: real
  rotationThreshold :: real
  tapTimeout :: real
  tapRadius :: real
  longPressTimeout :: real
  undoHoldTime :: real
  swipeMinVelocity :: real
  swipeMinDistance :: real
  simultaneousRecognition :: bool


text \<open>
  The accumulator \<open>undoState\<close> starts as the empty object, and so does it after \<open>reset\<close>. Its
  three optional fields are assigned together, when tracking starts, and by no other
  statement except the update of \<open>isConfirmed\<close>; the state is therefore \<open>None\<close> (no field set)
  or a full record.
\<close>

record UndoTracking =
  startTime :: real
  requiredHoldTime :: real
  isConfirmed :: bool

text \<open>
  The part of the recognizer that \<open>recognizeUndo\<close> reads and writes: the options and
  \<open>undoState\<close>. The pan, zoom, rotation and tap accumulators, the active-gesture map and the
  history belong to the other gesture types and to \<open>recognizeGestures\<close>.
\<close>

record GestureRecognizer =
  gr_options :: GestureRecognitionOptions
  undoState :: "UndoTracking option"


definition gr_reset :: "GestureRecognizer \<Rightarrow> GestureRecognizer" where
  "gr_reset g = g\<lparr>undoState := None\<rparr>"




text \<open>Three touch pointers held at fixed positions.\<close>

definition example_pointer :: "int \<Rightarrow> real \<Rightarrow> real \<Rightarrow> real \<Rightarrow> PointerState" where
  "example_pointer i px py t =
     \<lparr>ptr_id = i, ptr_type = TOUCH, ptr_position = \<lparr>vx = px, vy = py\<rparr>,
      ptr_worldPosition = \<lparr>worldCoordinates = \<lparr>vx = px, vy = py\<rparr>,
         transforms = \<lparr>screenToViewport = IDENTITY, viewportToWorld = IDENTITY,
                       worldToViewport = IDENTITY, viewportToScreen = IDENTITY\<rparr>\<rparr>,
      ptr_pressure = 0.5, ptr_tangentialPressure = 0, ptr_tiltX = 0, ptr_tiltY = 0,
      ptr_twist = 0, ptr_width = 1, ptr_height = 1, ptr_timestamp = t, ptr_button = 0,
      ptr_buttons = 1, ptr_isPrimary = (i = 1)\<rparr>"




subsection \<open>The gesture started by a first pointer-down at the origin\<close>

definition example_first_gesture :: TouchGesture where
  "example_first_gesture =
     \<lparr>tg_type = TouchMode.DRAWING, tg_state = GestureState.BEGAN, tg_startTime = 10,
      tg_duration = 0, tg_pointerCount = 1,
      tg_primaryPointer = Some (example_pointer 1 0 0 10), tg_centroid = \<lparr>vx = 0, vy = 0\<rparr>,
      tg_data = DrawingGestureData \<lparr>vx = 0, vy = 0\<rparr> \<lparr>vx = 0, vy = 0\<rparr> 0 \<lparr>vx = 0, vy = 0\<rparr>
                  [\<lparr>vx = 0, vy = 0\<rparr>]\<rparr>"

subsection \<open>A manager in drawing mode, after that first pointer-down\<close>

definition example_drawing_manager :: TouchStateManager where
  "example_drawing_manager =
     \<lparr>currentMode = TouchMode.DRAWING, currentGesture = Some example_first_gesture,
      activePointers = [(1, example_pointer 1 0 0 10)], gestureHistory = [],
      handlers = all_handlers, lastUpdateTime = 10\<rparr>"

subsection \<open>Two points with the coordinates \<open>0.7\<close> and \<open>0.1\<close> as the source reads them\<close>

definition example_start :: Vec2 where
  "example_start = \<lparr>vx = double (7 / 10), vy = 0\<rparr>"

definition example_end :: Vec2 where
  "example_end = \<lparr>vx = double (1 / 10), vy = 25\<rparr>"

section \<open>Corner detection on short inputs\<close>

text \<open>
  C4, as stated, fails for the empty input (and for a single point): the result has no
  segment at all, not one line segment.
\<close>

theorem detectCorners_empty_counterexample:
  "length ([] :: Vec2 list) < 3
   \<and> detectCorners DEFAULT_CORNER_OPTIONS []
       = \<lparr>cd_cornerIndices = [], cd_curvatures = [], cd_confidence = [], cd_segments = []\<rparr>
   \<and> length (cd_segments (detectCorners DEFAULT_CORNER_OPTIONS [])) \<noteq> 1"
  by (simp add: detectCorners_def)

text \<open>
  C4 (amended). \<open>detectCorners\<close> is a total function: no statement of it raises. For an
  input of fewer than three points the result has no corner indices, no curvatures and no
  confidences. With exactly two points it has exactly one segment, labelled \<open>line\<close>, from
  index 0 to index 1 with quality 1; with no point or one point it has no segment.
\<close>

theorem detectCorners_few_points:
  assumes "length points < 3"
  shows "cd_cornerIndices (detectCorners opts points) = []
       \<and> cd_curvatures (detectCorners opts points) = []
       \<and> cd_confidence (detectCorners opts points) = []
       \<and> cd_segments (detectCorners opts points) =
            (if length points = 2
             then [\<lparr>startIndex = 0, endIndex = 1, run_type = line, quality = 1\<rparr>]
             else [])"
proof -
  from assms have "length points = 2 \<or> length points < 2" by arith
  then show ?thesis
  proof
    assume "length points = 2"
    then show ?thesis by (simp add: detectCorners_def)
  next
    assume "length points < 2"
    then show ?thesis by (simp add: detectCorners_def)
  qed
qed

theorem detectCorners_few_points_witness:
  "length [\<lparr>vx = 0, vy = 0\<rparr>, \<lparr>vx = 10, vy = 0\<rparr>] < 3
   \<and> cd_cornerIndices (detectCorners DEFAULT_CORNER_OPTIONS [\<lparr>vx = 0, vy = 0\<rparr>, \<lparr>vx = 10, vy = 0\<rparr>]) = []
   \<and> cd_segments (detectCorners DEFAULT_CORNER_OPTIONS [\<lparr>vx = 0, vy = 0\<rparr>, \<lparr>vx = 10, vy = 0\<rparr>])
       = [\<lparr>startIndex = 0, endIndex = 1, run_type = line, quality = 1\<rparr>]
   \<and> length [\<lparr>vx = 5, vy = 5\<rparr>] < 3
   \<and> cd_segments (detectCorners DEFAULT_CORNER_OPTIONS [\<lparr>vx = 5, vy = 5\<rparr>]) = []"
proof -
  let ?two = "[\<lparr>vx = 0, vy = 0\<rparr>, \<lparr>vx = 10, vy = 0\<rparr>]"
  let ?one = "[\<lparr>vx = 5, vy = 5 :: real\<rparr>]"
  have h2: "length ?two < 3" and h1: "length ?one < 3" by simp_all
  from detectCorners_few_points [OF h2, of DEFAULT_CORNER_OPTIONS]
  have c1: "cd_cornerIndices (detectCorners DEFAULT_CORNER_OPTIONS ?two) = []"
    and c2: "cd_segments (detectCorners DEFAULT_CORNER_OPTIONS ?two)
       = [\<lparr>startIndex = 0, endIndex = 1, run_type = line, quality = 1\<rparr>]"
    by simp_all
  from detectCorners_few_points [OF h1, of DEFAULT_CORNER_OPTIONS]
  have c3: "cd_segments (detectCorners DEFAULT_CORNER_OPTIONS ?one) = []"
    by simp
  from h2 h1 c1 c2 c3 show ?thesis by blast
qed

section \<open>Stroke life-cycle\<close>

subsection \<open>The processing at stroke end raises no error and, for a positive spacing, returns\<close>



lemma calculateAverageVelocity_ok: "\<exists>v. calculateAverageVelocity points = Inr v"
  by (simp add: calculateAverageVelocity_def divide_def)

lemma smoothPointAtIndex_ok:
  "index < length points \<Longrightarrow> \<exists>p. smoothPointAtIndex opts points index = Inr p"
  by (simp add: smoothPointAtIndex_def divide_def Let_def)

lemma smooth_indices_ok:
  "\<forall>i \<in> set idx. i < length points \<Longrightarrow>
   \<exists>points'. smooth_indices opts points idx = Inr points' \<and> length points' = length points"
proof (induction idx arbitrary: points)
  case Nil
  then show ?case by simp
next
  case (Cons i rest)
  then obtain p where p: "smoothPointAtIndex opts points i = Inr p"
    using smoothPointAtIndex_ok [of i points opts] by auto
  from Cons.prems have "\<forall>j \<in> set rest. j < length (points[i := p])" by simp
  from Cons.IH [OF this] p show ?case by simp
qed

lemma smoothing_passes_ok: "\<exists>points'. smoothing_passes opts n points = Inr points'"
proof (induction n arbitrary: points)
  case 0
  then show ?case by simp
next
  case (Suc n)
  have "\<forall>i \<in> set [2 ..< length points - 2]. i < length points" by auto
  from smooth_indices_ok [OF this, of opts]
  obtain points' where "smooth_indices opts points [2 ..< length points - 2] = Inr points'"
    by blast
  with Suc.IH [of points'] show ?case by simp
qed

lemma applySmoothingFilter_ok: "\<exists>points'. applySmoothingFilter opts points = Inr points'"
  using smoothing_passes_ok by (simp add: applySmoothingFilter_def)

lemma calculateQualityScore_ok: "\<exists>q. calculateQualityScore raw sm rs = Inr q"
proof -
  obtain v where "calculateAverageVelocity (rs_points raw) = Inr v"
    using calculateAverageVelocity_ok by blast
  then show ?thesis
    by (simp add: calculateQualityScore_def calculateVelocityConsistency_def Let_def)
qed

lemma processStroke_no_error: "processStroke opts raw \<noteq> Some (Inl e)"
proof -
  obtain sm where sm: "applySmoothingFilter opts (removeDuplicatePoints opts (rs_points raw)) = Inr sm"
    using applySmoothingFilter_ok by blast
  show ?thesis
  proof (cases "resampleStroke opts sm")
    case None
    with sm show ?thesis by (simp add: processStroke_def Let_def)
  next
    case (Some rs)
    obtain q where "calculateQualityScore raw sm rs = Inr q"
      using calculateQualityScore_ok by blast
    with sm Some show ?thesis by (simp add: processStroke_def Let_def)
  qed
qed

lemma endStroke_active_no_error:
  assumes "activeStroke s = Some a"
  shows "endStroke s endTime \<noteq> Some (Inl e)"
proof -
  obtain v where v: "calculateAverageVelocity (as_points a) = Inr v"
    using calculateAverageVelocity_ok by blast
  then obtain raw where raw: "createRawStroke (Some a) endTime = Inr raw"
    by (simp add: createRawStroke_def Let_def)
  show ?thesis
    using assms raw processStroke_no_error [of "options s" raw e]
    by (auto simp: endStroke_def split: option.splits sum.splits)
qed

lemma endStroke_success_idle:
  "endStroke s endTime = Some (Inr (processed, s')) \<Longrightarrow> activeStroke s' = None"
  by (auto simp: endStroke_def split: option.splits sum.splits)

lemma resample_while_returns:
  assumes "0 < spacing"
  shows "\<exists>r. resample_while spacing p c len acc result = Some r"
proof (induction "nat \<lfloor>acc / spacing\<rfloor>" arbitrary: acc result rule: less_induct)
  case less
  show ?case
  proof (cases "acc \<ge> spacing")
    case False
    then show ?thesis by (subst resample_while.simps) simp
  next
    case True
    have ge1: "1 \<le> acc / spacing" using True assms by (simp add: field_simps)
    have "(acc - spacing) / spacing = acc / spacing - 1"
      using assms by (simp add: field_simps)
    then have "\<lfloor>(acc - spacing) / spacing\<rfloor> = \<lfloor>acc / spacing\<rfloor> - 1" by simp
    moreover have "1 \<le> \<lfloor>acc / spacing\<rfloor>" using ge1 by linarith
    ultimately have "nat \<lfloor>(acc - spacing) / spacing\<rfloor> < nat \<lfloor>acc / spacing\<rfloor>" by linarith
    from less [OF this] True show ?thesis
      by (subst resample_while.simps) (simp add: Let_def)
  qed
qed

lemma resample_for_returns:
  "0 < spacing \<Longrightarrow> \<exists>r. resample_for spacing points acc result = Some r"
proof (induction spacing points acc result rule: resample_for.induct)
  case (1 spacing previousPoint currentPoint rest accumulatedDistance result)
  define len where "len = distanceTo (sp_position previousPoint) (sp_position currentPoint)"
  obtain acc' result' where w:
    "resample_while spacing previousPoint currentPoint len (accumulatedDistance + len) result
       = Some (acc', result')"
    using resample_while_returns [OF "1.prems", of previousPoint currentPoint len
        "accumulatedDistance + len" result] by fastforce
  from "1.IH" [OF len_def w refl "1.prems"] w show ?case
    by (simp add: Let_def len_def)
qed simp_all

lemma resampleStroke_returns:
  "0 < targetSpacing opts \<Longrightarrow> \<exists>r. resampleStroke opts points = Some r"
  using resample_for_returns [of "targetSpacing opts" points 0 "[hd points]"]
  by (auto simp: resampleStroke_def)

lemma processStroke_returns:
  assumes "0 < targetSpacing opts"
  shows "\<exists>processed. processStroke opts raw = Some (Inr processed)"
proof -
  obtain sm where sm: "applySmoothingFilter opts (removeDuplicatePoints opts (rs_points raw)) = Inr sm"
    using applySmoothingFilter_ok by blast
  obtain rs where rs: "resampleStroke opts sm = Some rs"
    using resampleStroke_returns [OF assms] by blast
  obtain q where "calculateQualityScore raw sm rs = Inr q"
    using calculateQualityScore_ok by blast
  with sm rs show ?thesis by (simp add: processStroke_def Let_def)
qed

lemma endStroke_returns:
  assumes "activeStroke s = Some a" and "0 < targetSpacing (options s)"
  shows "\<exists>processed s'. endStroke s endTime = Some (Inr (processed, s'))"
proof -
  obtain v where v: "calculateAverageVelocity (as_points a) = Inr v"
    using calculateAverageVelocity_ok by blast
  then obtain raw where raw: "createRawStroke (Some a) endTime = Inr raw"
    by (simp add: createRawStroke_def Let_def)
  obtain processed where "processStroke (options s) raw = Some (Inr processed)"
    using processStroke_returns [OF assms(2)] by blast
  with assms(1) raw show ?thesis by (simp add: endStroke_def)
qed

subsection \<open>Preconditions, the point cap and cancellation\<close>


text \<open>
  C6. With no active stroke, \<open>addPoint\<close> and \<open>endStroke\<close> raise an error (they return it at
  once, and the processor is left as it was). No stroke is active in a new processor, after
  \<open>cancelStroke\<close>, and after an \<open>endStroke\<close> that returned.
\<close>

theorem no_active_stroke_is_reported:
  "(activeStroke s = None \<longrightarrow>
      addPoint s point = Inl (Error ''No active stroke. Call startStroke() first.'')
      \<and> endStroke s endTime = Some (Inl (Error ''No active stroke to end.'')))
   \<and> activeStroke (new_StrokeProcessor opts) = None
   \<and> activeStroke (cancelStroke s1) = None
   \<and> (endStroke s2 endTime2 = Some (Inr (processed, s3)) \<longrightarrow> activeStroke s3 = None)"
proof -
  have a: "activeStroke s = None \<longrightarrow>
      addPoint s point = Inl (Error ''No active stroke. Call startStroke() first.'')
      \<and> endStroke s endTime = Some (Inl (Error ''No active stroke to end.''))"
    by (simp add: addPoint_def endStroke_def)
  have b: "activeStroke (new_StrokeProcessor opts) = None"
    by (simp add: new_StrokeProcessor_def)
  have c: "activeStroke (cancelStroke s1) = None"
    by (simp add: cancelStroke_def split: option.splits)
  have d: "endStroke s2 endTime2 = Some (Inr (processed, s3)) \<longrightarrow> activeStroke s3 = None"
    using endStroke_success_idle by blast
  from a b c d show ?thesis by blast
qed

lemma example_started_active:
  "activeStroke example_started_processor =
     Some \<lparr>as_id = ''stroke_'' @ decimal 1 @ ''_'' @ decimal 1700000000000,
           as_points = [example_stroke_point 0 0 10], as_startTime = 10,
           lastProcessedIndex = 0\<rparr>"
  by (simp add: example_started_processor_def startStroke_def generateStrokeId_def
      new_StrokeProcessor_def example_stroke_point_def Let_def del: decimal.simps)

lemma example_started_options:
  "options example_started_processor = DEFAULT_PROCESSING_OPTIONS"
  by (simp add: example_started_processor_def startStroke_def generateStrokeId_def
      new_StrokeProcessor_def Let_def del: decimal.simps)

theorem no_active_stroke_is_reported_witness:
  "activeStroke (new_StrokeProcessor DEFAULT_PROCESSING_OPTIONS) = None
   \<and> addPoint (new_StrokeProcessor DEFAULT_PROCESSING_OPTIONS) (example_stroke_point 1 1 11)
       = Inl (Error ''No active stroke. Call startStroke() first.'')
   \<and> endStroke (new_StrokeProcessor DEFAULT_PROCESSING_OPTIONS) 20
       = Some (Inl (Error ''No active stroke to end.''))
   \<and> (\<exists>processed s'. endStroke example_started_processor 20 = Some (Inr (processed, s'))
         \<and> activeStroke s' = None
         \<and> addPoint s' (example_stroke_point 1 1 21)
             = Inl (Error ''No active stroke. Call startStroke() first.'')
         \<and> endStroke s' 30 = Some (Inl (Error ''No active stroke to end.'')))"
proof -
  let ?s0 = "new_StrokeProcessor DEFAULT_PROCESSING_OPTIONS"
  have h0: "activeStroke ?s0 = None" by (simp add: new_StrokeProcessor_def)
  from no_active_stroke_is_reported [of ?s0 "example_stroke_point 1 1 11" 20] h0
  have t0: "addPoint ?s0 (example_stroke_point 1 1 11)
              = Inl (Error ''No active stroke. Call startStroke() first.'')"
    and t1: "endStroke ?s0 20 = Some (Inl (Error ''No active stroke to end.''))"
    by blast+
  have "0 < targetSpacing (options example_started_processor)"
    by (simp add: example_started_options DEFAULT_PROCESSING_OPTIONS_def)
  from endStroke_returns [OF example_started_active this, of 20]
  obtain processed s' where e: "endStroke example_started_processor 20 = Some (Inr (processed, s'))"
    by blast
  from no_active_stroke_is_reported [of _ _ _ _ _ example_started_processor 20 processed s'] e
  have idle: "activeStroke s' = None" by blast
  from no_active_stroke_is_reported [of s' "example_stroke_point 1 1 21" 30] idle
  have t2: "addPoint s' (example_stroke_point 1 1 21)
              = Inl (Error ''No active stroke. Call startStroke() first.'')"
    and t3: "endStroke s' 30 = Some (Inl (Error ''No active stroke to end.''))"
    by blast+
  from h0 t0 t1 e idle t2 t3 show ?thesis by blast
qed

text \<open>
  C7. When the active stroke holds at least \<open>maxPointsPerStroke\<close> points, \<open>addPoint\<close> returns
  without an error and leaves the processor as it was: the stored points are the same and the
  stroke is still being captured. A further sample is dropped in the same way; \<open>endStroke\<close>
  raises no error, and it returns the processed stroke when the target spacing is positive.
\<close>

theorem addPoint_at_cap_drops_sample:
  assumes "activeStroke s = Some a"
    and "maxPointsPerStroke (options s) \<le> real (length (as_points a))"
  shows "\<exists>s'. addPoint s point = Inr s' \<and> s' = s
           \<and> activeStrokePoints s' = as_points a
           \<and> isCapturing s'
           \<and> addPoint s' point2 = Inr s'
           \<and> (\<forall>e. endStroke s' endTime \<noteq> Some (Inl e))
           \<and> (0 < targetSpacing (options s') \<longrightarrow>
                 (\<exists>processed s''. endStroke s' endTime = Some (Inr (processed, s''))))"
proof -
  have drop: "addPoint s p = Inr s" for p
    using assms by (simp add: addPoint_def)
  have pts: "activeStrokePoints s = as_points a"
    using assms(1) by (simp add: activeStrokePoints_def)
  have cap: "isCapturing s"
    using assms(1) by (simp add: isCapturing_def)
  have noerr: "\<forall>e. endStroke s endTime \<noteq> Some (Inl e)"
    using endStroke_active_no_error [OF assms(1)] by blast
  have ret: "0 < targetSpacing (options s) \<longrightarrow>
                 (\<exists>processed s''. endStroke s endTime = Some (Inr (processed, s'')))"
    using endStroke_returns [OF assms(1)] by blast
  from drop [of point] drop [of point2] pts cap noerr ret show ?thesis by blast
qed

lemma example_capped_active:
  "activeStroke example_capped_processor =
     Some \<lparr>as_id = ''stroke_'' @ decimal 1 @ ''_'' @ decimal 1700000000000,
           as_points = [example_stroke_point 0 0 10], as_startTime = 10,
           lastProcessedIndex = 0\<rparr>"
  by (simp add: example_capped_processor_def startStroke_def generateStrokeId_def
      new_StrokeProcessor_def example_stroke_point_def Let_def del: decimal.simps)

lemma example_capped_options:
  "options example_capped_processor = DEFAULT_PROCESSING_OPTIONS\<lparr>maxPointsPerStroke := 1\<rparr>"
  by (simp add: example_capped_processor_def startStroke_def generateStrokeId_def
      new_StrokeProcessor_def Let_def del: decimal.simps)

theorem addPoint_at_cap_drops_sample_witness:
  "maxPointsPerStroke (options example_capped_processor)
     \<le> real (length (activeStrokePoints example_capped_processor))
   \<and> addPoint example_capped_processor (example_stroke_point 1 1 11) = Inr example_capped_processor
   \<and> activeStrokePoints example_capped_processor = [example_stroke_point 0 0 10]
   \<and> isCapturing example_capped_processor
   \<and> (\<exists>processed s''. endStroke example_capped_processor 20 = Some (Inr (processed, s'')))"
proof -
  let ?a = "\<lparr>as_id = ''stroke_'' @ decimal 1 @ ''_'' @ decimal 1700000000000,
           as_points = [example_stroke_point 0 0 10], as_startTime = 10,
           lastProcessedIndex = 0\<rparr>"
  have h1: "activeStroke example_capped_processor = Some ?a" by (rule example_capped_active)
  have h2: "maxPointsPerStroke (options example_capped_processor) \<le> real (length (as_points ?a))"
    by (simp add: example_capped_options)
  have sp: "0 < targetSpacing (options example_capped_processor)"
    by (simp add: example_capped_options DEFAULT_PROCESSING_OPTIONS_def)
  from addPoint_at_cap_drops_sample [OF h1 h2, of "example_stroke_point 1 1 11" _ 20] sp
  have c1: "addPoint example_capped_processor (example_stroke_point 1 1 11) = Inr example_capped_processor"
    and c2: "activeStrokePoints example_capped_processor = as_points ?a"
    and c3: "isCapturing example_capped_processor"
    and c4: "\<exists>processed s''. endStroke example_capped_processor 20 = Some (Inr (processed, s''))"
    by blast+
  have h2': "maxPointsPerStroke (options example_capped_processor)
     \<le> real (length (activeStrokePoints example_capped_processor))"
    using h2 c2 by simp
  from h2' c1 c2 c3 c4 show ?thesis by simp
qed

text \<open>
  C10. \<open>cancelStroke\<close> has no statement that raises: it is a total function on processor
  states. With no active stroke it leaves the processor as it was; in every case no stroke is
  being captured afterwards and the active points are empty.
\<close>

theorem cancelStroke_always_idle:
  "(activeStroke s = None \<longrightarrow> cancelStroke s = s)
   \<and> \<not> isCapturing (cancelStroke s)
   \<and> activeStrokePoints (cancelStroke s) = []
   \<and> cancelStroke (cancelStroke s) = cancelStroke s"
  by (simp add: cancelStroke_def isCapturing_def activeStrokePoints_def split: option.splits)

theorem cancelStroke_always_idle_witness:
  "activeStroke (new_StrokeProcessor DEFAULT_PROCESSING_OPTIONS) = None
   \<and> cancelStroke (new_StrokeProcessor DEFAULT_PROCESSING_OPTIONS)
       = new_StrokeProcessor DEFAULT_PROCESSING_OPTIONS
   \<and> isCapturing example_started_processor
   \<and> \<not> isCapturing (cancelStroke example_started_processor)
   \<and> activeStrokePoints (cancelStroke example_started_processor) = []
   \<and> pointPool (cancelStroke example_started_processor) = [example_stroke_point 0 0 10]"
proof -
  let ?s0 = "new_StrokeProcessor DEFAULT_PROCESSING_OPTIONS"
  have h0: "activeStroke ?s0 = None" by (simp add: new_StrokeProcessor_def)
  from cancelStroke_always_idle [of ?s0] h0 have c0: "cancelStroke ?s0 = ?s0" by blast
  from cancelStroke_always_idle [of example_started_processor]
  have c1: "\<not> isCapturing (cancelStroke example_started_processor)"
    and c2: "activeStrokePoints (cancelStroke example_started_processor) = []"
    by blast+
  have c3: "isCapturing example_started_processor"
    by (simp add: isCapturing_def example_started_active)
  have c4: "pointPool (cancelStroke example_started_processor) = [example_stroke_point 0 0 10]"
    by (simp add: cancelStroke_def example_started_active recyclePoints_def)
       (simp add: example_started_processor_def startStroke_def generateStrokeId_def
          new_StrokeProcessor_def Let_def del: decimal.simps)
  from h0 c0 c1 c2 c3 c4 show ?thesis by blast
qed

section \<open>Touch state machine: mode, gesture and notifications\<close>

lemma calculateCentroid_ok: "\<exists>c. calculateCentroid pointers = Inr c"
  by (simp add: calculateCentroid_def divide_def)

lemma calculateSpread_ok: "\<exists>sp. calculateSpread pointers = Inr sp"
proof -
  obtain c where "calculateCentroid pointers = Inr c" using calculateCentroid_ok by blast
  then show ?thesis by (simp add: calculateSpread_def)
qed

lemma determineTouchMode_cong:
  "length (activePointers s) = length (activePointers t) \<Longrightarrow>
   determineTouchMode s = determineTouchMode t"
  by (simp add: determineTouchMode_def)

lemma endCurrentGesture_frame:
  "activePointers (fst (endCurrentGesture s)) = activePointers s
   \<and> currentMode (fst (endCurrentGesture s)) = currentMode s
   \<and> handlers (fst (endCurrentGesture s)) = handlers s
   \<and> currentGesture (fst (endCurrentGesture s)) = None"
  by (simp add: endCurrentGesture_def addToHistory_def Let_def split: option.splits)

lemma cancelCurrentGesture_frame:
  "activePointers (fst (cancelCurrentGesture s)) = activePointers s
   \<and> currentMode (fst (cancelCurrentGesture s)) = currentMode s
   \<and> handlers (fst (cancelCurrentGesture s)) = handlers s
   \<and> currentGesture (fst (cancelCurrentGesture s)) = None"
  by (simp add: cancelCurrentGesture_def Let_def split: option.splits)

lemma startGesture_frame:
  assumes "startGesture s mode pointer = Inr (s', notes)"
  shows "activePointers s' = activePointers s \<and> currentMode s' = currentMode s
         \<and> handlers s' = handlers s"
  using assms by (auto simp: startGesture_def Let_def split: sum.splits)

lemma updateCurrentGesture_frame:
  assumes "updateCurrentGesture s pointer = Inr (s', notes)"
  shows "activePointers s' = activePointers s \<and> currentMode s' = currentMode s
         \<and> handlers s' = handlers s"
  using assms by (auto simp: updateCurrentGesture_def Let_def split: sum.splits option.splits)

lemma transitionToMode_frame:
  assumes "transitionToMode s newMode pointer = Inr (s', notes)"
  shows "activePointers s' = activePointers s \<and> currentMode s' = newMode
         \<and> handlers s' = handlers s"
proof -
  define s1 where "s1 = (if currentGesture s \<noteq> None \<and> newMode \<noteq> currentMode s
                         then fst (endCurrentGesture s) else s)"
  have s1: "activePointers s1 = activePointers s" "handlers s1 = handlers s"
    using endCurrentGesture_frame [of s] by (simp_all add: s1_def)
  show ?thesis
  proof (cases "newMode = IDLE")
    case True
    with assms s1 show ?thesis
      by (auto simp: transitionToMode_def Let_def s1_def split: prod.splits if_splits)
  next
    case False
    with assms obtain s3 started where
      st: "startGesture (s1\<lparr>currentMode := newMode\<rparr>) newMode pointer = Inr (s3, started)"
      and s': "s' = s3"
      by (auto simp: transitionToMode_def Let_def s1_def split: prod.splits sum.splits if_splits)
    from startGesture_frame [OF st] s1 s' show ?thesis by simp
  qed
qed


lemma length_update_present:
  "map_of al k = Some v \<Longrightarrow> length (AList.update k w al) = length al"
  by (induction al) (auto split: if_splits)

lemma handlePointerDown_mode:
  assumes "handlePointerDown s pointer = Inr (s', notes)"
  shows "currentMode s' = determineTouchMode s'
         \<and> activePointers s' = AList.update (ptr_id pointer) pointer (activePointers s)
         \<and> handlers s' = handlers s"
proof -
  define s1 where "s1 = s\<lparr>activePointers := AList.update (ptr_id pointer) pointer (activePointers s),
                 lastUpdateTime := ptr_timestamp pointer\<rparr>"
  show ?thesis
  proof (cases "determineTouchMode s1 = currentMode s1")
    case True
    with assms have u: "updateCurrentGesture s1 pointer = Inr (s', notes)"
      by (simp add: handlePointerDown_def s1_def Let_def)
    from updateCurrentGesture_frame [OF u] True
    have "activePointers s' = activePointers s1" "currentMode s' = determineTouchMode s1"
      "handlers s' = handlers s1" by simp_all
    moreover from this have "determineTouchMode s' = determineTouchMode s1"
      by (simp add: determineTouchMode_def)
    ultimately show ?thesis by (simp add: s1_def)
  next
    case False
    with assms have t: "transitionToMode s1 (determineTouchMode s1) pointer = Inr (s', notes)"
      by (simp add: handlePointerDown_def s1_def Let_def)
    from transitionToMode_frame [OF t]
    have "activePointers s' = activePointers s1" "currentMode s' = determineTouchMode s1"
      "handlers s' = handlers s1" by simp_all
    moreover from this have "determineTouchMode s' = determineTouchMode s1"
      by (simp add: determineTouchMode_def)
    ultimately show ?thesis by (simp add: s1_def)
  qed
qed

lemma handlePointerUp_mode:
  assumes "handlePointerUp s pointer = Inr (s', notes)"
  shows "currentMode s' = determineTouchMode s'
         \<and> activePointers s' = AList.delete (ptr_id pointer) (activePointers s)
         \<and> handlers s' = handlers s"
proof -
  define s1 where "s1 = s\<lparr>activePointers := AList.delete (ptr_id pointer) (activePointers s),
                 lastUpdateTime := ptr_timestamp pointer\<rparr>"
  show ?thesis
  proof (cases "determineTouchMode s1 = currentMode s1")
    case True
    with assms have u: "updateCurrentGesture s1 pointer = Inr (s', notes)"
      by (simp add: handlePointerUp_def s1_def Let_def)
    from updateCurrentGesture_frame [OF u] True
    have "activePointers s' = activePointers s1" "currentMode s' = determineTouchMode s1"
      "handlers s' = handlers s1" by simp_all
    moreover from this have "determineTouchMode s' = determineTouchMode s1"
      by (simp add: determineTouchMode_def)
    ultimately show ?thesis by (simp add: s1_def)
  next
    case False
    with assms obtain notes' where
      t: "transitionToMode (fst (endCurrentGesture s1)) (determineTouchMode s1) pointer
            = Inr (s', notes')"
      by (auto simp: handlePointerUp_def s1_def Let_def split: prod.splits sum.splits)
    from transitionToMode_frame [OF t] endCurrentGesture_frame [of s1]
    have "activePointers s' = activePointers s1" "currentMode s' = determineTouchMode s1"
      "handlers s' = handlers s1" by simp_all
    moreover from this have "determineTouchMode s' = determineTouchMode s1"
      by (simp add: determineTouchMode_def)
    ultimately show ?thesis by (simp add: s1_def)
  qed
qed

lemma handlePointerCancel_mode:
  assumes "handlePointerCancel s pointer = Inr (s', notes)"
  shows "currentMode s' = determineTouchMode s'
         \<and> activePointers s' = AList.delete (ptr_id pointer) (activePointers s)
         \<and> handlers s' = handlers s"
proof -
  define s1 where "s1 = s\<lparr>activePointers := AList.delete (ptr_id pointer) (activePointers s)\<rparr>"
  define s2 where "s2 = fst (cancelCurrentGesture s1)"
  have s2: "activePointers s2 = activePointers s1" "handlers s2 = handlers s1"
    using cancelCurrentGesture_frame [of s1] by (simp_all add: s2_def)
  from assms obtain notes' where
    t: "transitionToMode s2 (determineTouchMode s2) pointer = Inr (s', notes')"
    by (auto simp: handlePointerCancel_def s1_def s2_def Let_def split: prod.splits sum.splits)
  from transitionToMode_frame [OF t] s2
  have "activePointers s' = activePointers s1" "currentMode s' = determineTouchMode s2"
    "handlers s' = handlers s1" by simp_all
  moreover from this s2 have "determineTouchMode s' = determineTouchMode s2"
    by (simp add: determineTouchMode_def)
  ultimately show ?thesis by (simp add: s1_def)
qed

lemma handlePointerMove_mode:
  assumes "handlePointerMove s pointer = Inr (s', notes)"
  shows "currentMode s' = currentMode s
         \<and> length (activePointers s') = length (activePointers s)
         \<and> map fst (activePointers s') = map fst (activePointers s)
         \<and> handlers s' = handlers s"
proof (cases "map_of (activePointers s) (ptr_id pointer)")
  case None
  with assms show ?thesis by (simp add: handlePointerMove_def)
next
  case (Some existing)
  define s1 where "s1 = s\<lparr>activePointers := AList.update (ptr_id pointer) pointer (activePointers s),
                 lastUpdateTime := ptr_timestamp pointer\<rparr>"
  from Some assms have u: "updateCurrentGesture s1 pointer = Inr (s', notes)"
    by (simp add: handlePointerMove_def s1_def Let_def)
  have keys: "map fst (AList.update (ptr_id pointer) pointer (activePointers s))
                = map fst (activePointers s)"
    using Some by (simp add: update_keys map_of_eq_None_iff [symmetric])
  from updateCurrentGesture_frame [OF u] keys
  have "currentMode s' = currentMode s"
    "map fst (activePointers s') = map fst (activePointers s)" "handlers s' = handlers s"
    by (simp_all add: s1_def)
  moreover from this have "length (activePointers s') = length (activePointers s)"
    using map_eq_imp_length_eq by blast
  ultimately show ?thesis by simp
qed

lemma reachable_invariant:
  assumes "reachable s"
  shows "distinct (map fst (activePointers s)) \<and> currentMode s = determineTouchMode s"
  using assms
proof (induction rule: reachable.induct)
  case (initial hs)
  show ?case by (simp add: new_TouchStateManager_def determineTouchMode_def)
next
  case (step s event s' ns)
  show ?case
  proof (cases event)
    case (PointerDown pointer)
    with step.hyps have "handlePointerDown s pointer = Inr (s', ns)" by (simp add: dispatch_def)
    from handlePointerDown_mode [OF this] step.IH show ?thesis
      by (simp add: distinct_update)
  next
    case (PointerMove pointer)
    with step.hyps have "handlePointerMove s pointer = Inr (s', ns)" by (simp add: dispatch_def)
    from handlePointerMove_mode [OF this] step.IH show ?thesis
      by (simp add: determineTouchMode_def)
  next
    case (PointerUp pointer)
    with step.hyps have "handlePointerUp s pointer = Inr (s', ns)" by (simp add: dispatch_def)
    from handlePointerUp_mode [OF this] step.IH show ?thesis
      by (simp add: distinct_delete)
  next
    case (PointerCancel pointer)
    with step.hyps have "handlePointerCancel s pointer = Inr (s', ns)" by (simp add: dispatch_def)
    from handlePointerCancel_mode [OF this] step.IH show ?thesis
      by (simp add: distinct_delete)
  next
    case Reset
    with step.hyps show ?thesis
      by (auto simp: dispatch_def reset_def determineTouchMode_def Let_def split: prod.splits)
  next
    case (SetHandlers hs)
    with step.hyps step.IH show ?thesis
      by (auto simp: dispatch_def setHandlers_def determineTouchMode_def)
  qed
qed


subsection \<open>Every event is handled\<close>

lemma startGesture_ok:
  "\<exists>s' ns. startGesture s mode pointer = Inr (s', ns) \<and> gesture_ok s'"
proof -
  obtain c where c: "manager_calculateCentroid s = Inr c"
    using calculateCentroid_ok by (auto simp: manager_calculateCentroid_def)
  obtain c2 where c2: "calculateCentroid (map snd (activePointers s)) = Inr c2"
    using calculateCentroid_ok by blast
  obtain sp where sp: "calculateSpread (map snd (activePointers s)) = Inr sp"
    using calculateSpread_ok by blast
  show ?thesis
    by (cases mode)
       (simp_all add: startGesture_def c c2 sp createPanZoomGesture_def createDrawingGesture_def
          createUndoGesture_def gesture_ok_def gesture_typed_def Let_def)
qed

lemma updateCurrentGesture_ok:
  assumes "gesture_ok s"
  shows "\<exists>s' ns. updateCurrentGesture s pointer = Inr (s', ns) \<and> gesture_ok s'"
proof (cases "currentGesture s")
  case None
  with assms show ?thesis by (simp add: updateCurrentGesture_def)
next
  case (Some g)
  obtain c where c: "manager_calculateCentroid s = Inr c"
    using calculateCentroid_ok by (auto simp: manager_calculateCentroid_def)
  obtain c2 where c2: "calculateCentroid (map snd (activePointers s)) = Inr c2"
    using calculateCentroid_ok by blast
  obtain sp where sp: "calculateSpread (map snd (activePointers s)) = Inr sp"
    using calculateSpread_ok by blast
  from assms Some have typed: "gesture_typed g" by (simp add: gesture_ok_def)
  show ?thesis
  proof (cases "tg_type g")
    case DRAWING
    with typed obtain a b t v ps where d: "tg_data g = DrawingGestureData a b t v ps"
      by (auto simp: gesture_typed_def split: TouchGestureData.splits)
    show ?thesis
      using Some DRAWING d c
      by (simp add: updateCurrentGesture_def updateDrawingGesture_def divide_def Let_def
          gesture_ok_def gesture_typed_def)
  next
    case PAN_ZOOM
    with typed obtain a b c' d e f h where d: "tg_data g = PanZoomGestureData a b c' d e f h"
      by (auto simp: gesture_typed_def split: TouchGestureData.splits)
    show ?thesis
      using Some PAN_ZOOM d c c2 sp
      by (simp add: updateCurrentGesture_def updatePanZoomGesture_def Let_def
          gesture_ok_def gesture_typed_def)
  next
    case UNDO
    then show ?thesis
      using Some c
      by (simp add: updateCurrentGesture_def updateUndoGesture_def Let_def
          gesture_ok_def gesture_typed_def)
  next
    case IDLE
    then show ?thesis
      using Some c
      by (simp add: updateCurrentGesture_def Let_def gesture_ok_def gesture_typed_def)
  next
    case MULTI_TOUCH
    then show ?thesis
      using Some c
      by (simp add: updateCurrentGesture_def Let_def gesture_ok_def gesture_typed_def)
  qed
qed

lemma transitionToMode_ok:
  assumes "gesture_ok s"
  shows "\<exists>s' ns. transitionToMode s newMode pointer = Inr (s', ns) \<and> gesture_ok s'"
proof -
  define s1 where "s1 = (if currentGesture s \<noteq> None \<and> newMode \<noteq> currentMode s
                         then fst (endCurrentGesture s) else s)"
  define s2 where "s2 = s1\<lparr>currentMode := newMode\<rparr>"
  have "gesture_ok s2"
    using assms endCurrentGesture_frame [of s] by (auto simp: s2_def s1_def gesture_ok_def)
  show ?thesis
  proof (cases "newMode = IDLE")
    case True
    with \<open>gesture_ok s2\<close> show ?thesis
      by (auto simp: transitionToMode_def Let_def s1_def s2_def split: prod.splits)
  next
    case False
    obtain s3 started where "startGesture s2 newMode pointer = Inr (s3, started)" "gesture_ok s3"
      using startGesture_ok by blast
    with False show ?thesis
      by (auto simp: transitionToMode_def Let_def s1_def s2_def split: prod.splits)
  qed
qed

lemma gesture_ok_pointers [simp]:
  "gesture_ok (s\<lparr>activePointers := ps\<rparr>) = gesture_ok s"
  "gesture_ok (s\<lparr>lastUpdateTime := t\<rparr>) = gesture_ok s"
  "gesture_ok (s\<lparr>handlers := hs\<rparr>) = gesture_ok s"
  by (simp_all add: gesture_ok_def)

lemma gesture_ok_ended: "gesture_ok (fst (endCurrentGesture s))"
  using endCurrentGesture_frame [of s] by (simp add: gesture_ok_def)

lemma gesture_ok_cancelled: "gesture_ok (fst (cancelCurrentGesture s))"
  using cancelCurrentGesture_frame [of s] by (simp add: gesture_ok_def)

lemma dispatch_ok:
  assumes "gesture_ok s"
  shows "\<exists>s' ns. dispatch s event = Inr (s', ns) \<and> gesture_ok s'"
proof (cases event)
  case (PointerDown pointer)
  define s1 where "s1 = s\<lparr>activePointers := AList.update (ptr_id pointer) pointer (activePointers s),
                 lastUpdateTime := ptr_timestamp pointer\<rparr>"
  have ok1: "gesture_ok s1" using assms by (simp add: s1_def)
  from transitionToMode_ok [OF ok1, of "determineTouchMode s1" pointer]
    updateCurrentGesture_ok [OF ok1, of pointer]
  show ?thesis
    unfolding PointerDown dispatch_def
    by (auto simp: handlePointerDown_def Let_def s1_def [symmetric])
next
  case (PointerMove pointer)
  define s1 where "s1 = s\<lparr>activePointers := AList.update (ptr_id pointer) pointer (activePointers s),
                 lastUpdateTime := ptr_timestamp pointer\<rparr>"
  have ok1: "gesture_ok s1" using assms by (simp add: s1_def)
  from updateCurrentGesture_ok [OF ok1, of pointer] assms
  show ?thesis
    unfolding PointerMove dispatch_def
    by (auto simp: handlePointerMove_def Let_def s1_def [symmetric] split: option.splits)
next
  case (PointerUp pointer)
  define s1 where "s1 = s\<lparr>activePointers := AList.delete (ptr_id pointer) (activePointers s),
                 lastUpdateTime := ptr_timestamp pointer\<rparr>"
  have ok1: "gesture_ok s1" using assms by (simp add: s1_def)
  from transitionToMode_ok [OF gesture_ok_ended [of s1], of "determineTouchMode s1" pointer]
    updateCurrentGesture_ok [OF ok1, of pointer]
  show ?thesis
    unfolding PointerUp dispatch_def
    by (auto simp: handlePointerUp_def Let_def s1_def [symmetric] split: prod.splits)
next
  case (PointerCancel pointer)
  define s1 where "s1 = s\<lparr>activePointers := AList.delete (ptr_id pointer) (activePointers s)\<rparr>"
  define s2 where "s2 = fst (cancelCurrentGesture s1)"
  from transitionToMode_ok [OF gesture_ok_cancelled [of s1], of "determineTouchMode s2" pointer]
  show ?thesis
    unfolding PointerCancel dispatch_def
    by (auto simp: handlePointerCancel_def Let_def s1_def [symmetric] s2_def split: prod.splits)
next
  case Reset
  show ?thesis
    unfolding Reset dispatch_def
    by (simp add: reset_def Let_def gesture_ok_def split: prod.splits)
next
  case (SetHandlers hs)
  with assms show ?thesis by (simp add: dispatch_def setHandlers_def)
qed

lemma reachable_gesture_ok: "reachable s \<Longrightarrow> gesture_ok s"
proof (induction rule: reachable.induct)
  case (initial hs)
  show ?case by (simp add: new_TouchStateManager_def gesture_ok_def)
next
  case (step s event s' ns)
  from dispatch_ok [OF step.IH, of event] step.hyps show ?case by auto
qed

lemma reachable_dispatch_returns:
  "reachable s \<Longrightarrow> \<exists>s' ns. dispatch s event = Inr (s', ns) \<and> reachable s'"
  using dispatch_ok [OF reachable_gesture_ok, of s event] reachable.step by blast

lemma reachable_run_events_returns:
  "reachable s \<Longrightarrow> \<exists>s' ns. run_events s events = Inr (s', ns) \<and> reachable s'"
proof (induction events arbitrary: s)
  case Nil
  then show ?case by simp
next
  case (Cons event rest)
  from reachable_dispatch_returns [OF Cons.prems, of event]
  obtain s1 ns1 where d: "dispatch s event = Inr (s1, ns1)" and r: "reachable s1" by blast
  from Cons.IH [OF r] obtain s2 ns2 where "run_events s1 rest = Inr (s2, ns2)" "reachable s2"
    by blast
  with d show ?case by simp
qed


subsection \<open>Notifications\<close>

lemma endCurrentGesture_notes:
  "filter isTouchModeChanged (snd (endCurrentGesture s)) = []
   \<and> length (snd (endCurrentGesture s)) \<le> 1
   \<and> (currentGesture s = None \<longrightarrow> snd (endCurrentGesture s) = [])"
  by (simp add: endCurrentGesture_def isTouchModeChanged_def Let_def split: option.splits)

lemma cancelCurrentGesture_notes:
  "filter isTouchModeChanged (snd (cancelCurrentGesture s)) = []
   \<and> length (snd (cancelCurrentGesture s)) \<le> 1"
  by (simp add: cancelCurrentGesture_def isTouchModeChanged_def Let_def split: option.splits)

lemma startGesture_notes:
  assumes "startGesture s mode pointer = Inr (s', ns)"
  shows "filter isTouchModeChanged ns = [] \<and> length ns \<le> 1"
  using assms
  by (auto simp: startGesture_def isTouchModeChanged_def Let_def split: sum.splits if_splits)

lemma endCurrentGesture_finished:
  "list_all isGestureFinished (snd (endCurrentGesture s))"
  by (simp add: endCurrentGesture_def isGestureFinished_def Let_def split: option.splits)

lemma cancelCurrentGesture_finished:
  "list_all isGestureFinished (snd (cancelCurrentGesture s))"
  by (simp add: cancelCurrentGesture_def isGestureFinished_def Let_def split: option.splits)

lemma startGesture_started:
  assumes "startGesture s mode pointer = Inr (s', ns)"
  shows "list_all isGestureStarted ns"
  using assms
  by (auto simp: startGesture_def isGestureStarted_def Let_def split: sum.splits if_splits)

lemma transitionToMode_shape:
  assumes "transitionToMode s newMode pointer = Inr (s', ns)"
  shows "\<exists>finished started.
           ns = finished @ started
                @ (if onTouchModeChanged (handlers s)
                   then [TouchModeChanged (currentMode s) newMode] else [])
           \<and> length finished \<le> 1 \<and> list_all isGestureFinished finished
           \<and> (currentGesture s = None \<longrightarrow> finished = [])
           \<and> length started \<le> 1 \<and> list_all isGestureStarted started"
proof -
  define ended where "ended = (if currentGesture s \<noteq> None \<and> newMode \<noteq> currentMode s
                         then snd (endCurrentGesture s) else [])"
  define s1 where "s1 = (if currentGesture s \<noteq> None \<and> newMode \<noteq> currentMode s
                         then fst (endCurrentGesture s) else s)"
  define s2 where "s2 = s1\<lparr>currentMode := newMode\<rparr>"
  have h: "handlers s2 = handlers s"
    using endCurrentGesture_frame [of s] by (simp add: s2_def s1_def)
  have e: "list_all isGestureFinished ended" "length ended \<le> 1"
    "currentGesture s = None \<longrightarrow> ended = []"
    using endCurrentGesture_notes [of s] endCurrentGesture_finished [of s]
    by (simp_all add: ended_def)
  obtain s3 started where
    st: "(if newMode \<noteq> IDLE then startGesture s2 newMode pointer else Inr (s2, []))
           = Inr (s3, started)"
    and ns: "ns = ended @ started
                @ (if onTouchModeChanged (handlers s3)
                   then [TouchModeChanged (currentMode s) newMode] else [])"
    using assms
    by (auto simp: transitionToMode_def Let_def s1_def s2_def ended_def
        split: prod.splits sum.splits if_splits)
  have started: "list_all isGestureStarted started \<and> length started \<le> 1
                 \<and> handlers s3 = handlers s2"
  proof (cases "newMode = IDLE")
    case True
    with st show ?thesis by simp
  next
    case False
    with st have sg: "startGesture s2 newMode pointer = Inr (s3, started)" by simp
    from startGesture_notes [OF sg] startGesture_frame [OF sg] startGesture_started [OF sg]
    show ?thesis by simp
  qed
  from e started h ns show ?thesis by (intro exI [of _ ended] exI [of _ started]) simp
qed

lemma filter_none:
  assumes "list_all Q xs" and "\<And>x. Q x \<Longrightarrow> \<not> P x"
  shows "filter P xs = []"
  using assms by (induction xs) auto

lemma shape_counts:
  assumes "ns = finished @ started @ (if b then [TouchModeChanged m m'] else [])"
    and "length finished \<le> 1" and "list_all isGestureFinished finished"
    and "length started \<le> 1" and "list_all isGestureStarted started"
  shows "filter isTouchModeChanged ns = (if b then [TouchModeChanged m m'] else [])
       \<and> length (filter isGestureFinished ns) \<le> 1
       \<and> length (filter isGestureStarted ns) \<le> 1
       \<and> filter isGestureUpdated ns = []"
proof -
  have f: "filter isTouchModeChanged finished = []" "filter isGestureStarted finished = []"
    "filter isGestureUpdated finished = []"
    by (rule filter_none [OF assms(3)];
        simp add: isGestureFinished_def isTouchModeChanged_def isGestureStarted_def
          isGestureUpdated_def split: Notification.splits)+
  have s: "filter isTouchModeChanged started = []" "filter isGestureFinished started = []"
    "filter isGestureUpdated started = []"
    by (rule filter_none [OF assms(5)];
        simp add: isGestureFinished_def isTouchModeChanged_def isGestureStarted_def
          isGestureUpdated_def split: Notification.splits)+
  have l: "length (filter isGestureFinished finished) \<le> 1"
    "length (filter isGestureStarted started) \<le> 1"
    using assms(2,4) length_filter_le [of isGestureFinished finished]
      length_filter_le [of isGestureStarted started] by linarith+
  from f s l show ?thesis
    unfolding assms(1)
    by (simp add: isGestureFinished_def isTouchModeChanged_def isGestureStarted_def
        isGestureUpdated_def)
qed

lemma handlePointerDown_shape:
  assumes "handlePointerDown s pointer = Inr (s', ns)" and "touchMode s' \<noteq> touchMode s"
  shows "filter isTouchModeChanged ns =
           (if onTouchModeChanged (handlers s)
            then [TouchModeChanged (touchMode s) (touchMode s')] else [])
       \<and> length (filter isGestureFinished ns) \<le> 1
       \<and> length (filter isGestureStarted ns) \<le> 1
       \<and> filter isGestureUpdated ns = []"
proof -
  define s1 where "s1 = s\<lparr>activePointers := AList.update (ptr_id pointer) pointer (activePointers s),
                 lastUpdateTime := ptr_timestamp pointer\<rparr>"
  have s1: "currentMode s1 = currentMode s" "handlers s1 = handlers s" by (simp_all add: s1_def)
  show ?thesis
  proof (cases "determineTouchMode s1 = currentMode s1")
    case True
    with assms have u: "updateCurrentGesture s1 pointer = Inr (s', ns)"
      by (simp add: handlePointerDown_def s1_def Let_def)
    from updateCurrentGesture_frame [OF u] s1 assms(2)
    show ?thesis by (simp add: touchMode_def)
  next
    case False
    with assms have t: "transitionToMode s1 (determineTouchMode s1) pointer = Inr (s', ns)"
      by (simp add: handlePointerDown_def s1_def Let_def)
    from transitionToMode_shape [OF t] obtain finished started where
      ns1: "ns = finished @ started @ (if onTouchModeChanged (handlers s1)
                   then [TouchModeChanged (currentMode s1) (determineTouchMode s1)] else [])"
      and fs: "length finished \<le> 1" "list_all isGestureFinished finished"
        "length started \<le> 1" "list_all isGestureStarted started"
      by blast
    from ns1 have
      ns: "ns = finished @ started @ (if onTouchModeChanged (handlers s)
                   then [TouchModeChanged (currentMode s) (determineTouchMode s1)] else [])"
      unfolding s1 .
    from transitionToMode_frame [OF t] have m: "currentMode s' = determineTouchMode s1" by simp
    from shape_counts [OF ns fs] show ?thesis by (simp add: touchMode_def m)
  qed
qed

lemma handlePointerUp_shape:
  assumes "handlePointerUp s pointer = Inr (s', ns)" and "touchMode s' \<noteq> touchMode s"
  shows "filter isTouchModeChanged ns =
           (if onTouchModeChanged (handlers s)
            then [TouchModeChanged (touchMode s) (touchMode s')] else [])
       \<and> length (filter isGestureFinished ns) \<le> 1
       \<and> length (filter isGestureStarted ns) \<le> 1
       \<and> filter isGestureUpdated ns = []"
proof -
  define s1 where "s1 = s\<lparr>activePointers := AList.delete (ptr_id pointer) (activePointers s),
                 lastUpdateTime := ptr_timestamp pointer\<rparr>"
  have s1: "currentMode s1 = currentMode s" "handlers s1 = handlers s" by (simp_all add: s1_def)
  show ?thesis
  proof (cases "determineTouchMode s1 = currentMode s1")
    case True
    with assms have u: "updateCurrentGesture s1 pointer = Inr (s', ns)"
      by (simp add: handlePointerUp_def s1_def Let_def)
    from updateCurrentGesture_frame [OF u] s1 assms(2)
    show ?thesis by (simp add: touchMode_def)
  next
    case False
    define s2 where "s2 = fst (endCurrentGesture s1)"
    define ended where "ended = snd (endCurrentGesture s1)"
    from False assms obtain ns' where
      t: "transitionToMode s2 (determineTouchMode s1) pointer = Inr (s', ns')"
      and ns: "ns = ended @ ns'"
      by (auto simp: handlePointerUp_def s1_def s2_def ended_def Let_def
          split: prod.splits sum.splits)
    have s2: "currentMode s2 = currentMode s" "handlers s2 = handlers s" "currentGesture s2 = None"
      using endCurrentGesture_frame [of s1] s1 by (simp_all add: s2_def)
    have e: "length ended \<le> 1" "list_all isGestureFinished ended"
      using endCurrentGesture_notes [of s1] endCurrentGesture_finished [of s1]
      by (simp_all add: ended_def)
    from transitionToMode_shape [OF t] s2 obtain started where
      ns': "ns' = started @ (if onTouchModeChanged (handlers s)
                   then [TouchModeChanged (currentMode s) (determineTouchMode s1)] else [])"
      and st: "length started \<le> 1" "list_all isGestureStarted started"
      by auto
    from transitionToMode_frame [OF t] have m: "currentMode s' = determineTouchMode s1" by simp
    from ns ns' have "ns = ended @ started @ (if onTouchModeChanged (handlers s)
                   then [TouchModeChanged (currentMode s) (determineTouchMode s1)] else [])"
      by simp
    from shape_counts [OF this e st] show ?thesis by (simp add: touchMode_def m)
  qed
qed

lemma handlePointerCancel_shape:
  assumes "handlePointerCancel s pointer = Inr (s', ns)"
  shows "filter isTouchModeChanged ns =
           (if onTouchModeChanged (handlers s)
            then [TouchModeChanged (touchMode s) (touchMode s')] else [])
       \<and> length (filter isGestureFinished ns) \<le> 1
       \<and> length (filter isGestureStarted ns) \<le> 1
       \<and> filter isGestureUpdated ns = []"
proof -
  define s1 where "s1 = s\<lparr>activePointers := AList.delete (ptr_id pointer) (activePointers s)\<rparr>"
  define s2 where "s2 = fst (cancelCurrentGesture s1)"
  define cancelled where "cancelled = snd (cancelCurrentGesture s1)"
  from assms obtain ns' where
    t: "transitionToMode s2 (determineTouchMode s2) pointer = Inr (s', ns')"
    and ns: "ns = cancelled @ ns'"
    by (auto simp: handlePointerCancel_def s1_def s2_def cancelled_def Let_def
        split: prod.splits sum.splits)
  have s2: "currentMode s2 = currentMode s" "handlers s2 = handlers s" "currentGesture s2 = None"
    using cancelCurrentGesture_frame [of s1] by (simp_all add: s2_def s1_def)
  have e: "length cancelled \<le> 1" "list_all isGestureFinished cancelled"
    using cancelCurrentGesture_notes [of s1] cancelCurrentGesture_finished [of s1]
    by (simp_all add: cancelled_def)
  from transitionToMode_shape [OF t] s2 obtain started where
    ns': "ns' = started @ (if onTouchModeChanged (handlers s)
                 then [TouchModeChanged (currentMode s) (determineTouchMode s2)] else [])"
    and st: "length started \<le> 1" "list_all isGestureStarted started"
    by auto
  from transitionToMode_frame [OF t] have m: "currentMode s' = determineTouchMode s2" by simp
  from ns ns' have "ns = cancelled @ started @ (if onTouchModeChanged (handlers s)
                 then [TouchModeChanged (currentMode s) (determineTouchMode s2)] else [])"
    by simp
  from shape_counts [OF this e st] show ?thesis by (simp add: touchMode_def m)
qed

lemma handlePointerMove_pointers:
  assumes "handlePointerMove s pointer = Inr (s', ns)"
    and "map_of (activePointers s) (ptr_id pointer) \<noteq> None"
  shows "activePointers s' = AList.update (ptr_id pointer) pointer (activePointers s)"
proof -
  define s1 where "s1 = s\<lparr>activePointers := AList.update (ptr_id pointer) pointer (activePointers s),
                 lastUpdateTime := ptr_timestamp pointer\<rparr>"
  from assms have u: "updateCurrentGesture s1 pointer = Inr (s', ns)"
    by (auto simp: handlePointerMove_def s1_def Let_def)
  from updateCurrentGesture_frame [OF u] show ?thesis by (simp add: s1_def)
qed

lemma first_pointer_down:
  "handlePointerDown (new_TouchStateManager all_handlers) (example_pointer 1 0 0 10)
     = Inr (\<lparr>currentMode = TouchMode.DRAWING, currentGesture = Some example_first_gesture,
             activePointers = [(1, example_pointer 1 0 0 10)], gestureHistory = [],
             handlers = all_handlers, lastUpdateTime = 10\<rparr>,
            [GestureStarted example_first_gesture,
             TouchModeChanged TouchMode.IDLE TouchMode.DRAWING])"
  by (simp add: handlePointerDown_def new_TouchStateManager_def all_handlers_def
      determineTouchMode_def transitionToMode_def startGesture_def manager_calculateCentroid_def
      calculateCentroid_def divide_def add_def ZERO_def getPrimaryPointer_def
      createDrawingGesture_def Let_def example_pointer_def example_first_gesture_def)

lemma drawing_pointer_up:
  "\<exists>s2 ns2. handlePointerUp example_drawing_manager (example_pointer 1 0 0 20) = Inr (s2, ns2)
      \<and> touchMode s2 = TouchMode.IDLE"
  by (simp add: handlePointerUp_def example_drawing_manager_def all_handlers_def
      determineTouchMode_def transitionToMode_def startGesture_def manager_calculateCentroid_def
      calculateCentroid_def divide_def add_def ZERO_def getPrimaryPointer_def
      endCurrentGesture_def addToHistory_def MAX_GESTURE_HISTORY_def touchMode_def
      createDrawingGesture_def Let_def example_pointer_def example_first_gesture_def)

lemma drawing_pointer_cancel:
  "\<exists>s3 ns3. handlePointerCancel example_drawing_manager (example_pointer 1 0 0 20) = Inr (s3, ns3)
      \<and> touchMode s3 = TouchMode.IDLE"
  by (simp add: handlePointerCancel_def example_drawing_manager_def all_handlers_def
      determineTouchMode_def transitionToMode_def startGesture_def manager_calculateCentroid_def
      calculateCentroid_def divide_def add_def ZERO_def getPrimaryPointer_def
      cancelCurrentGesture_def addToHistory_def MAX_GESTURE_HISTORY_def touchMode_def
      createDrawingGesture_def Let_def example_pointer_def example_first_gesture_def)

lemma first_pointer_down_unobserved:
  "handlePointerDown (new_TouchStateManager no_handlers) (example_pointer 1 0 0 10)
     = Inr (\<lparr>currentMode = TouchMode.DRAWING, currentGesture = Some example_first_gesture,
             activePointers = [(1, example_pointer 1 0 0 10)], gestureHistory = [],
             handlers = no_handlers, lastUpdateTime = 10\<rparr>, [])"
  by (simp add: handlePointerDown_def new_TouchStateManager_def no_handlers_def
      determineTouchMode_def transitionToMode_def startGesture_def manager_calculateCentroid_def
      calculateCentroid_def divide_def add_def ZERO_def getPrimaryPointer_def
      createDrawingGesture_def Let_def example_pointer_def example_first_gesture_def)

text \<open>
  C9 (amended). A pointer-down, pointer-up or pointer-cancel event that changes the mode fires
  exactly one mode-change notification, \<open>onTouchModeChanged (previous mode, new mode)\<close>, when
  that handler is registered, and none when it is not. The same event fires at most one
  gesture-ended or gesture-cancelled notification, at most one gesture-started notification
  and no gesture-updated notification. A move event for a pointer that is not in the map of
  active pointers fires nothing and leaves the manager as it was. From every reachable state
  each of the four handlers returns.
\<close>

theorem mode_change_notifications:
  "(map_of (activePointers s) (ptr_id pointer) = None \<longrightarrow>
      handlePointerMove s pointer = Inr (s, []))
   \<and> ((handlePointerDown s pointer = Inr (s', ns) \<or> handlePointerUp s pointer = Inr (s', ns)
        \<or> handlePointerCancel s pointer = Inr (s', ns))
       \<and> touchMode s' \<noteq> touchMode s \<longrightarrow>
        filter isTouchModeChanged ns =
          (if onTouchModeChanged (handlers s)
           then [TouchModeChanged (touchMode s) (touchMode s')] else [])
        \<and> length (filter isGestureFinished ns) \<le> 1
        \<and> length (filter isGestureStarted ns) \<le> 1
        \<and> filter isGestureUpdated ns = [])
   \<and> (reachable s \<longrightarrow>
        (\<exists>s1 ns1. handlePointerDown s pointer = Inr (s1, ns1))
        \<and> (\<exists>s2 ns2. handlePointerUp s pointer = Inr (s2, ns2))
        \<and> (\<exists>s3 ns3. handlePointerCancel s pointer = Inr (s3, ns3))
        \<and> (\<exists>s4 ns4. handlePointerMove s pointer = Inr (s4, ns4)))"
proof -
  have move: "map_of (activePointers s) (ptr_id pointer) = None \<longrightarrow>
      handlePointerMove s pointer = Inr (s, [])"
    by (simp add: handlePointerMove_def)
  have ret: "reachable s \<longrightarrow>
        (\<exists>s1 ns1. handlePointerDown s pointer = Inr (s1, ns1))
        \<and> (\<exists>s2 ns2. handlePointerUp s pointer = Inr (s2, ns2))
        \<and> (\<exists>s3 ns3. handlePointerCancel s pointer = Inr (s3, ns3))
        \<and> (\<exists>s4 ns4. handlePointerMove s pointer = Inr (s4, ns4))"
  proof
    assume r: "reachable s"
    from reachable_dispatch_returns [OF r, of "PointerDown pointer"]
      reachable_dispatch_returns [OF r, of "PointerUp pointer"]
      reachable_dispatch_returns [OF r, of "PointerCancel pointer"]
      reachable_dispatch_returns [OF r, of "PointerMove pointer"]
    show "(\<exists>s1 ns1. handlePointerDown s pointer = Inr (s1, ns1))
        \<and> (\<exists>s2 ns2. handlePointerUp s pointer = Inr (s2, ns2))
        \<and> (\<exists>s3 ns3. handlePointerCancel s pointer = Inr (s3, ns3))
        \<and> (\<exists>s4 ns4. handlePointerMove s pointer = Inr (s4, ns4))"
      by (simp add: dispatch_def) blast
  qed
  from move ret handlePointerDown_shape [of s pointer s' ns]
    handlePointerUp_shape [of s pointer s' ns] handlePointerCancel_shape [of s pointer s' ns]
  show ?thesis by blast
qed


theorem mode_change_notifications_witness:
  "map_of (activePointers (new_TouchStateManager all_handlers)) (ptr_id (example_pointer 7 5 5 10))
     = None
   \<and> handlePointerMove (new_TouchStateManager all_handlers) (example_pointer 7 5 5 10)
       = Inr (new_TouchStateManager all_handlers, [])
   \<and> reachable (new_TouchStateManager all_handlers)
   \<and> (\<exists>s1 ns1. handlePointerDown (new_TouchStateManager all_handlers) (example_pointer 1 0 0 10)
                    = Inr (s1, ns1)
         \<and> touchMode (new_TouchStateManager all_handlers) = TouchMode.IDLE
         \<and> touchMode s1 = TouchMode.DRAWING
         \<and> filter isTouchModeChanged ns1 = [TouchModeChanged TouchMode.IDLE TouchMode.DRAWING]
         \<and> length (filter isGestureFinished ns1) \<le> 1
         \<and> length (filter isGestureStarted ns1) \<le> 1
         \<and> filter isGestureUpdated ns1 = [])
   \<and> (\<exists>s2 ns2. handlePointerUp example_drawing_manager (example_pointer 1 0 0 20) = Inr (s2, ns2)
         \<and> touchMode example_drawing_manager = TouchMode.DRAWING
         \<and> touchMode s2 = TouchMode.IDLE
         \<and> filter isTouchModeChanged ns2 = [TouchModeChanged TouchMode.DRAWING TouchMode.IDLE]
         \<and> length (filter isGestureFinished ns2) \<le> 1
         \<and> length (filter isGestureStarted ns2) \<le> 1
         \<and> filter isGestureUpdated ns2 = [])
   \<and> (\<exists>s3 ns3. handlePointerCancel example_drawing_manager (example_pointer 1 0 0 20)
                    = Inr (s3, ns3)
         \<and> touchMode s3 = TouchMode.IDLE
         \<and> filter isTouchModeChanged ns3 = [TouchModeChanged TouchMode.DRAWING TouchMode.IDLE]
         \<and> length (filter isGestureFinished ns3) \<le> 1
         \<and> length (filter isGestureStarted ns3) \<le> 1
         \<and> filter isGestureUpdated ns3 = [])"
proof -
  let ?s0 = "new_TouchStateManager all_handlers"
  let ?dm = "example_drawing_manager"
  let ?p = "example_pointer 1 0 0 20"
  have h1: "map_of (activePointers ?s0) (ptr_id (example_pointer 7 5 5 10)) = None"
    by (simp add: new_TouchStateManager_def)
  have r0: "reachable ?s0" by (rule reachable.initial)
  have m0: "touchMode ?s0 = TouchMode.IDLE" "onTouchModeChanged (handlers ?s0)"
    by (simp_all add: touchMode_def new_TouchStateManager_def all_handlers_def)
  have md: "touchMode ?dm = TouchMode.DRAWING" "onTouchModeChanged (handlers ?dm)"
    by (simp_all add: touchMode_def example_drawing_manager_def all_handlers_def)
  from mode_change_notifications [of ?s0 "example_pointer 7 5 5 10"] h1
  have c1: "handlePointerMove ?s0 (example_pointer 7 5 5 10) = Inr (?s0, [])" by blast
  from mode_change_notifications [of ?s0 "example_pointer 1 0 0 10"] r0
  obtain s1 ns1 where d: "handlePointerDown ?s0 (example_pointer 1 0 0 10) = Inr (s1, ns1)"
    by blast
  with first_pointer_down have m1: "touchMode s1 = TouchMode.DRAWING"
    by (auto simp: touchMode_def)
  from mode_change_notifications [of ?s0 "example_pointer 1 0 0 10" s1 ns1] d m0 m1
  have c2: "filter isTouchModeChanged ns1 = [TouchModeChanged TouchMode.IDLE TouchMode.DRAWING]
         \<and> length (filter isGestureFinished ns1) \<le> 1
         \<and> length (filter isGestureStarted ns1) \<le> 1
         \<and> filter isGestureUpdated ns1 = []"
    by simp
  from drawing_pointer_up obtain s2 ns2 where
    u: "handlePointerUp ?dm ?p = Inr (s2, ns2)" and m2: "touchMode s2 = TouchMode.IDLE"
    by blast
  from mode_change_notifications [of ?dm ?p s2 ns2] u md m2
  have c3: "filter isTouchModeChanged ns2 = [TouchModeChanged TouchMode.DRAWING TouchMode.IDLE]
         \<and> length (filter isGestureFinished ns2) \<le> 1
         \<and> length (filter isGestureStarted ns2) \<le> 1
         \<and> filter isGestureUpdated ns2 = []"
    by simp
  from drawing_pointer_cancel obtain s3 ns3 where
    c: "handlePointerCancel ?dm ?p = Inr (s3, ns3)" and m3: "touchMode s3 = TouchMode.IDLE"
    by blast
  from mode_change_notifications [of ?dm ?p s3 ns3] c md m3
  have c4: "filter isTouchModeChanged ns3 = [TouchModeChanged TouchMode.DRAWING TouchMode.IDLE]
         \<and> length (filter isGestureFinished ns3) \<le> 1
         \<and> length (filter isGestureStarted ns3) \<le> 1
         \<and> filter isGestureUpdated ns3 = []"
    by simp
  from h1 c1 r0 d m0(1) m1 c2 u md(1) m2 c3 c m3 c4 show ?thesis by blast
qed

text \<open>
  C9, as stated, fails at the first pointer-down: with every handler registered the event
  changes the mode from idle to drawing and fires two notifications, gesture-started and
  mode-changed; with no handler registered the same event fires none.
\<close>

theorem first_pointer_down_counterexample:
  "touchMode (new_TouchStateManager all_handlers) = TouchMode.IDLE
   \<and> handlePointerDown (new_TouchStateManager all_handlers) (example_pointer 1 0 0 10)
     = Inr (\<lparr>currentMode = TouchMode.DRAWING, currentGesture = Some example_first_gesture,
             activePointers = [(1, example_pointer 1 0 0 10)], gestureHistory = [],
             handlers = all_handlers, lastUpdateTime = 10\<rparr>,
            [GestureStarted example_first_gesture,
             TouchModeChanged TouchMode.IDLE TouchMode.DRAWING])
   \<and> length [GestureStarted example_first_gesture,
              TouchModeChanged TouchMode.IDLE TouchMode.DRAWING] = 2
   \<and> touchMode (new_TouchStateManager no_handlers) = TouchMode.IDLE
   \<and> handlePointerDown (new_TouchStateManager no_handlers) (example_pointer 1 0 0 10)
     = Inr (\<lparr>currentMode = TouchMode.DRAWING, currentGesture = Some example_first_gesture,
             activePointers = [(1, example_pointer 1 0 0 10)], gestureHistory = [],
             handlers = no_handlers, lastUpdateTime = 10\<rparr>, [])"
  using first_pointer_down first_pointer_down_unobserved
  by (simp add: touchMode_def new_TouchStateManager_def)

text \<open>
  C1. In every reachable state of the manager the keys of the pointer map are distinct and the
  touch mode is the mode of the number of active pointers: none gives idle, one drawing, two
  pan-zoom, three undo, more than three multi-touch. A move event changes neither the mode
  nor the number of pointers.
\<close>

theorem touch_mode_of_pointer_count:
  assumes "reachable s"
  shows "distinct (map fst (activePointers s))
       \<and> touchMode s =
           (if activePointerCount s = 0 then TouchMode.IDLE
            else if activePointerCount s = 1 then TouchMode.DRAWING
            else if activePointerCount s = 2 then TouchMode.PAN_ZOOM
            else if activePointerCount s = 3 then TouchMode.UNDO
            else TouchMode.MULTI_TOUCH)
       \<and> (\<forall>pointer s' ns. handlePointerMove s pointer = Inr (s', ns) \<longrightarrow>
             touchMode s' = touchMode s \<and> activePointerCount s' = activePointerCount s)"
proof -
  from reachable_invariant [OF assms]
  have "distinct (map fst (activePointers s))" and "currentMode s = determineTouchMode s"
    by simp_all
  moreover have "\<forall>pointer s' ns. handlePointerMove s pointer = Inr (s', ns) \<longrightarrow>
             touchMode s' = touchMode s \<and> activePointerCount s' = activePointerCount s"
    using handlePointerMove_mode by (auto simp: touchMode_def activePointerCount_def)
  ultimately show ?thesis
    by (simp add: touchMode_def activePointerCount_def determineTouchMode_def Let_def)
qed

theorem touch_mode_of_pointer_count_witness:
  "\<exists>s1 n1 s2 n2 s3 n3 s4 n4 s5 n5.
     dispatch (new_TouchStateManager all_handlers) (PointerDown (example_pointer 1 0 0 10))
       = Inr (s1, n1)
     \<and> reachable s1 \<and> activePointerCount s1 = 1 \<and> touchMode s1 = TouchMode.DRAWING
     \<and> dispatch s1 (PointerDown (example_pointer 2 30 0 11)) = Inr (s2, n2)
     \<and> reachable s2 \<and> activePointerCount s2 = 2 \<and> touchMode s2 = TouchMode.PAN_ZOOM
     \<and> dispatch s2 (PointerMove (example_pointer 1 0 8 12)) = Inr (s3, n3)
     \<and> reachable s3 \<and> activePointerCount s3 = 2 \<and> touchMode s3 = TouchMode.PAN_ZOOM
     \<and> dispatch s3 (PointerUp (example_pointer 2 30 0 13)) = Inr (s4, n4)
     \<and> reachable s4 \<and> activePointerCount s4 = 1 \<and> touchMode s4 = TouchMode.DRAWING
     \<and> dispatch s4 (PointerUp (example_pointer 1 0 8 14)) = Inr (s5, n5)
     \<and> reachable s5 \<and> activePointerCount s5 = 0 \<and> touchMode s5 = TouchMode.IDLE"
proof -
  let ?s0 = "new_TouchStateManager all_handlers"
  have r0: "reachable ?s0" by (rule reachable.initial)
  have p0: "activePointers ?s0 = []" by (simp add: new_TouchStateManager_def)
  have ids: "ptr_id (example_pointer i px py t) = i" for i px py t
    by (simp add: example_pointer_def)
  from reachable_dispatch_returns [OF r0, of "PointerDown (example_pointer 1 0 0 10)"]
  obtain s1 n1 where d1: "dispatch ?s0 (PointerDown (example_pointer 1 0 0 10)) = Inr (s1, n1)"
    and r1: "reachable s1" by blast
  from d1 have "handlePointerDown ?s0 (example_pointer 1 0 0 10) = Inr (s1, n1)"
    by (simp add: dispatch_def)
  from handlePointerDown_mode [OF this] p0
  have p1: "activePointers s1 = [(1, example_pointer 1 0 0 10)]" by (simp add: ids)
  then have c1: "activePointerCount s1 = 1" by (simp add: activePointerCount_def)
  from touch_mode_of_pointer_count [OF r1] c1
  have m1: "touchMode s1 = TouchMode.DRAWING" by simp
  from reachable_dispatch_returns [OF r1, of "PointerDown (example_pointer 2 30 0 11)"]
  obtain s2 n2 where d2: "dispatch s1 (PointerDown (example_pointer 2 30 0 11)) = Inr (s2, n2)"
    and r2: "reachable s2" by blast
  from d2 have "handlePointerDown s1 (example_pointer 2 30 0 11) = Inr (s2, n2)"
    by (simp add: dispatch_def)
  from handlePointerDown_mode [OF this] p1
  have p2: "activePointers s2 = [(1, example_pointer 1 0 0 10), (2, example_pointer 2 30 0 11)]"
    by (simp add: ids)
  then have c2: "activePointerCount s2 = 2" by (simp add: activePointerCount_def)
  from touch_mode_of_pointer_count [OF r2] c2
  have m2: "touchMode s2 = TouchMode.PAN_ZOOM" by simp
  from reachable_dispatch_returns [OF r2, of "PointerMove (example_pointer 1 0 8 12)"]
  obtain s3 n3 where d3: "dispatch s2 (PointerMove (example_pointer 1 0 8 12)) = Inr (s3, n3)"
    and r3: "reachable s3" by blast
  from d3 have h3: "handlePointerMove s2 (example_pointer 1 0 8 12) = Inr (s3, n3)"
    by (simp add: dispatch_def)
  have "map_of (activePointers s2) (ptr_id (example_pointer 1 0 8 12)) \<noteq> None"
    by (simp add: p2 ids)
  from handlePointerMove_pointers [OF h3 this] p2
  have p3: "activePointers s3 = [(1, example_pointer 1 0 8 12), (2, example_pointer 2 30 0 11)]"
    by (simp add: ids)
  then have c3: "activePointerCount s3 = 2" by (simp add: activePointerCount_def)
  from touch_mode_of_pointer_count [OF r3] c3
  have m3: "touchMode s3 = TouchMode.PAN_ZOOM" by simp
  from reachable_dispatch_returns [OF r3, of "PointerUp (example_pointer 2 30 0 13)"]
  obtain s4 n4 where d4: "dispatch s3 (PointerUp (example_pointer 2 30 0 13)) = Inr (s4, n4)"
    and r4: "reachable s4" by blast
  from d4 have "handlePointerUp s3 (example_pointer 2 30 0 13) = Inr (s4, n4)"
    by (simp add: dispatch_def)
  from handlePointerUp_mode [OF this] p3
  have p4: "activePointers s4 = [(1, example_pointer 1 0 8 12)]"
    by (simp add: ids AList.delete_eq)
  then have c4: "activePointerCount s4 = 1" by (simp add: activePointerCount_def)
  from touch_mode_of_pointer_count [OF r4] c4
  have m4: "touchMode s4 = TouchMode.DRAWING" by simp
  from reachable_dispatch_returns [OF r4, of "PointerUp (example_pointer 1 0 8 14)"]
  obtain s5 n5 where d5: "dispatch s4 (PointerUp (example_pointer 1 0 8 14)) = Inr (s5, n5)"
    and r5: "reachable s5" by blast
  from d5 have "handlePointerUp s4 (example_pointer 1 0 8 14) = Inr (s5, n5)"
    by (simp add: dispatch_def)
  from handlePointerUp_mode [OF this] p4
  have p5: "activePointers s5 = []" by (simp add: ids AList.delete_eq)
  then have c5: "activePointerCount s5 = 0" by (simp add: activePointerCount_def)
  from touch_mode_of_pointer_count [OF r5] c5
  have m5: "touchMode s5 = TouchMode.IDLE" by simp
  from d1 r1 c1 m1 d2 r2 c2 m2 d3 r3 c3 m3 d4 r4 c4 m4 d5 r5 c5 m5 show ?thesis by blast
qed

section \<open>Rounding to a double\<close>

lemma round_half_even_bounds:
  "of_int \<lfloor>x\<rfloor> \<le> (of_int (round_half_even x) :: real)"
  "(of_int (round_half_even x) :: real) \<le> of_int \<lfloor>x\<rfloor> + 1"
  by (simp_all add: round_half_even_def Let_def)

lemma round_half_even_of_int [simp]: "round_half_even (of_int n) = n"
  by (simp add: round_half_even_def)

lemma round_half_even_numeral [simp]: "round_half_even (numeral n) = numeral n"
  using round_half_even_of_int [of "numeral n"] by simp

lemma double_0 [simp]: "double 0 = 0"
  by (simp add: double_def)

lemma double_eval:
  assumes "2 ^ 52 \<le> \<bar>x\<bar> * 2 ^ k" and "\<bar>x\<bar> * 2 ^ k < 2 ^ 53"
  shows "double x = of_int (round_half_even (x * 2 ^ k)) / 2 ^ k"
proof -
  from assms(1) have x0: "x \<noteq> 0" by auto
  then have ax: "0 < \<bar>x\<bar>" by simp
  have p: "(2::real) powr (52 - real k) = 2 ^ 52 / 2 ^ k"
    by (simp add: powr_diff powr_realpow)
  have q: "(2::real) powr (53 - real k) = 2 ^ 53 / 2 ^ k"
    by (simp add: powr_diff powr_realpow)
  have "2 powr (52 - real k) \<le> \<bar>x\<bar>"
    unfolding p using assms(1) by (simp add: field_simps)
  then have lo: "52 - real k \<le> log 2 \<bar>x\<bar>"
    using le_log_iff [of 2 "\<bar>x\<bar>" "52 - real k"] ax by simp
  have "\<bar>x\<bar> < 2 powr (53 - real k)"
    unfolding q using assms(2) by (simp add: field_simps)
  then have hi: "log 2 \<bar>x\<bar> < 53 - real k"
    using log_less_iff [of 2 "\<bar>x\<bar>" "53 - real k"] ax by simp
  have fl: "\<lfloor>log 2 \<bar>x\<bar>\<rfloor> = 52 - int k"
    by (rule floor_unique) (use lo hi in simp_all)
  have u: "(2::real) powr (of_int \<lfloor>log 2 \<bar>x\<bar>\<rfloor> - 52) = 1 / 2 ^ k"
    unfolding fl by (simp add: powr_minus powr_realpow field_simps)
  show ?thesis
    using x0 by (simp add: double_def Let_def u)
qed

lemma double_1 [simp]: "double 1 = 1"
  using double_eval [of 1 52] by simp

lemma double_pos:
  assumes "0 < x"
  shows "0 < double x"
proof -
  define e where "e = of_int \<lfloor>log 2 \<bar>x\<bar>\<rfloor> - (52::real)"
  define y where "y = x / 2 powr e"
  have "of_int \<lfloor>log 2 x\<rfloor> \<le> log 2 x" by simp
  then have "2 powr (of_int \<lfloor>log 2 x\<rfloor>) \<le> x"
    using le_log_iff [of 2 x "of_int \<lfloor>log 2 x\<rfloor>"] assms by simp
  then have b: "2 powr (of_int \<lfloor>log 2 x\<rfloor>) \<le> x" .
  have eq: "2 powr e = 2 powr (of_int \<lfloor>log 2 x\<rfloor>) / 2 ^ 52"
    using assms by (simp add: e_def powr_diff)
  have "0 < 2 powr (real_of_int \<lfloor>log 2 x\<rfloor>)" by simp
  with b have "2 ^ 52 \<le> x * 2 ^ 52 / 2 powr (of_int \<lfloor>log 2 x\<rfloor>)"
    by (simp add: field_simps)
  then have "2 ^ 52 \<le> y" by (simp add: y_def eq)
  then have "1 \<le> y" by simp
  then have "1 \<le> \<lfloor>y\<rfloor>" by simp
  then have "(1::real) \<le> of_int \<lfloor>y\<rfloor>" by linarith
  with round_half_even_bounds(1) [of y] have "(0::real) < of_int (round_half_even y)"
    by linarith
  then have "0 < of_int (round_half_even y) * 2 powr e" by simp
  then show ?thesis
    using assms by (simp add: double_def Let_def y_def e_def)
qed

lemma double_nonneg: "0 \<le> x \<Longrightarrow> 0 \<le> double x"
  using double_pos [of x] by (cases "x = 0") (simp_all add: less_eq_real_def)


lemma round_half_even_le:
  assumes "x \<le> of_int n"
  shows "round_half_even x \<le> n"
proof (cases "x = of_int n")
  case True
  then show ?thesis by simp
next
  case False
  with assms have "x < of_int n" by simp
  then have "\<lfloor>x\<rfloor> < n" by (simp add: floor_less_iff)
  then have "\<lfloor>x\<rfloor> + 1 \<le> n" by simp
  moreover have "round_half_even x \<le> \<lfloor>x\<rfloor> + 1"
    by (simp add: round_half_even_def Let_def)
  ultimately show ?thesis by linarith
qed

lemma round_half_even_ge:
  assumes "of_int n \<le> x"
  shows "n \<le> round_half_even x"
proof -
  from assms have "n \<le> \<lfloor>x\<rfloor>" by (simp add: le_floor_iff)
  moreover have "\<lfloor>x\<rfloor> \<le> round_half_even x"
    by (simp add: round_half_even_def Let_def)
  ultimately show ?thesis by linarith
qed

lemma round_half_even_minus: "round_half_even (- x) = - round_half_even x"
proof (cases "x = of_int \<lfloor>x\<rfloor>")
  case True
  then obtain n where "x = of_int n" by metis
  then have "- x = of_int (- n)" by simp
  then show ?thesis unfolding \<open>x = of_int n\<close> by (simp only: round_half_even_of_int)
next
  case False
  define n where "n = \<lfloor>x\<rfloor>"
  define r where "r = x - of_int n"
  have r: "0 < r" "r < 1"
    using False by (simp_all add: r_def n_def less_eq_real_def) linarith+
  have fl: "\<lfloor>- x\<rfloor> = - n - 1"
    by (rule floor_unique) (use r in \<open>simp_all add: r_def\<close>)
  have r': "- x - of_int (- n - 1) = 1 - r" by (simp add: r_def)
  show ?thesis
    unfolding round_half_even_def Let_def fl r' n_def [symmetric] r_def [symmetric]
    using r by auto
qed

lemma double_minus: "double (- x) = - double x"
  by (simp add: double_def Let_def round_half_even_minus)

text \<open>The binade of a positive number.\<close>

lemma binade:
  fixes x :: real
  assumes "0 < x" and "u = 2 powr (of_int \<lfloor>log 2 x\<rfloor> - 52)"
  shows "0 < u" and "2 ^ 52 * u \<le> x" and "x < 2 ^ 53 * u"
    and "double x = of_int (round_half_even (x / u)) * u"
    and "2 ^ 52 * u = 2 powr (of_int \<lfloor>log 2 x\<rfloor>)"
    and "2 ^ 53 * u = 2 powr (of_int \<lfloor>log 2 x\<rfloor> + 1)"
proof -
  define e where "e = \<lfloor>log 2 x\<rfloor>"
  have u_def: "u = 2 powr (of_int e - 52)" by (simp add: assms(2) e_def)
  show u: "0 < u" by (simp add: u_def)
  have p: "2 ^ 52 * u = 2 powr (of_int e)"
    by (simp add: u_def powr_diff)
  have q: "2 ^ 53 * u = 2 powr (of_int e + 1)"
    by (simp add: u_def powr_diff powr_add)
  have "of_int e \<le> log 2 x" by (simp add: e_def)
  then have "2 powr (of_int e) \<le> x"
    using le_log_iff [of 2 x "of_int e"] assms(1) by simp
  then show "2 ^ 52 * u \<le> x" by (simp only: p)
  have "log 2 x < of_int e + 1" by (simp add: e_def)
  then have "x < 2 powr (of_int e + 1)"
    using log_less_iff [of 2 x "of_int e + 1"] assms(1) by simp
  then show "x < 2 ^ 53 * u" by (simp only: q)
  show "double x = of_int (round_half_even (x / u)) * u"
    using assms(1) by (simp add: double_def Let_def u_def e_def)
  show "2 ^ 52 * u = 2 powr (of_int \<lfloor>log 2 x\<rfloor>)" using p by (simp add: e_def)
  show "2 ^ 53 * u = 2 powr (of_int \<lfloor>log 2 x\<rfloor> + 1)" using q by (simp add: e_def)
qed

lemma double_binade_bounds:
  assumes "0 < x"
  shows "2 powr (of_int \<lfloor>log 2 x\<rfloor>) \<le> double x"
    and "double x \<le> 2 powr (of_int \<lfloor>log 2 x\<rfloor> + 1)"
proof -
  define u :: real where "u = 2 powr (of_int \<lfloor>log 2 x\<rfloor> - 52)"
  note b = binade [OF assms u_def]
  have lo: "2 ^ 52 \<le> x / u" using b(1,2) by (simp add: field_simps)
  have hi: "x / u \<le> 2 ^ 53" using b(1,3) by (simp add: field_simps)
  from lo have "of_int (2 ^ 52) \<le> x / u" by simp
  then have "2 ^ 52 \<le> round_half_even (x / u)" by (rule round_half_even_ge)
  then have "(of_int (2 ^ 52) :: real) \<le> of_int (round_half_even (x / u))"
    by (simp only: of_int_le_iff)
  then have "(2 ^ 52 :: real) \<le> of_int (round_half_even (x / u))" by simp
  then have "2 ^ 52 * u \<le> of_int (round_half_even (x / u)) * u"
    using b(1) by simp
  then show "2 powr (of_int \<lfloor>log 2 x\<rfloor>) \<le> double x"
    by (simp only: b(4) b(5))
  from hi have "x / u \<le> of_int (2 ^ 53)" by simp
  then have "round_half_even (x / u) \<le> 2 ^ 53" by (rule round_half_even_le)
  then have "of_int (round_half_even (x / u)) \<le> (of_int (2 ^ 53) :: real)"
    by (simp only: of_int_le_iff)
  then have "of_int (round_half_even (x / u)) \<le> (2 ^ 53 :: real)" by simp
  then have "of_int (round_half_even (x / u)) * u \<le> 2 ^ 53 * u"
    using b(1) by simp
  then show "double x \<le> 2 powr (of_int \<lfloor>log 2 x\<rfloor> + 1)"
    by (simp only: b(4) b(6))
qed


lemma double_nonpos: "x \<le> 0 \<Longrightarrow> double x \<le> 0"
  using double_nonneg [of "- x"] by (simp add: double_minus)



lemma floor_log2_eq:
  fixes z :: real
  assumes "0 < z" and "2 powr (of_int e) \<le> z" and "z < 2 powr (of_int e + 1)"
  shows "\<lfloor>log 2 z\<rfloor> = e"
proof (rule floor_unique)
  show "of_int e \<le> log 2 z"
    using le_log_iff [of 2 z "of_int e"] assms by simp
  show "log 2 z < of_int e + 1"
    using log_less_iff [of 2 z "of_int e + 1"] assms by simp
qed





lemma double_idem_pos:
  fixes x :: real
  assumes "0 < x"
  shows "double (double x) = double x"
proof -
  define e where "e = \<lfloor>log 2 x\<rfloor>"
  define u :: real where "u = 2 powr (of_int \<lfloor>log 2 x\<rfloor> - 52)"
  note b = binade [OF assms u_def]
  define M where "M = round_half_even (x / u)"
  define z where "z = double x"
  have z: "z = of_int M * u" by (simp add: z_def b(4) M_def)
  have lo: "2 ^ 52 \<le> x / u" using b(1,2) by (simp add: field_simps)
  have hi: "x / u \<le> 2 ^ 53" using b(1,3) by (simp add: field_simps)
  from lo have "of_int (2 ^ 52) \<le> x / u" by simp
  then have Mlo: "2 ^ 52 \<le> M" unfolding M_def by (rule round_half_even_ge)
  from hi have "x / u \<le> of_int (2 ^ 53)" by simp
  then have Mhi: "M \<le> 2 ^ 53" unfolding M_def by (rule round_half_even_le)
  from Mlo have "(of_int (2 ^ 52) :: real) \<le> of_int M" by (simp only: of_int_le_iff)
  then have Mlo': "(2 ^ 52 :: real) \<le> of_int M" by simp
  then have zpos: "0 < z" using b(1) by (simp add: z)
  show ?thesis
  proof (cases "M = 2 ^ 53")
    case True
    then have z2: "z = 2 powr (of_int e + 1)" using b(6) by (simp add: z e_def)
    have fl: "\<lfloor>log 2 z\<rfloor> = e + 1"
      by (rule floor_log2_eq [OF zpos]) (simp_all add: z2)
    define u' :: real where "u' = 2 powr (of_int \<lfloor>log 2 z\<rfloor> - 52)"
    have u': "u' = 2 * u" by (simp add: u'_def fl u_def e_def powr_add powr_diff)
    note b' = binade [OF zpos u'_def]
    have "z / u' = 2 ^ 52" using b(1) True by (simp add: z u')
    then have "double z = 2 ^ 52 * u'" by (simp add: b'(4))
    also have "\<dots> = z" using True by (simp add: z u')
    finally show ?thesis by (simp add: z_def)
  next
    case False
    with Mhi have "M < 2 ^ 53" by simp
    then have "(of_int M :: real) < of_int (2 ^ 53)" by (simp only: of_int_less_iff)
    then have Mhi': "(of_int M :: real) < 2 ^ 53" by simp
    have l: "2 powr (of_int e) \<le> z"
      using Mlo' b(1) by (simp add: z b(5) [symmetric] e_def)
    have h: "z < 2 powr (of_int e + 1)"
      using Mhi' b(1) by (simp add: z b(6) [symmetric] e_def)
    have fl: "\<lfloor>log 2 z\<rfloor> = e" by (rule floor_log2_eq [OF zpos l h])
    have u': "u = 2 powr (of_int \<lfloor>log 2 z\<rfloor> - 52)" by (simp add: fl u_def e_def)
    note b' = binade [OF zpos u']
    have "z / u = of_int M" using b(1) by (simp add: z)
    then have "double z = of_int M * u" by (simp add: b'(4))
    then show ?thesis by (simp add: z z_def [symmetric])
  qed
qed

lemma double_idem [simp]: "double (double x) = double x"
proof (cases "0 < x")
  case True
  then show ?thesis by (rule double_idem_pos)
next
  case False
  show ?thesis
  proof (cases "x = 0")
    case True
    then show ?thesis by simp
  next
    case False
    with \<open>\<not> 0 < x\<close> have "0 < - x" by simp
    from double_idem_pos [OF this] show ?thesis by (simp add: double_minus)
  qed
qed

lemma round_half_even_mono:
  assumes "x \<le> y"
  shows "round_half_even x \<le> round_half_even y"
proof (cases "\<lfloor>x\<rfloor> = \<lfloor>y\<rfloor>")
  case True
  define n where "n = \<lfloor>y\<rfloor>"
  have "x - of_int n \<le> y - of_int n" using assms by simp
  then show ?thesis
    unfolding round_half_even_def Let_def True n_def [symmetric] by auto
next
  case False
  from assms have "\<lfloor>x\<rfloor> \<le> \<lfloor>y\<rfloor>" by (rule floor_mono)
  with False have "\<lfloor>x\<rfloor> + 1 \<le> \<lfloor>y\<rfloor>" by simp
  moreover have "round_half_even x \<le> \<lfloor>x\<rfloor> + 1" by (simp add: round_half_even_def Let_def)
  moreover have "\<lfloor>y\<rfloor> \<le> round_half_even y" by (simp add: round_half_even_def Let_def)
  ultimately show ?thesis by linarith
qed

lemma double_mono_pos:
  fixes x y :: real
  assumes "0 < x" and "x \<le> y"
  shows "double x \<le> double y"
proof -
  from assms have y: "0 < y" by simp
  define u :: real where "u = 2 powr (of_int \<lfloor>log 2 x\<rfloor> - 52)"
  define v :: real where "v = 2 powr (of_int \<lfloor>log 2 y\<rfloor> - 52)"
  note bx = binade [OF assms(1) u_def] and bv = binade [OF y v_def]
  have "log 2 x \<le> log 2 y" using assms by simp
  then have le: "\<lfloor>log 2 x\<rfloor> \<le> \<lfloor>log 2 y\<rfloor>" by (rule floor_mono)
  show ?thesis
  proof (cases "\<lfloor>log 2 x\<rfloor> = \<lfloor>log 2 y\<rfloor>")
    case True
    then have uv: "u = v" by (simp add: u_def v_def)
    have "x / u \<le> y / u" using assms(2) bx(1) by (simp add: divide_right_mono)
    then have "round_half_even (x / u) \<le> round_half_even (y / u)"
      by (rule round_half_even_mono)
    then have "(of_int (round_half_even (x / u)) :: real) \<le> of_int (round_half_even (y / u))"
      by (simp only: of_int_le_iff)
    then have "of_int (round_half_even (x / u)) * u \<le> of_int (round_half_even (y / u)) * u"
      using bx(1) by (simp only: mult_le_cancel_right_pos)
    then show ?thesis using bx(4) bv(4) by (simp add: uv)
  next
    case False
    with le have "\<lfloor>log 2 x\<rfloor> + 1 \<le> \<lfloor>log 2 y\<rfloor>" by simp
    then have "of_int \<lfloor>log 2 x\<rfloor> + 1 \<le> (of_int \<lfloor>log 2 y\<rfloor> :: real)" by linarith
    then have "(2::real) powr (of_int \<lfloor>log 2 x\<rfloor> + 1) \<le> 2 powr (of_int \<lfloor>log 2 y\<rfloor>)"
      by (intro powr_mono) simp_all
    with double_binade_bounds(2) [OF assms(1)] double_binade_bounds(1) [OF y]
    show ?thesis by linarith
  qed
qed

lemma double_mono:
  assumes "x \<le> y"
  shows "double x \<le> double y"
proof (cases "0 < x")
  case True
  then show ?thesis using assms by (rule double_mono_pos)
next
  case False
  then have x: "x \<le> 0" by simp
  show ?thesis
  proof (cases "0 \<le> y")
    case True
    from double_nonpos [OF x] double_nonneg [OF True] show ?thesis by linarith
  next
    case False
    then have "0 < - y" "- y \<le> - x" using assms by simp_all
    from double_mono_pos [OF this] show ?thesis by (simp add: double_minus)
  qed
qed

subsection \<open>Some numbers that are doubles\<close>



lemma double_900: "double (900) = 900"
  by (subst double_eval [where k = 43]) (simp_all add: round_half_even_def Let_def)









section \<open>Best-fit selection\<close>

lemma calculateFitScore_range: "0 \<le> calculateFitScore c \<and> calculateFitScore c \<le> 1"
  by (simp add: calculateFitScore_def Let_def)

lemma selectBestFit_loop_mem:
  "selectBestFit_loop b s rest = b \<or> selectBestFit_loop b s rest \<in> set rest"
  by (induction rest arbitrary: b s) (auto simp: Let_def)

lemma selectBestFit_loop_max:
  assumes "s = calculateFitScore b"
  shows "calculateFitScore b \<le> calculateFitScore (selectBestFit_loop b s rest)
       \<and> (\<forall>c \<in> set rest. calculateFitScore c \<le> calculateFitScore (selectBestFit_loop b s rest))"
  using assms
proof (induction rest arbitrary: b s)
  case Nil
  then show ?case by simp
next
  case (Cons r rest)
  show ?case
  proof (cases "calculateFitScore r > s")
    case True
    from Cons.IH [of "calculateFitScore r" r] True Cons.prems
    show ?thesis by (auto simp: Let_def)
  next
    case False
    from Cons.IH [of s b] False Cons.prems
    show ?thesis by (auto simp: Let_def)
  qed
qed

text \<open>
  C3. For a non-empty list of candidate fits, \<open>selectBestFit\<close> returns one of the candidates,
  and no candidate has a higher score; the score of a candidate is its confidence plus the
  bonus of its type minus the error penalty \<open>min 0.2 (error / 10)\<close>, clipped to \<open>[0, 1]\<close>; the
  bonus decreases from line to arc to circle to unknown.
\<close>

theorem selectBestFit_maximizes_score:
  assumes "results \<noteq> []"
  shows "\<exists>best. selectBestFit results = Inr best \<and> best \<in> set results
           \<and> (\<forall>c \<in> set results. calculateFitScore c \<le> calculateFitScore best)
           \<and> (\<forall>c \<in> set results. 0 \<le> calculateFitScore c \<and> calculateFitScore c \<le> 1
                \<and> calculateFitScore c =
                    max 0 (min 1 (confidence c + complexityBonus (gtype c) - min 0.2 (fit_error c / 10))))
           \<and> complexityBonus GeometryType.LINE > complexityBonus GeometryType.ARC
           \<and> complexityBonus GeometryType.ARC > complexityBonus GeometryType.CIRCLE
           \<and> complexityBonus GeometryType.CIRCLE > complexityBonus GeometryType.UNKNOWN"
proof -
  obtain r rest where res: "results = r # rest"
    using assms by (cases results) auto
  define best where "best = selectBestFit_loop r (calculateFitScore r) rest"
  have sel: "selectBestFit results = Inr best"
    unfolding res best_def selectBestFit_def by (cases rest) simp_all
  have mem: "best \<in> set results"
    using selectBestFit_loop_mem [of r "calculateFitScore r" rest] by (auto simp: res best_def)
  have mx: "\<forall>c \<in> set results. calculateFitScore c \<le> calculateFitScore best"
    using selectBestFit_loop_max [of "calculateFitScore r" r rest] by (auto simp: res best_def)
  have sc: "\<forall>c \<in> set results. 0 \<le> calculateFitScore c \<and> calculateFitScore c \<le> 1
                \<and> calculateFitScore c =
                    max 0 (min 1 (confidence c + complexityBonus (gtype c) - min 0.2 (fit_error c / 10)))"
    using calculateFitScore_range by (simp add: calculateFitScore_def Let_def)
  have bonus: "complexityBonus GeometryType.LINE > complexityBonus GeometryType.ARC
           \<and> complexityBonus GeometryType.ARC > complexityBonus GeometryType.CIRCLE
           \<and> complexityBonus GeometryType.CIRCLE > complexityBonus GeometryType.UNKNOWN"
    by (simp add: complexityBonus_def)
  from sel mem mx sc bonus show ?thesis by blast
qed

theorem selectBestFit_maximizes_score_witness:
  "[example_line_fit, example_arc_fit] \<noteq> []
   \<and> selectBestFit [example_line_fit, example_arc_fit] = Inr example_arc_fit
   \<and> calculateFitScore example_line_fit = 0.6
   \<and> calculateFitScore example_arc_fit = 0.85
   \<and> (\<exists>best. selectBestFit [example_line_fit, example_arc_fit] = Inr best
         \<and> best \<in> set [example_line_fit, example_arc_fit]
         \<and> (\<forall>c \<in> set [example_line_fit, example_arc_fit].
               calculateFitScore c \<le> calculateFitScore best))"
proof -
  have ne: "[example_line_fit, example_arc_fit] \<noteq> []" by simp
  have l: "calculateFitScore example_line_fit = 0.6"
    by (simp add: calculateFitScore_def example_line_fit_def complexityBonus_def Let_def)
  have a: "calculateFitScore example_arc_fit = 0.85"
    by (simp add: calculateFitScore_def example_arc_fit_def complexityBonus_def Let_def)
  have s: "selectBestFit [example_line_fit, example_arc_fit] = Inr example_arc_fit"
    by (simp add: selectBestFit_def l a Let_def)
  from selectBestFit_maximizes_score [OF ne] ne l a s show ?thesis by blast
qed

section \<open>Determinism of the conversion\<close>


lemma calculateFitScore_without_id [simp]:
  "calculateFitScore (without_id r) = calculateFitScore r"
  by (simp add: calculateFitScore_def without_id_def)

lemma confidence_without_id [simp]: "confidence (without_id r) = confidence r"
  by (simp add: without_id_def)

lemma fitLine_env:
  "map_option without_id (fst (fitLine opts env k points))
     = map_option without_id (fst (fitLine opts env' k' points))"
  by (simp add: fitLine_def new_LineSegment_def without_id_def erase_id_def Let_def)

lemma fitArc_env:
  "map_option without_id (fst (fitArc opts env k points))
     = map_option without_id (fst (fitArc opts env' k' points))"
  by (simp add: fitArc_def fromThreePoints_def new_ArcSegment_def calculateArcError_def
      distanceToPoint_def without_id_def erase_id_def Let_def split: option.splits prod.splits)

lemma fitCircle_env:
  "map_sum id (map_option without_id) (fst (fitCircle opts env k points))
     = map_sum id (map_option without_id) (fst (fitCircle opts env' k' points))"
  by (simp add: fitCircle_def new_ArcSegment_def without_id_def erase_id_def Let_def
      split: option.splits prod.splits)

lemma selectBestFit_loop_without_id:
  "selectBestFit_loop (without_id b) s (map without_id rest)
     = without_id (selectBestFit_loop b s rest)"
  by (induction rest arbitrary: b s) (simp_all add: Let_def)

lemma selectBestFit_without_id:
  "selectBestFit (map without_id rs) = map_sum id without_id (selectBestFit rs)"
proof (cases rs)
  case Nil
  then show ?thesis by (simp add: selectBestFit_def)
next
  case outer: (Cons r rest)
  show ?thesis
  proof (cases rest)
    case Nil
    with outer show ?thesis by (simp add: selectBestFit_def)
  next
    case (Cons a list)
    have 1: "selectBestFit rs = Inr (selectBestFit_loop r (calculateFitScore r) rest)"
      unfolding outer Cons selectBestFit_def by simp
    have 2: "selectBestFit (map without_id rs)
               = Inr (selectBestFit_loop (without_id r) (calculateFitScore r) (map without_id rest))"
      unfolding outer Cons selectBestFit_def by simp
    show ?thesis unfolding 1 2 selectBestFit_loop_without_id by simp
  qed
qed

lemma fitSegment_chooseFit:
  "fst (fitSegment opts env k points) =
     (if length points < 2 \<or> isSegmentTooShort opts points then Inr None
      else
        let k1 = snd (fitLine opts env k points);
            circle = (if enableCircleDetection opts \<and> length points \<ge> 5
                      then fitCircle opts env k1 points else (Inr None, k1));
            arc = (if length points \<ge> 3 then fitArc opts env (snd circle) points
                   else (None, snd circle))
        in chooseFit (fst (fitLine opts env k points)) (fst circle) (fst arc))"
  by (auto simp: fitSegment_def chooseFit_def option_list_def Let_def
      split: prod.splits sum.splits option.splits)

lemma option_list_without_id:
  "map without_id (option_list x) = option_list (map_option without_id x)"
  by (cases x) (simp_all add: option_list_def)

lemma chooseFit_without_id:
  "map_sum id (map_option without_id) (chooseFit l c a)
     = chooseFit (map_option without_id l) (map_sum id (map_option without_id) c)
         (map_option without_id a)"
proof (cases c)
  case (Inl e)
  then show ?thesis by (simp add: chooseFit_def)
next
  case (Inr cf)
  define fr where "fr = option_list l @ option_list cf @ option_list a"
  have m: "option_list (map_option without_id l) @ option_list (map_option without_id cf)
             @ option_list (map_option without_id a) = map without_id fr"
    by (simp add: fr_def option_list_without_id)
  have "map_sum id (map_option without_id) (map_sum id Some (selectBestFit fr))
          = map_sum id Some (selectBestFit (map without_id fr))"
    unfolding selectBestFit_without_id by (cases "selectBestFit fr") simp_all
  then show ?thesis
    unfolding chooseFit_def Inr by (simp add: m Let_def fr_def [symmetric])
qed

lemma fitSegment_env:
  "map_sum id (map_option without_id) (fst (fitSegment opts env k points))
     = map_sum id (map_option without_id) (fst (fitSegment opts env' k' points))"
proof -
  define cl where "cl = map_option without_id (fst (fitLine opts env' k' points))"
  define cc where "cc = map_sum id (map_option without_id) (fst (fitCircle opts env' k' points))"
  define ca where "ca = map_option without_id (fst (fitArc opts env' k' points))"
  have L: "map_option without_id (fst (fitLine opts e j points)) = cl" for e j
    unfolding cl_def by (rule fitLine_env)
  have C: "map_sum id (map_option without_id) (fst (fitCircle opts e j points)) = cc" for e j
    unfolding cc_def by (rule fitCircle_env)
  have A: "map_option without_id (fst (fitArc opts e j points)) = ca" for e j
    unfolding ca_def by (rule fitArc_env)
  have "map_sum id (map_option without_id) (fst (fitSegment opts e j points))
          = (if length points < 2 \<or> isSegmentTooShort opts points then Inr None
             else chooseFit cl
                    (if enableCircleDetection opts \<and> length points \<ge> 5 then cc else Inr None)
                    (if length points \<ge> 3 then ca else None))" for e j
    unfolding fitSegment_chooseFit Let_def
    by (simp add: chooseFit_without_id L C A)
  then show ?thesis by simp
qed

lemma keep_confident_without_id:
  "map without_id
     (case segmentResult of
        Some r \<Rightarrow> if confidence r \<ge> t then results @ [r] else results
      | None \<Rightarrow> results)
   = (case map_option without_id segmentResult of
        Some r \<Rightarrow> if confidence r \<ge> t then map without_id results @ [r] else map without_id results
      | None \<Rightarrow> map without_id results)"
  by (cases segmentResult) simp_all

lemma convertStroke_loop_env:
  "map without_id results = map without_id results' \<Longrightarrow>
   map_sum id (map_prod (map without_id) id)
     (fst (convertStroke_loop opts env points corners results segmentStart k))
   = map_sum id (map_prod (map without_id) id)
     (fst (convertStroke_loop opts env' points corners results' segmentStart k'))"
proof (induction corners arbitrary: results results' segmentStart k k')
  case Nil
  then show ?case by simp
next
  case (Cons cornerIndex rest)
  show ?case
  proof (cases "cornerIndex > segmentStart")
    case False
    with Cons.IH [OF Cons.prems] show ?thesis by simp
  next
    case True
    define pts where "pts = slice points segmentStart (cornerIndex + 1)"
    have eq: "map_sum id (map_option without_id) (fst (fitSegment opts env k pts))
                = map_sum id (map_option without_id) (fst (fitSegment opts env' k' pts))"
      by (rule fitSegment_env)
    obtain r1 k1 where f1: "fitSegment opts env k pts = (r1, k1)" by (cases "fitSegment opts env k pts")
    obtain r2 k2 where f2: "fitSegment opts env' k' pts = (r2, k2)" by (cases "fitSegment opts env' k' pts")
    from eq f1 f2 have req: "map_sum id (map_option without_id) r1 = map_sum id (map_option without_id) r2"
      by simp
    show ?thesis
    proof (cases r1)
      case (Inl e)
      with req have "r2 = Inl e" by (cases r2) simp_all
      with Inl True f1 f2 show ?thesis by (simp add: pts_def)
    next
      case (Inr s1)
      with req obtain s2 where r2: "r2 = Inr s2" and seq: "map_option without_id s1 = map_option without_id s2"
        by (cases r2) simp_all
      define keep where "keep = (\<lambda>(res :: GeometryFitResult list) s.
          (case s of Some r \<Rightarrow> if confidence r \<ge> confidenceThreshold opts then res @ [r] else res
           | None \<Rightarrow> res))"
      have "map without_id (keep results s1) = map without_id (keep results' s2)"
        unfolding keep_def keep_confident_without_id by (simp only: seq Cons.prems)
      from Cons.IH [OF this, of cornerIndex k1 k2] Inr r2 True f1 f2
      show ?thesis by (simp add: pts_def keep_def)
    qed
  qed
qed

text \<open>
  C2. The only readings of the environment in the conversion are the clock and the random
  number that go into the identifier of each constructed segment. Two runs of \<open>convertStroke\<close>
  by the same converter on the same stroke, in any two environments, either raise the same
  error or return lists of fits that are equal up to these identifiers: the same number of
  fits, with the same types, segment geometries, fitted parameters, errors, confidences and
  points. The corner detector reads neither clock nor random source, and its only field is its
  options: \<open>detectCorners\<close> is a function of the options and the points, and that function
  gives the corner indices that \<open>convertStroke\<close> uses.
\<close>

theorem convertStroke_deterministic:
  "map_sum id (map without_id) (fst (convertStroke this env k stroke))
   = map_sum id (map without_id) (fst (convertStroke this env' k' stroke))"
proof -
  define opts where "opts = conv_options this"
  define points where "points = map sp_position (resampledPoints stroke)"
  define corners where "corners = mergeCornerDetection (cornerIndices stroke)
                           (cd_cornerIndices (detectCorners (cornerDetector this) points))"
  show ?thesis
  proof (cases "length points < 2")
    case True
    then show ?thesis by (simp add: convertStroke_def points_def Let_def)
  next
    case False
    obtain r1 k1 where l1: "convertStroke_loop opts env points corners [] 0 k = (r1, k1)"
      by (cases "convertStroke_loop opts env points corners [] 0 k")
    obtain r2 k2 where l2: "convertStroke_loop opts env' points corners [] 0 k' = (r2, k2)"
      by (cases "convertStroke_loop opts env' points corners [] 0 k'")
    from convertStroke_loop_env [of "[]" "[]" opts env points corners 0 k env' k'] l1 l2
    have req: "map_sum id (map_prod (map without_id) id) r1 = map_sum id (map_prod (map without_id) id) r2"
      by simp
    show ?thesis
    proof (cases r1)
      case (Inl e)
      with req have "r2 = Inl e" by (cases r2) simp_all
      with Inl False l1 l2 show ?thesis
        by (simp add: convertStroke_def points_def [symmetric] opts_def [symmetric]
            corners_def [symmetric] Let_def)
    next
      case (Inr p1)
      obtain res1 s1 where p1: "p1 = (res1, s1)" by (cases p1)
      from req Inr p1 obtain res2 where r2: "r2 = Inr (res2, s1)"
        and reseq: "map without_id res1 = map without_id res2"
        by (cases r2) auto
      show ?thesis
      proof (cases "s1 + 1 < length points")
        case False
        with Inr p1 r2 reseq l1 l2 \<open>\<not> length points < 2\<close> show ?thesis
          by (simp add: convertStroke_def points_def [symmetric] opts_def [symmetric]
              corners_def [symmetric] Let_def postProcessResults_def)
      next
        case True
        define pts where "pts = drop s1 points"
        have eq: "map_sum id (map_option without_id) (fst (fitSegment opts env k1 pts))
                = map_sum id (map_option without_id) (fst (fitSegment opts env' k2 pts))"
          by (rule fitSegment_env)
        obtain q1 j1 where f1: "fitSegment opts env k1 pts = (q1, j1)" by (cases "fitSegment opts env k1 pts")
        obtain q2 j2 where f2: "fitSegment opts env' k2 pts = (q2, j2)" by (cases "fitSegment opts env' k2 pts")
        from eq f1 f2 have qeq: "map_sum id (map_option without_id) q1 = map_sum id (map_option without_id) q2"
          by simp
        show ?thesis
        proof (cases q1)
          case (Inl e)
          with qeq have "q2 = Inl e" by (cases q2) simp_all
          with Inl True Inr p1 r2 l1 l2 f1 f2 \<open>\<not> length points < 2\<close> show ?thesis
            unfolding \<open>r1 = Inr p1\<close>
            by (simp add: convertStroke_def points_def [symmetric] opts_def [symmetric]
                corners_def [symmetric] Let_def pts_def)
        next
          case q1: (Inr t1)
          with qeq obtain t2 where q2: "q2 = Inr t2" and teq: "map_option without_id t1 = map_option without_id t2"
            by (cases q2) simp_all
          have "map without_id (case t1 of Some r \<Rightarrow> if confidence r \<ge> confidenceThreshold opts
                                              then res1 @ [r] else res1 | None \<Rightarrow> res1)
              = map without_id (case t2 of Some r \<Rightarrow> if confidence r \<ge> confidenceThreshold opts
                                              then res2 @ [r] else res2 | None \<Rightarrow> res2)"
            unfolding keep_confident_without_id by (simp only: teq reseq)
          with q1 q2 True Inr p1 r2 l1 l2 f1 f2 \<open>\<not> length points < 2\<close> show ?thesis
            by (simp add: convertStroke_def points_def [symmetric] opts_def [symmetric]
                corners_def [symmetric] Let_def pts_def postProcessResults_def)
        qed
      qed
    qed
  qed
qed

section \<open>Two-point runs\<close>

subsection \<open>The fit of a run of two points\<close>

lemma fitLine_two_points:
  "\<exists>c. fitLine opts env k [p, q] =
     (Some \<lparr>segment = LineSegment (generateId env k ''line'') p q, gtype = GeometryType.LINE,
            confidence = c, fit_error = calculateLineError [p, q] p q, fit_points = [p, q],
            metadata = \<lparr>fit_method = ''least_squares_endpoints'',
                         parameters = [(''linearity'', 1)]\<rparr>\<rparr>,
      k + 1)"
  by (simp add: fitLine_def new_LineSegment_def calculateLinearity_def Let_def)

lemma fitSegment_two_points_cases:
  "fitSegment opts env k [p, q] =
     (if isSegmentTooShort opts [p, q] then (Inr None, k)
      else (Inr (fst (fitLine opts env k [p, q])), k + 1))"
proof -
  from fitLine_two_points [of opts env k p q] obtain fit where
    "fitLine opts env k [p, q] = (Some fit, k + 1)" by blast
  then show ?thesis
    by (simp add: fitSegment_def Let_def selectBestFit_def)
qed

subsection \<open>The error of the line through two points\<close>

lemma fl_distanceTo_self [simp]: "fl_distanceTo a a = 0"
  by (simp add: fl_distanceTo_def fl_length_def fl_lengthSquared_def fl_subtract_def)

lemma fl_distance_start:
  assumes "double (vx p) = vx p" and "double (vy p) = vy p"
  shows "fl_LineSegment_distanceToPoint p q p = 0"
proof -
  have pv: "fl_subtract p p = \<lparr>vx = 0, vy = 0\<rparr>" by (simp add: fl_subtract_def)
  have l0: "fl_lerp p q 0 = p" using assms by (simp add: fl_lerp_def)
  show ?thesis
    by (simp add: fl_LineSegment_distanceToPoint_def Let_def pv fl_dot_def clampParameter_def l0)
qed

lemma fl_error_exact:
  assumes "double (vx p) = vx p" and "double (vy p) = vy p" and "fl_lerp p q 1 = q"
  shows "calculateLineError [p, q] p q = 0"
proof -
  define v where "v = fl_subtract q p"
  have start: "fl_LineSegment_distanceToPoint p q p = 0"
    using assms(1,2) by (rule fl_distance_start)
  have finish: "fl_LineSegment_distanceToPoint p q q = 0"
  proof (cases "fl_lengthSquared v = 0")
    case True
    then have "fl_distanceTo q p = 0"
      by (simp add: fl_distanceTo_def fl_length_def v_def)
    with True show ?thesis
      by (simp add: fl_LineSegment_distanceToPoint_def Let_def v_def)
  next
    case False
    have "fl_dot v v = fl_lengthSquared v" by (simp add: fl_dot_def fl_lengthSquared_def)
    with False show ?thesis
      by (simp add: fl_LineSegment_distanceToPoint_def Let_def v_def [symmetric]
          clampParameter_def assms(3))
  qed
  show ?thesis
    by (simp add: calculateLineError_def start finish)
qed

lemma d07: "double (7 / 10) = 3152519739159347 / 2 ^ 52"
  by (subst double_eval [where k = 53]) (simp_all add: round_half_even_def Let_def)

lemma d01: "double (1 / 10) = 3602879701896397 / 2 ^ 55"
  by (subst double_eval [where k = 56]) (simp_all add: round_half_even_def Let_def)


lemma round_sqrt_2_105: "round_half_even (sqrt (2 ^ 105)) = 6369051672525773"
proof -
  define s :: real where "s = sqrt (2 ^ 105)"
  have lo: "(6369051672525772 + 1 / 2 :: real) < s"
    unfolding s_def by (rule real_less_rsqrt) (simp add: power2_eq_square)
  have hi: "s < 6369051672525773"
    unfolding s_def by (rule real_less_lsqrt) simp_all
  have fl: "\<lfloor>s\<rfloor> = 6369051672525772"
    by (rule floor_unique) (use lo hi in simp_all)
  have "round_half_even s = 6369051672525773"
    using lo by (simp add: round_half_even_def Let_def fl)
  then show ?thesis unfolding s_def .
qed

lemma sqrt_2_105_bounds: "2 ^ 52 \<le> sqrt (2 ^ 105)" "sqrt (2 ^ 105) < 2 ^ 53"
proof -
  show "2 ^ 52 \<le> sqrt (2 ^ 105)" by (rule real_le_rsqrt) simp
  show "sqrt (2 ^ 105) < 2 ^ 53" by (rule real_less_lsqrt) simp_all
qed

lemma sqrt_scaled: "sqrt (1 / 2 ^ 111) * 2 ^ 108 = sqrt (2 ^ 105)"
proof -
  have "(2::real) ^ 108 = sqrt (2 ^ 216)"
    by (rule real_sqrt_unique [symmetric]) simp_all
  then have "sqrt (1 / 2 ^ 111) * 2 ^ 108 = sqrt (1 / 2 ^ 111 * 2 ^ 216)"
    by (simp only: real_sqrt_mult)
  then show ?thesis by simp
qed

lemma double_sqrt_2_111: "double (sqrt (1 / 2 ^ 111)) = 6369051672525773 / 2 ^ 108"
proof -
  have pos: "0 \<le> sqrt (1 / 2 ^ 111 :: real)" by simp
  have a: "\<bar>sqrt (1 / 2 ^ 111)\<bar> * 2 ^ 108 = sqrt (2 ^ 105)"
    using sqrt_scaled pos by (simp only: abs_of_nonneg)
  have "double (sqrt (1 / 2 ^ 111))
          = of_int (round_half_even (sqrt (1 / 2 ^ 111) * 2 ^ 108)) / 2 ^ 108"
    by (rule double_eval) (simp_all only: a sqrt_2_105_bounds)
  then show ?thesis by (simp only: sqrt_scaled round_sqrt_2_105 of_int_numeral)
qed

lemma sqrt_2_110: "sqrt (1 / 2 ^ 110) = 1 / 2 ^ 55"
  by (rule real_sqrt_unique) (simp_all add: power2_eq_square)

lemma example_lerp:
  "fl_lerp example_start example_end 1 = \<lparr>vx = 900719925474099 / 2 ^ 53, vy = 25\<rparr>"
proof -
  have v: "double (3602879701896397 / 2 ^ 55 - 3152519739159347 / 2 ^ 52)
             = - (5404319552844595 / 2 ^ 53)"
    by (subst double_eval [where k = 53]) (simp_all add: round_half_even_def Let_def)
  have v1: "double (- (5404319552844595 / 2 ^ 53)) = - (5404319552844595 / 2 ^ 53)"
    by (subst double_eval [where k = 53]) (simp_all add: round_half_even_def Let_def)
  have x: "double (3152519739159347 / 2 ^ 52 + - (5404319552844595 / 2 ^ 53))
             = 900719925474099 / 2 ^ 53"
    by (subst double_eval [where k = 56]) (simp_all add: round_half_even_def Let_def)
  have y: "double 25 = 25"
    by (subst double_eval [where k = 48]) (simp_all add: round_half_even_def Let_def)
  have "vx (fl_lerp example_start example_end 1)
          = double (double (7 / 10) + double (double (double (1 / 10) - double (7 / 10)) * 1))"
    by (simp add: fl_lerp_def example_start_def example_end_def)
  also have "\<dots> = 900719925474099 / 2 ^ 53"
    by (simp only: d07 d01 v mult_1_right v1 x)
  finally have cx: "vx (fl_lerp example_start example_end 1) = 900719925474099 / 2 ^ 53" .
  have "vy (fl_lerp example_start example_end 1) = double (0 + double (double (25 - 0) * 1))"
    by (simp add: fl_lerp_def example_start_def example_end_def)
  also have "\<dots> = 25"
    by (simp only: diff_0_right y mult_1_right add_0)
  finally have cy: "vy (fl_lerp example_start example_end 1) = 25" .
  from cx cy show ?thesis by (cases "fl_lerp example_start example_end 1") simp
qed


lemma double_inverse_power2: "double (1 / 2 ^ n) = 1 / 2 ^ n"
proof -
  have "double (1 / 2 ^ n) = of_int (round_half_even (1 / 2 ^ n * 2 ^ (n + 52))) / 2 ^ (n + 52)"
    by (rule double_eval) (simp_all add: power_add)
  then show ?thesis by (simp add: power_add)
qed

lemma example_error:
  "calculateLineError [example_start, example_end] example_start example_end
     = 6369051672525773 / 2 ^ 108"
proof -
  define v where "v = fl_subtract example_end example_start"
  define c where "c = fl_lerp example_start example_end 1"
  have "double (3152519739159347 / 2 ^ 52) = 3152519739159347 / 2 ^ 52"
    by (subst double_eval [where k = 53]) (simp_all add: round_half_even_def Let_def)
  then have s: "double (vx example_start) = vx example_start"
    "double (vy example_start) = vy example_start"
    by (simp_all add: example_start_def d07)
  have start: "fl_LineSegment_distanceToPoint example_start example_end example_start = 0"
    using s by (rule fl_distance_start)
  have "0 < double (vx v * vx v) + double (vy v * vy v)"
  proof -
    have "0 \<le> double (vx v * vx v)" by (rule double_nonneg) simp
    moreover have "vy v = 25"
      unfolding v_def fl_subtract_def example_start_def example_end_def
      by (subst double_eval [where k = 48]; simp add: round_half_even_def Let_def)
    then have "0 < double (vy v * vy v)" by (intro double_pos) simp
    ultimately show ?thesis by linarith
  qed
  then have L: "0 < fl_lengthSquared v"
    unfolding fl_lengthSquared_def by (rule double_pos)
  have dot: "fl_dot v v = fl_lengthSquared v"
    by (simp add: fl_dot_def fl_lengthSquared_def)
  have c: "c = \<lparr>vx = 900719925474099 / 2 ^ 53, vy = 25\<rparr>"
    unfolding c_def by (rule example_lerp)
  have w: "fl_subtract example_end c = \<lparr>vx = 1 / 2 ^ 55, vy = 0\<rparr>"
  proof -
    have "double (3602879701896397 / 2 ^ 55 - 900719925474099 / 2 ^ 53) = 1 / 2 ^ 55"
      by (subst double_eval [where k = 107]) (simp_all add: round_half_even_def Let_def)
    then show ?thesis
      by (simp add: fl_subtract_def c example_end_def d01)
  qed
  have sq: "(1 / 2 ^ 55 :: real) * (1 / 2 ^ 55) = 1 / 2 ^ 110" by simp
  have d: "fl_distanceTo example_end c = 1 / 2 ^ 55"
    unfolding fl_distanceTo_def fl_length_def fl_lengthSquared_def w Vec2.simps sq
    by (simp only: double_inverse_power2 mult_zero_left double_0 add_0_right sqrt_2_110)
  have finish: "fl_LineSegment_distanceToPoint example_start example_end example_end = 1 / 2 ^ 55"
    using L
    by (simp add: fl_LineSegment_distanceToPoint_def Let_def v_def [symmetric] dot
        clampParameter_def c_def [symmetric] d)
  have half: "(1 / 2 ^ 110 :: real) / 2 = 1 / 2 ^ 111" by simp
  have "calculateLineError [example_start, example_end] example_start example_end
          = double (sqrt (double (double (0 + double (1 / 2 ^ 55 * (1 / 2 ^ 55))) / 2)))"
    by (simp add: calculateLineError_def start finish)
  also have "\<dots> = 6369051672525773 / 2 ^ 108"
    by (simp only: sq add_0 double_inverse_power2 half double_sqrt_2_111)
  finally show ?thesis .
qed


text \<open>
  C5 (amended). \<open>fitLine\<close> on a run of exactly two points returns a fit of type line whose
  segment runs from the first point to the second and whose points are the two points.
  \<open>fitSegment\<close> returns no fit when \<open>isSegmentTooShort\<close> holds, that is when the distance of
  the two points, as double arithmetic computes it, is below \<open>minSegmentLength\<close>, and
  otherwise the fit of \<open>fitLine\<close>, the only candidate. The RMS error of the fit is
  \<open>calculateLineError\<close> of the two points, in double arithmetic; it is zero when
  \<open>start + (end - start) * 1\<close> is computed as the end point. This last part is stated for
  points whose coordinates are doubles below \<open>2 ^ 500\<close> in magnitude, where no operation of
  the computation overflows.
\<close>

theorem fitSegment_two_points:
  "(\<exists>fit. fitLine opts env k [p, q] = (Some fit, k + 1)
        \<and> segment fit = LineSegment (generateId env k ''line'') p q
        \<and> gtype fit = GeometryType.LINE
        \<and> fit_points fit = [p, q]
        \<and> fit_error fit = calculateLineError [p, q] p q
        \<and> fitSegment opts env k [p, q] =
            (if isSegmentTooShort opts [p, q] then (Inr None, k) else (Inr (Some fit), k + 1)))
   \<and> isSegmentTooShort opts [p, q] = (fl_distanceTo p q < minSegmentLength opts)
   \<and> (double (vx p) = vx p \<and> double (vy p) = vy p
        \<and> \<bar>vx p\<bar> < 2 ^ 500 \<and> \<bar>vy p\<bar> < 2 ^ 500 \<and> \<bar>vx q\<bar> < 2 ^ 500 \<and> \<bar>vy q\<bar> < 2 ^ 500
        \<and> fl_lerp p q 1 = q \<longrightarrow>
        calculateLineError [p, q] p q = 0)"
proof -
  from fitLine_two_points [of opts env k p q] obtain c where
    fit: "fitLine opts env k [p, q] =
     (Some \<lparr>segment = LineSegment (generateId env k ''line'') p q, gtype = GeometryType.LINE,
            confidence = c, fit_error = calculateLineError [p, q] p q, fit_points = [p, q],
            metadata = \<lparr>fit_method = ''least_squares_endpoints'',
                         parameters = [(''linearity'', 1)]\<rparr>\<rparr>,
      k + 1)" by blast
  have seg: "fitSegment opts env k [p, q] =
     (if isSegmentTooShort opts [p, q] then (Inr None, k)
      else (Inr (fst (fitLine opts env k [p, q])), k + 1))"
    by (rule fitSegment_two_points_cases)
  have short: "isSegmentTooShort opts [p, q] = (fl_distanceTo p q < minSegmentLength opts)"
    by (simp add: isSegmentTooShort_def Let_def)
  have err: "double (vx p) = vx p \<and> double (vy p) = vy p
        \<and> \<bar>vx p\<bar> < 2 ^ 500 \<and> \<bar>vy p\<bar> < 2 ^ 500 \<and> \<bar>vx q\<bar> < 2 ^ 500 \<and> \<bar>vy q\<bar> < 2 ^ 500
        \<and> fl_lerp p q 1 = q \<longrightarrow>
        calculateLineError [p, q] p q = 0"
    using fl_error_exact [of p q] by blast
  from fit seg short err show ?thesis by simp
qed

lemma sqrt_900: "sqrt 900 = 30"
  by (rule real_sqrt_unique) simp_all

lemma double_30: "double 30 = 30"
  by (subst double_eval [where k = 48]) (simp_all add: round_half_even_def Let_def)

lemma example_distance_30: "fl_distanceTo \<lparr>vx = 0, vy = 0\<rparr> \<lparr>vx = 30, vy = 0\<rparr> = 30"
  by (simp add: fl_distanceTo_def fl_length_def fl_lengthSquared_def fl_subtract_def
      double_minus double_30 double_900 sqrt_900)

lemma example_distance_1: "fl_distanceTo \<lparr>vx = 0, vy = 0\<rparr> \<lparr>vx = 1, vy = 0\<rparr> = 1"
  by (simp add: fl_distanceTo_def fl_length_def fl_lengthSquared_def fl_subtract_def
      double_minus)

theorem fitSegment_two_points_witness:
  "\<not> isSegmentTooShort DEFAULT_CONVERSION_OPTIONS [\<lparr>vx = 0, vy = 0\<rparr>, \<lparr>vx = 30, vy = 0\<rparr>]
   \<and> double 0 = 0 \<and> \<bar>0 :: real\<bar> < 2 ^ 500 \<and> \<bar>30 :: real\<bar> < 2 ^ 500
   \<and> fl_lerp \<lparr>vx = 0, vy = 0\<rparr> \<lparr>vx = 30, vy = 0\<rparr> 1 = \<lparr>vx = 30, vy = 0\<rparr>
   \<and> (\<exists>fit. fitSegment DEFAULT_CONVERSION_OPTIONS example_env 0
                [\<lparr>vx = 0, vy = 0\<rparr>, \<lparr>vx = 30, vy = 0\<rparr>] = (Inr (Some fit), 1)
         \<and> segment fit = LineSegment (generateId example_env 0 ''line'')
                            \<lparr>vx = 0, vy = 0\<rparr> \<lparr>vx = 30, vy = 0\<rparr>
         \<and> gtype fit = GeometryType.LINE
         \<and> fit_points fit = [\<lparr>vx = 0, vy = 0\<rparr>, \<lparr>vx = 30, vy = 0\<rparr>]
         \<and> fit_error fit = 0)"
proof -
  let ?p = "\<lparr>vx = 0, vy = 0 :: real\<rparr>" and ?q = "\<lparr>vx = 30, vy = 0 :: real\<rparr>"
  have h1: "\<not> isSegmentTooShort DEFAULT_CONVERSION_OPTIONS [?p, ?q]"
    by (simp add: isSegmentTooShort_def Let_def example_distance_30
        DEFAULT_CONVERSION_OPTIONS_def)
  note d30 = double_30
  have h2: "double (vx ?p) = vx ?p" "double (vy ?p) = vy ?p" by simp_all
  have h3: "fl_lerp ?p ?q 1 = ?q" by (simp add: fl_lerp_def d30)
  have h4: "\<bar>0 :: real\<bar> < 2 ^ 500" "\<bar>30 :: real\<bar> < 2 ^ 500" by simp_all
  from fitSegment_two_points [of DEFAULT_CONVERSION_OPTIONS example_env 0 ?p ?q] h1
  obtain fit where f: "fitSegment DEFAULT_CONVERSION_OPTIONS example_env 0 [?p, ?q]
                     = (Inr (Some fit), 1)"
    "segment fit = LineSegment (generateId example_env 0 ''line'') ?p ?q"
    "gtype fit = GeometryType.LINE" "fit_points fit = [?p, ?q]"
    "fit_error fit = calculateLineError [?p, ?q] ?p ?q"
    by auto
  from fitSegment_two_points [of DEFAULT_CONVERSION_OPTIONS example_env 0 ?p ?q] h2 h3 h4
  have "calculateLineError [?p, ?q] ?p ?q = 0" by simp
  with f have "fit_error fit = 0" by simp
  with f h1 h3 h4 show ?thesis by auto
qed

lemma example_not_short:
  "\<not> isSegmentTooShort DEFAULT_CONVERSION_OPTIONS [example_start, example_end]"
proof -
  define w where "w = fl_subtract example_start example_end"
  have wy: "vy w = - 25"
    unfolding w_def fl_subtract_def example_start_def example_end_def
    by (simp add: double_minus)
       (subst double_eval [where k = 48]; simp add: round_half_even_def Let_def)
  have d625: "double 625 = 625"
    by (subst double_eval [where k = 43]) (simp_all add: round_half_even_def Let_def)
  have d25: "double 25 = 25"
    by (subst double_eval [where k = 48]) (simp_all add: round_half_even_def Let_def)
  have "0 \<le> double (vx w * vx w)" by (rule double_nonneg) simp
  then have "625 \<le> double (vx w * vx w) + double (vy w * vy w)"
    by (simp add: wy d625)
  then have "double 625 \<le> fl_lengthSquared w"
    unfolding fl_lengthSquared_def by (rule double_mono)
  then have "625 \<le> fl_lengthSquared w" by (simp only: d625)
  then have "25 \<le> sqrt (fl_lengthSquared w)"
    by (intro real_le_rsqrt) simp
  then have "double 25 \<le> fl_length w"
    unfolding fl_length_def by (rule double_mono)
  then have "20 \<le> fl_distanceTo example_start example_end"
    by (simp add: d25 fl_distanceTo_def w_def)
  then show ?thesis
    by (simp add: isSegmentTooShort_def Let_def DEFAULT_CONVERSION_OPTIONS_def)
qed

lemma example_fit_error:
  "map_sum id (map_option fit_error)
     (fst (fitSegment DEFAULT_CONVERSION_OPTIONS example_env 0 [example_start, example_end]))
     = Inr (Some (6369051672525773 / 2 ^ 108))"
proof -
  from fitLine_two_points [of DEFAULT_CONVERSION_OPTIONS example_env 0 example_start example_end]
  obtain c where "fitLine DEFAULT_CONVERSION_OPTIONS example_env 0 [example_start, example_end] =
     (Some \<lparr>segment = LineSegment (generateId example_env 0 ''line'') example_start example_end,
            gtype = GeometryType.LINE, confidence = c,
            fit_error = calculateLineError [example_start, example_end] example_start example_end,
            fit_points = [example_start, example_end],
            metadata = \<lparr>fit_method = ''least_squares_endpoints'',
                         parameters = [(''linearity'', 1)]\<rparr>\<rparr>,
      0 + 1)" by blast
  then show ?thesis
    by (simp add: fitSegment_two_points_cases example_not_short example_error)
qed

text \<open>
  C5, as stated, fails for a run of two points closer than the minimum segment length: with
  the default options (minimum 20) the points \<open>(0, 0)\<close> and \<open>(1, 0)\<close> get no fit. It fails
  also where a line is fitted: for the points \<open>(0.7, 0)\<close> and \<open>(0.1, 25)\<close> the sum
  \<open>0.7 + (0.1 - 0.7) * 1\<close> is computed as \<open>0.09999999999999998\<close>, which is \<open>1 / 2 ^ 55\<close>
  below the end point, and the RMS error of the fit is \<open>6369051672525773 / 2 ^ 108\<close>, about
  \<open>1.96e-17\<close>, not zero.
\<close>

theorem fitSegment_short_run_counterexample:
  "length [\<lparr>vx = 0, vy = 0\<rparr>, \<lparr>vx = 1, vy = 0 :: real\<rparr>] = 2
   \<and> fitSegment DEFAULT_CONVERSION_OPTIONS example_env 0 [\<lparr>vx = 0, vy = 0\<rparr>, \<lparr>vx = 1, vy = 0\<rparr>]
       = (Inr None, 0)
   \<and> length [example_start, example_end] = 2
   \<and> fl_lerp example_start example_end 1 = \<lparr>vx = 900719925474099 / 2 ^ 53, vy = 25\<rparr>
   \<and> vx example_end = 900719925474099 / 2 ^ 53 + 1 / 2 ^ 55
   \<and> map_sum id (map_option fit_error)
         (fst (fitSegment DEFAULT_CONVERSION_OPTIONS example_env 0 [example_start, example_end]))
       = Inr (Some (6369051672525773 / 2 ^ 108))"
proof -
  have short: "fitSegment DEFAULT_CONVERSION_OPTIONS example_env 0
                 [\<lparr>vx = 0, vy = 0\<rparr>, \<lparr>vx = 1, vy = 0\<rparr>] = (Inr None, 0)"
    by (simp add: fitSegment_def isSegmentTooShort_def DEFAULT_CONVERSION_OPTIONS_def
        example_distance_1 Let_def)
  have e: "vx example_end = 900719925474099 / 2 ^ 53 + 1 / 2 ^ 55"
    by (simp add: example_end_def d01)
  from short e example_lerp example_fit_error show ?thesis by simp
qed

section \<open>The undo hold\<close>











end
